theory Spec2Isabelle
  imports Main "HOL-Library.Sublist"
begin

section \<open>Abstract syntax of the declaration files\<close>

text \<open>
  The repository consists of three TypeScript declaration files for MapKit JS:
  \<^verbatim>\<open>src/mapkit.d.ts\<close>, \<^verbatim>\<open>src/unnamed/part_000\<close> and \<^verbatim>\<open>src/unnamed/part_001\<close>.
  They hold declarations only, so the program is modelled as the data it is: the
  syntax tree of every declaration, in source order. Comments and the separators
  between members are the only tokens that are not represented; parentheses around
  a type are represented by the shape of the tree.
\<close>

text \<open>
  Type expressions. The keyword types have a constructor each; every other name
  (also a qualified one such as \<^verbatim>\<open>Map.ColorSchemes\<close>) is a reference. A parameter
  records its name, whether it is marked optional with \<^verbatim>\<open>?\<close>, and its type annotation
  when it has one (\<^verbatim>\<open>(error, data: GeocodeResponse) => void\<close> leaves \<^verbatim>\<open>error\<close> without).
\<close>

datatype ty =
    TNumber | TString | TBoolean | TAny | TVoid | TNull | TObject
  | TRef string
  | TApp string "ty list"
  | TArray ty
  | TUnion "ty list"
  | TFun "param list" ty
  | TObjLit "(string \<times> ty) list"
  | TTuple "ty list"
  | TKeyof ty
  | TIndexed ty ty
and param = Param (param_name: string) (param_optional: bool) (param_type: "ty option")

text \<open>A type parameter with its \<^verbatim>\<open>extends\<close> constraint, as in \<^verbatim>\<open><K extends keyof T>\<close>.\<close>

datatype tparam = TParam string "ty option"

text \<open>
  A function body would be a list of statements (kept as source text); an enum member
  or a variable can be initialised with a literal.
\<close>

type_synonym block = "string list"

datatype literal = NumLit int | StrLit string

text \<open>
  Members of a class or an interface: a property (name, optional, type annotation), a
  method (name, optional, type parameters, parameters, return type annotation, body)
  and a constructor (parameters, body).
\<close>

datatype member =
    MProperty string bool "ty option"
  | MMethod string bool "tparam list" "param list" "ty option" "block option"
  | MConstructor "param list" "block option"

text \<open>
  Top-level declarations. The modifier is \<^verbatim>\<open>export\<close>, \<^verbatim>\<open>declare\<close> or neither. A class
  records whether it is abstract, its type parameters, the class it extends and the
  interfaces it implements; an interface the interfaces it extends.
\<close>

datatype modifier = Plain | Exported | Ambient

datatype varkind = Let | Const | Var

datatype decl =
    DExportAsNamespace string
  | DFunction modifier string "tparam list" "param list" "ty option" "block option"
  | DTypeAlias modifier string ty
  | DVariable modifier varkind string "ty option" "literal option"
  | DInterface modifier string "ty list" "member list"
  | DClass modifier bool string "tparam list" "ty option" "ty list" "member list"
  | DEnum modifier string "(string \<times> literal option) list"
  | DNamespace modifier string "decl list"

section \<open>The declarations of \<^verbatim>\<open>src/mapkit.d.ts\<close>\<close>

text \<open>\<^verbatim>\<open>src/mapkit.d.ts\<close>, line 7.\<close>

definition mapkit_d_ts_init :: decl where
  "mapkit_d_ts_init =
    DFunction Plain ''init'' []
      [Param ''options'' False (Some (TRef ''MapKitInitOptions''))]
      (Some TVoid) None"

text \<open>\<^verbatim>\<open>src/mapkit.d.ts\<close>, line 10.\<close>

definition mapkit_d_ts_addEventListener :: decl where
  "mapkit_d_ts_addEventListener =
    DFunction Plain ''addEventListener'' []
      [Param ''type'' False (Some TString),
       Param ''listener'' False (Some (TFun [Param ''Event'' False None] TVoid)),
       Param ''thisObject'' True (Some TAny)]
      None None"

text \<open>\<^verbatim>\<open>src/mapkit.d.ts\<close>, line 13.\<close>

definition mapkit_d_ts_removeEventListener :: decl where
  "mapkit_d_ts_removeEventListener =
    DFunction Plain ''removeEventListener'' []
      [Param ''type'' False (Some TString),
       Param ''listener'' False (Some (TFun [Param ''Event'' False None] TVoid)),
       Param ''thisObject'' True (Some TAny)]
      None None"

text \<open>\<^verbatim>\<open>src/mapkit.d.ts\<close>, line 15.\<close>

definition mapkit_d_ts_maps :: decl where
  "mapkit_d_ts_maps =
    DTypeAlias Plain ''maps'' (TTuple [TRef ''Map''])"

text \<open>\<^verbatim>\<open>src/mapkit.d.ts\<close>, lines 17 to 26.\<close>

definition mapkit_d_ts_MapKitInitOptions :: decl where
  "mapkit_d_ts_MapKitInitOptions =
    DInterface Plain ''MapKitInitOptions'' [] [
      MProperty ''authorizationCallback'' False
        (Some (TFun
                [Param ''done'' False (Some (TFun [Param ''jwt'' False (Some TString)] TVoid))]
                TVoid)),
      MProperty ''language'' True (Some TString)]"

text \<open>\<^verbatim>\<open>src/mapkit.d.ts\<close>, lines 28 to 49.\<close>

definition mapkit_d_ts_Coordinate :: decl where
  "mapkit_d_ts_Coordinate =
    DClass Plain False ''Coordinate'' [] None [] [
      MConstructor
        [Param ''latitude'' False (Some TNumber),
         Param ''longitude'' False (Some TNumber)]
        None,
      MProperty ''latitude'' False (Some TNumber),
      MProperty ''longitude'' False (Some TNumber),
      MMethod ''copy'' False [] [] (Some (TRef ''Coordinate'')) None,
      MMethod ''equals'' False []
        [Param ''other'' False (Some (TRef ''Coordinate''))]
        (Some TBoolean) None,
      MMethod ''toMapPoint'' False [] [] (Some (TRef ''MapPoint'')) None,
      MMethod ''toUnwrappedMapPoint'' False [] [] (Some (TRef ''MapPoint'')) None]"

text \<open>\<^verbatim>\<open>src/mapkit.d.ts\<close>, lines 51 to 125.\<close>

definition mapkit_d_ts_MapConstructorOptions :: decl where
  "mapkit_d_ts_MapConstructorOptions =
    DInterface Plain ''MapConstructorOptions'' [] [
      MProperty ''visibleMapRect'' True (Some (TRef ''MapRect'')),
      MProperty ''region'' True (Some (TRef ''CoordinateRegion'')),
      MProperty ''center'' True (Some (TRef ''Coordinate'')),
      MProperty ''rotation'' True (Some TNumber),
      MProperty ''tintColor'' True (Some TString),
      MProperty ''colorScheme'' True (Some (TRef ''Map.ColorSchemes'')),
      MProperty ''mapType'' True (Some (TRef ''Map.MapTypes'')),
      MProperty ''padding'' True (Some (TRef ''Padding'')),
      MProperty ''showsMapTypeControl'' True (Some TBoolean),
      MProperty ''isRotationEnabled'' True (Some TBoolean),
      MProperty ''showsCompass'' True (Some (TRef ''FeatureVisibility'')),
      MProperty ''isZoomEnabled'' True (Some TBoolean),
      MProperty ''showsZoomControl'' True (Some TBoolean),
      MProperty ''isScrollEnabled'' True (Some TBoolean),
      MProperty ''showsScale'' True (Some (TRef ''FeatureVisibility'')),
      MProperty ''annotationForCluster'' True (Some (TRef ''Annotation'')),
      MProperty ''annotations'' True (Some (TArray (TRef ''Annotation''))),
      MProperty ''selectedAnnotation'' True (Some (TUnion [TRef ''Annotation'', TNull])),
      MProperty ''overlays'' True (Some (TArray (TRef ''Overlay''))),
      MProperty ''selectedOverlay'' True (Some (TUnion [TRef ''Overlay'', TNull])),
      MProperty ''showsPointsOfInterest'' True (Some TBoolean),
      MProperty ''showsUserLocation'' True (Some TBoolean),
      MProperty ''tracksUserLocation'' True (Some TBoolean),
      MProperty ''showsUserLocationControl'' True (Some TBoolean)]"

text \<open>\<^verbatim>\<open>src/mapkit.d.ts\<close>, lines 128 to 293.\<close>

definition mapkit_d_ts_Map :: decl where
  "mapkit_d_ts_Map =
    DClass Plain False ''Map'' [] None [] [
      MConstructor
        [Param ''parent'' True (Some (TUnion [TString, TRef ''Element''])),
         Param ''options'' True (Some (TRef ''MapConstructorOptions''))]
        None,
      MMethod ''addEventListener'' False []
        [Param ''type'' False (Some TString),
         Param ''listener'' False (Some (TFun [Param ''Map'' False None] TVoid)),
         Param ''thisObject'' True (Some TAny)]
        None None,
      MMethod ''removeEventListener'' False []
        [Param ''type'' False (Some TString),
         Param ''listener'' False (Some (TFun [Param ''Map'' False None] TVoid)),
         Param ''thisObject'' True (Some TAny)]
        None None,
      MProperty ''isRotationAvailable'' False (Some TBoolean),
      MProperty ''isRotationEnabled'' False (Some TBoolean),
      MProperty ''isScrollEnabled'' False (Some TBoolean),
      MProperty ''isZoomEnabled'' False (Some TBoolean),
      MProperty ''center'' False (Some (TRef ''Coordinate'')),
      MMethod ''setCenterAnimated'' False []
        [Param ''coordinate'' False (Some (TRef ''Coordinate'')),
         Param ''animate'' True (Some TBoolean)]
        (Some (TRef ''Map'')) None,
      MProperty ''region'' False (Some (TRef ''CoordinateRegion'')),
      MMethod ''setRegionAnimated'' False []
        [Param ''egion'' False (Some (TRef ''CoordinateRegion'')),
         Param ''animate'' True (Some TBoolean)]
        (Some (TRef ''Map'')) None,
      MProperty ''rotation'' False (Some TNumber),
      MMethod ''setRotationAnimated'' False []
        [Param ''degrees'' False (Some TNumber),
         Param ''animate'' True (Some TBoolean)]
        (Some (TRef ''Map'')) None,
      MProperty ''visibleMapRect'' False (Some (TRef ''MapRect'')),
      MMethod ''setVisibleMapRectAnimated'' False []
        [Param ''mapRect'' False (Some (TRef ''MapRect'')),
         Param ''animate'' True (Some TBoolean)]
        (Some (TRef ''Map'')) None,
      MProperty ''colorScheme'' False (Some (TRef ''Map.ColorSchemes'')),
      MProperty ''distances'' False (Some (TRef ''Map.Distances'')),
      MProperty ''mapType'' False (Some (TRef ''Map.MapTypes'')),
      MProperty ''padding'' False (Some (TRef ''Padding'')),
      MProperty ''showsCompass'' False (Some (TRef ''FeatureVisibility'')),
      MProperty ''showsMapTypeControl'' False (Some TBoolean),
      MProperty ''showsZoomControl'' False (Some TBoolean),
      MProperty ''showsUserLocationControl'' False (Some TBoolean),
      MProperty ''showsPointsOfInterest'' False (Some TBoolean),
      MProperty ''showsScale'' False (Some (TRef ''FeatureVisibility'')),
      MProperty ''tintColor'' False (Some TString),
      MMethod ''showItems'' False []
        [Param ''items'' False (Some (TArray (TUnion [TRef ''Annotation'', TRef ''Overlay'']))),
         Param ''options'' True (Some (TRef ''MapShowItemsOptions''))]
        None None,
      MProperty ''annotationForCluster'' True (Some (TRef ''Annotation'')),
      MProperty ''annotations'' True (Some (TArray (TRef ''Annotation''))),
      MProperty ''selectedAnnotation'' True (Some (TUnion [TRef ''Annotation'', TNull])),
      MMethod ''annotationsInMapRect'' False []
        [Param ''mapRect'' False (Some (TRef ''MapRect''))]
        (Some (TArray (TRef ''Annotation''))) None,
      MMethod ''addAnnotation'' False []
        [Param ''annotation'' False (Some (TRef ''Annotation''))]
        None None,
      MMethod ''addAnnotations'' False []
        [Param ''annotations'' False (Some (TArray (TRef ''Annotation'')))]
        None None,
      MMethod ''removeAnnotation'' False []
        [Param ''annotation'' False (Some (TRef ''Annotation''))]
        None None,
      MMethod ''removeAnnotations'' False []
        [Param ''annotations'' False (Some (TArray (TRef ''Annotation'')))]
        None None,
      MProperty ''overlays'' False (Some (TArray (TRef ''Overlay''))),
      MProperty ''selectedOverlay'' False (Some (TUnion [TRef ''Overlay'', TNull])),
      MMethod ''overlaysAtPoint'' False []
        [Param ''point'' False (Some (TRef ''DOMPoint''))]
        (Some (TArray (TRef ''Overlay''))) None,
      MMethod ''addOverlay'' False []
        [Param ''overlay'' False (Some (TRef ''Overlay''))]
        None None,
      MMethod ''addOverlays'' False []
        [Param ''overlays'' False (Some (TArray (TRef ''Overlay'')))]
        None None,
      MMethod ''removeOverlay'' False []
        [Param ''overlay'' False (Some (TRef ''Overlay''))]
        None None,
      MMethod ''removeOverlays'' False []
        [Param ''overlays'' False (Some (TArray (TRef ''Overlay'')))]
        None None,
      MMethod ''topOverlayAtPoint'' False []
        [Param ''point'' False (Some (TRef ''DOMPoint''))]
        (Some (TRef ''Overlay'')) None,
      MProperty ''tileOverlays'' False (Some (TArray (TRef ''TileOverlay''))),
      MMethod ''addTileOverlay'' False []
        [Param ''overlay'' False (Some (TRef ''TileOverlay''))]
        None None,
      MMethod ''addTileOverlays'' False []
        [Param ''overlays'' False (Some (TArray (TRef ''TileOverlay'')))]
        None None,
      MMethod ''removeTileOverlay'' False []
        [Param ''overlay'' False (Some (TRef ''TileOverlay''))]
        None None,
      MMethod ''removeTileOverlays'' False []
        [Param ''overlays'' False (Some (TArray (TRef ''TileOverlay'')))]
        None None,
      MProperty ''showsUserLocation'' False (Some TBoolean),
      MProperty ''tracksUserLocation'' False (Some TBoolean),
      MProperty ''userLocationAnnotation'' False (Some (TUnion [TRef ''Annotation'', TNull])),
      MMethod ''convertCoordinateToPointOnPage'' False []
        [Param ''coordinate'' False (Some (TRef ''Coordinate''))]
        (Some (TRef ''DOMPoint'')) None,
      MMethod ''convertPointOnPageToCoordinate'' False []
        [Param ''point'' False (Some (TRef ''DOMPoint''))]
        (Some (TRef ''Coordinate'')) None,
      MMethod ''destroy'' False [] [] (Some TVoid) None,
      MProperty ''element'' False (Some (TRef ''Element''))]"

text \<open>\<^verbatim>\<open>src/mapkit.d.ts\<close>, lines 295 to 332.\<close>

definition mapkit_d_ts_Map_namespace :: decl where
  "mapkit_d_ts_Map_namespace =
    DNamespace Plain ''Map'' [
      DEnum Plain ''MapTypes'' [
        (''Hybrid'', Some (StrLit ''Hybrid'')),
        (''Satellite'', Some (StrLit ''Satellite'')),
        (''Standard'', Some (StrLit ''Standard'')),
        (''MutedStandard'', Some (StrLit ''MutedStandard''))],
      DEnum Plain ''ColorSchemes'' [
        (''Light'', Some (StrLit ''Light'')),
        (''Dark'', Some (StrLit ''Dark''))],
      DEnum Plain ''Distances'' [
        (''Adaptive'', Some (StrLit ''Adaptive'')),
        (''Metric'', Some (StrLit ''Metric'')),
        (''Imperial'', Some (StrLit ''Imperial''))]]"

text \<open>\<^verbatim>\<open>src/mapkit.d.ts\<close>, lines 335 to 346.\<close>

definition mapkit_d_ts_MapShowItemsOptions :: decl where
  "mapkit_d_ts_MapShowItemsOptions =
    DInterface Plain ''MapShowItemsOptions'' [] [
      MProperty ''animate'' True (Some TBoolean),
      MProperty ''minimumSpan'' True (Some (TRef ''CoordinateSpan'')),
      MProperty ''padding'' False (Some (TRef ''Padding''))]"

text \<open>\<^verbatim>\<open>src/mapkit.d.ts\<close>, lines 348 to 367.\<close>

definition mapkit_d_ts_MapPoint :: decl where
  "mapkit_d_ts_MapPoint =
    DClass Plain False ''MapPoint'' [] None [] [
      MConstructor [Param ''x'' False (Some TNumber), Param ''y'' False (Some TNumber)] None,
      MProperty ''x'' False (Some TNumber),
      MProperty ''y'' False (Some TNumber),
      MProperty ''copy'' False (Some (TRef ''MapPoint'')),
      MMethod ''equals'' False []
        [Param ''other'' False (Some (TRef ''MapPoint''))]
        (Some TBoolean) None,
      MMethod ''toCoordinate'' False [] [] (Some (TRef ''Coordinate'')) None]"

text \<open>\<^verbatim>\<open>src/mapkit.d.ts\<close>, lines 370 to 376.\<close>

definition mapkit_d_ts_MapSize :: decl where
  "mapkit_d_ts_MapSize =
    DClass Plain False ''MapSize'' [] None [] [
      MConstructor
        [Param ''width'' False (Some TNumber),
         Param ''height'' False (Some TNumber)]
        None,
      MProperty ''width'' False (Some TNumber),
      MProperty ''height'' False (Some TNumber)]"

text \<open>\<^verbatim>\<open>src/mapkit.d.ts\<close>, lines 379 to 418.\<close>

definition mapkit_d_ts_MapRect :: decl where
  "mapkit_d_ts_MapRect =
    DClass Plain False ''MapRect'' [] None [] [
      MConstructor
        [Param ''x'' False (Some TNumber),
         Param ''y'' False (Some TNumber),
         Param ''width'' False (Some TNumber),
         Param ''height'' False (Some TNumber)]
        None,
      MProperty ''origin'' False (Some (TRef ''MapPoint'')),
      MProperty ''size'' False (Some (TRef ''MapSize'')),
      MProperty ''maxX'' False (Some TNumber),
      MProperty ''maxY'' False (Some TNumber),
      MProperty ''midX'' False (Some TNumber),
      MProperty ''midY'' False (Some TNumber),
      MProperty ''minX'' False (Some TNumber),
      MProperty ''minY'' False (Some TNumber),
      MMethod ''copy'' False [] [] (Some (TRef ''MapRect'')) None,
      MMethod ''equals'' False []
        [Param ''other'' False (Some (TRef ''MapRect''))]
        (Some TBoolean) None,
      MMethod ''scale'' False []
        [Param ''scaleFactor'' False (Some TNumber),
         Param ''scaleCenter'' False (Some (TRef ''MapPoint''))]
        None None,
      MMethod ''toCoordinateRegion'' False [] [] (Some (TRef ''CoordinateRegion'')) None]"

text \<open>\<^verbatim>\<open>src/mapkit.d.ts\<close>, lines 421 to 442.\<close>

definition mapkit_d_ts_CoordinateRegion :: decl where
  "mapkit_d_ts_CoordinateRegion =
    DClass Plain False ''CoordinateRegion'' [] None [] [
      MConstructor
        [Param ''center'' False (Some (TRef ''Coordinate'')),
         Param ''span'' False (Some (TRef ''CoordinateSpan''))]
        None,
      MProperty ''center'' False (Some (TRef ''Coordinate'')),
      MProperty ''span'' False (Some (TRef ''CoordinateSpan'')),
      MMethod ''copy'' False [] [] (Some (TRef ''CoordinateRegion'')) None,
      MMethod ''equals'' False []
        [Param ''other'' False (Some (TRef ''CoordinateRegion''))]
        (Some TBoolean) None,
      MMethod ''toBoundingRegion'' False [] [] (Some (TRef ''BoundingRegion'')) None,
      MMethod ''toMapRect'' False [] [] (Some (TRef ''MapRect'')) None]"

text \<open>\<^verbatim>\<open>src/mapkit.d.ts\<close>, lines 445 to 458.\<close>

definition mapkit_d_ts_CoordinateSpan :: decl where
  "mapkit_d_ts_CoordinateSpan =
    DClass Plain False ''CoordinateSpan'' [] None [] [
      MConstructor
        [Param ''latitudeDelta'' False (Some TNumber),
         Param ''longitudeDelta'' False (Some TNumber)]
        None,
      MProperty ''latitudeDelta'' False (Some TNumber),
      MProperty ''longitudeDelta'' False (Some TNumber),
      MMethod ''copy'' False [] [] (Some (TRef ''CoordinateSpan'')) None,
      MMethod ''equals'' False []
        [Param ''other'' False (Some (TRef ''CoordinateSpan''))]
        (Some TBoolean) None]"

text \<open>\<^verbatim>\<open>src/mapkit.d.ts\<close>, lines 461 to 473.\<close>

definition mapkit_d_ts_BoundingRegion :: decl where
  "mapkit_d_ts_BoundingRegion =
    DClass Plain False ''BoundingRegion'' [] None [] [
      MConstructor
        [Param ''northLatitude'' False (Some TNumber),
         Param ''eastLongitude'' False (Some TNumber),
         Param ''southLatitude'' False (Some TNumber),
         Param ''westLongitude'' False (Some TNumber)]
        None,
      MProperty ''northLatitude'' False (Some TNumber),
      MProperty ''eastLongitude'' False (Some TNumber),
      MProperty ''southLatitude'' False (Some TNumber),
      MProperty ''westLongitude'' False (Some TNumber),
      MMethod ''copy'' False [] [] (Some (TRef ''BoundingRegion'')) None,
      MMethod ''toCoordinateRegion'' False [] [] (Some (TRef ''CoordinateRegion'')) None]"

text \<open>\<^verbatim>\<open>src/mapkit.d.ts\<close>, lines 475 to 481.\<close>

definition mapkit_d_ts_PaddingConstructorOptions :: decl where
  "mapkit_d_ts_PaddingConstructorOptions =
    DInterface Plain ''PaddingConstructorOptions'' [] [
      MProperty ''bottom'' False (Some TNumber),
      MProperty ''left'' False (Some TNumber),
      MProperty ''right'' False (Some TNumber),
      MProperty ''top'' False (Some TNumber)]"

text \<open>\<^verbatim>\<open>src/mapkit.d.ts\<close>, lines 483 to 498.\<close>

definition mapkit_d_ts_Padding :: decl where
  "mapkit_d_ts_Padding =
    DClass Plain False ''Padding'' [] None [] [
      MConstructor
        [Param ''options'' True
           (Some (TUnion [TRef ''PaddingConstructorOptions'', TArray TNumber]))]
        None,
      MProperty ''bottom'' False (Some TNumber),
      MProperty ''left'' False (Some TNumber),
      MProperty ''right'' False (Some TNumber),
      MProperty ''top'' False (Some TNumber)]"

text \<open>\<^verbatim>\<open>src/mapkit.d.ts\<close>, lines 500 to 553.\<close>

definition mapkit_d_ts_AnnotationConstructorOptions :: decl where
  "mapkit_d_ts_AnnotationConstructorOptions =
    DInterface Plain ''AnnotationConstructorOptions'' [] [
      MProperty ''data'' True (Some TAny),
      MProperty ''title'' True (Some TString),
      MProperty ''subtitle'' True (Some TString),
      MProperty ''anchorOffset'' True (Some (TRef ''DOMPoint'')),
      MProperty ''appearanceAnimation'' True (Some TString),
      MProperty ''displayPriority'' True (Some TNumber),
      MProperty ''size'' True (Some (TObjLit [(''height'', TNumber), (''width'', TNumber)])),
      MProperty ''visible'' True (Some TBoolean),
      MProperty ''animates'' True (Some TBoolean),
      MProperty ''draggable'' True (Some TBoolean),
      MProperty ''enabled'' True (Some TBoolean),
      MProperty ''selected'' True (Some TBoolean),
      MProperty ''callout'' True (Some (TRef ''AnnotationCalloutDelegate'')),
      MProperty ''calloutEnabled'' True (Some TBoolean),
      MProperty ''calloutOffset'' True (Some (TRef ''DOMPoint'')),
      MProperty ''clusteringIdentifier'' True (Some TString),
      MProperty ''collisionMode'' True (Some (TRef ''Annotation.CollisionMode'')),
      MProperty ''accessibilityLabel'' True (Some TString)]"

text \<open>\<^verbatim>\<open>src/mapkit.d.ts\<close>, lines 558 to 609.\<close>

definition mapkit_d_ts_Annotation :: decl where
  "mapkit_d_ts_Annotation =
    DClass Plain False ''Annotation'' [] None [] [
      MConstructor
        [Param ''coordinate'' False (Some (TRef ''Coordinate'')),
         Param ''factory'' False (Some (TRef ''Function'')),
         Param ''options'' True (Some (TRef ''AnnotationConstructorOptions''))]
        None,
      MMethod ''addEventListener'' False []
        [Param ''type'' False (Some TString),
         Param ''listener'' False (Some (TFun [Param ''Annotation'' False None] TVoid)),
         Param ''thisObject'' True (Some TAny)]
        None None,
      MMethod ''removeEventListener'' False []
        [Param ''type'' False (Some TString),
         Param ''listener'' False (Some (TFun [Param ''Annotation'' False None] TVoid)),
         Param ''thisObject'' True (Some TAny)]
        None None,
      MProperty ''coordinate'' False (Some (TRef ''Coordinate'')),
      MProperty ''data'' False (Some TAny),
      MProperty ''title'' False (Some TString),
      MProperty ''subtitle'' False (Some TString),
      MProperty ''anchorOffset'' False (Some (TRef ''DOMPoint'')),
      MProperty ''appearanceAnimation'' False (Some TString),
      MProperty ''displayPriority'' False (Some TNumber),
      MProperty ''size'' False (Some (TObjLit [(''height'', TNumber), (''width'', TNumber)])),
      MProperty ''visible'' False (Some TBoolean),
      MProperty ''animates'' False (Some TBoolean),
      MProperty ''draggable'' False (Some TBoolean),
      MProperty ''selected'' False (Some TBoolean),
      MProperty ''enabled'' False (Some TBoolean),
      MProperty ''map'' False (Some (TRef ''Map'')),
      MProperty ''element'' False (Some (TRef ''Element'')),
      MProperty ''callout'' False (Some (TRef ''AnnotationCalloutDelegate'')),
      MProperty ''calloutEnabled'' False (Some TBoolean),
      MProperty ''calloutOffset'' False (Some (TRef ''DOMPoint'')),
      MProperty ''memberAnnotations'' False (Some (TArray (TRef ''Annotation''))),
      MProperty ''clusteringIdentifier'' False (Some TString),
      MProperty ''collisionMode'' False (Some (TRef ''Annotation.CollisionMode'')),
      MProperty ''accessibilityLabel'' False (Some TString)]"

text \<open>\<^verbatim>\<open>src/mapkit.d.ts\<close>, lines 611 to 634.\<close>

definition mapkit_d_ts_Annotation_namespace :: decl where
  "mapkit_d_ts_Annotation_namespace =
    DNamespace Ambient ''Annotation'' [
      DEnum Plain ''DisplayPriority'' [
        (''Low'', Some (NumLit 250)),
        (''High'', Some (NumLit 750)),
        (''Required'', Some (NumLit 1000))],
      DEnum Plain ''CollisionMode'' [
        (''Circle'', Some (StrLit ''Circle'')),
        (''Rectangle'', Some (StrLit ''Rectangle''))]]"

text \<open>\<^verbatim>\<open>src/mapkit.d.ts\<close>, lines 637 to 647.\<close>

definition mapkit_d_ts__DisplayAsset :: decl where
  "mapkit_d_ts__DisplayAsset =
    DInterface Plain ''_DisplayAsset'' [] [
      MProperty ''1'' False (Some TString),
      MProperty ''2'' True (Some TString),
      MProperty ''3'' True (Some TString)]"

text \<open>\<^verbatim>\<open>src/mapkit.d.ts\<close>, lines 649 to 673.\<close>

definition mapkit_d_ts_MarkerAnnotation :: decl where
  "mapkit_d_ts_MarkerAnnotation =
    DClass Plain False ''MarkerAnnotation'' [] (Some (TRef ''Annotation'')) [] [
      MConstructor
        [Param ''coordinate'' False (Some (TRef ''Coordinate'')),
         Param ''options'' True (Some (TRef ''MarkerAnnotationConstructorOptions''))]
        None,
      MProperty ''color'' False (Some TString),
      MProperty ''glyphColor'' False (Some TString),
      MProperty ''glyphImage'' False (Some (TRef ''_DisplayAsset'')),
      MProperty ''glyphText'' False (Some TString),
      MProperty ''selectedGlyphImage'' False (Some (TRef ''_DisplayAsset'')),
      MProperty ''subtitleVisibility'' False (Some (TRef ''FeatureVisibility'')),
      MProperty ''titleVisibility'' False (Some (TRef ''FeatureVisibility''))]"

text \<open>\<^verbatim>\<open>src/mapkit.d.ts\<close>, lines 675 to 698.\<close>

definition mapkit_d_ts_MarkerAnnotationConstructorOptions :: decl where
  "mapkit_d_ts_MarkerAnnotationConstructorOptions =
    DInterface Plain ''MarkerAnnotationConstructorOptions'' [TRef ''AnnotationConstructorOptions''] [
      MProperty ''color'' True (Some TString),
      MProperty ''glyphColor'' True (Some TString),
      MProperty ''glyphImage'' True (Some (TRef ''_DisplayAsset'')),
      MProperty ''glyphText'' True (Some TString),
      MProperty ''selectedGlyphImage'' True (Some (TRef ''_DisplayAsset'')),
      MProperty ''subtitleVisibility'' True (Some (TRef ''FeatureVisibility'')),
      MProperty ''titleVisibility'' True (Some (TRef ''FeatureVisibility''))]"

text \<open>\<^verbatim>\<open>src/mapkit.d.ts\<close>, lines 701 to 714.\<close>

definition mapkit_d_ts_ImageAnnotation :: decl where
  "mapkit_d_ts_ImageAnnotation =
    DClass Plain False ''ImageAnnotation'' [] (Some (TRef ''Annotation'')) [] [
      MConstructor
        [Param ''coordinate'' False (Some (TRef ''Coordinate'')),
         Param ''options'' True (Some (TRef ''ImageAnnotationConstructorOptions''))]
        None,
      MProperty ''url'' False (Some (TRef ''_DisplayAsset''))]"

text \<open>\<^verbatim>\<open>src/mapkit.d.ts\<close>, lines 716 to 727.\<close>

definition mapkit_d_ts_ImageAnnotationConstructorOptions :: decl where
  "mapkit_d_ts_ImageAnnotationConstructorOptions =
    DInterface Plain ''ImageAnnotationConstructorOptions'' [TRef ''AnnotationConstructorOptions''] [
      MProperty ''url'' False (Some (TRef ''_DisplayAsset''))]"

text \<open>\<^verbatim>\<open>src/mapkit.d.ts\<close>, lines 729 to 740.\<close>

definition mapkit_d_ts_FeatureVisibility :: decl where
  "mapkit_d_ts_FeatureVisibility =
    DEnum Plain ''FeatureVisibility'' [
      (''Adaptive'', Some (StrLit ''Adaptive'')),
      (''Hidden'', Some (StrLit ''Hidden'')),
      (''Visible'', Some (StrLit ''Visible''))]"

text \<open>\<^verbatim>\<open>src/mapkit.d.ts\<close>, lines 742 to 757.\<close>

definition mapkit_d_ts_AnnotationCalloutDelegate :: decl where
  "mapkit_d_ts_AnnotationCalloutDelegate =
    DInterface Plain ''AnnotationCalloutDelegate'' [] []"

text \<open>\<^verbatim>\<open>src/mapkit.d.ts\<close>, lines 759 to 762.\<close>

definition mapkit_d_ts_Overlay :: decl where
  "mapkit_d_ts_Overlay =
    DClass Plain False ''Overlay'' [] None [] []"

text \<open>\<^verbatim>\<open>src/mapkit.d.ts\<close>, lines 764 to 767.\<close>

definition mapkit_d_ts_CircleOverlay :: decl where
  "mapkit_d_ts_CircleOverlay =
    DClass Plain False ''CircleOverlay'' [] (Some (TRef ''Overlay'')) [] []"

text \<open>\<^verbatim>\<open>src/mapkit.d.ts\<close>, lines 769 to 772.\<close>

definition mapkit_d_ts_PolylineOverlay :: decl where
  "mapkit_d_ts_PolylineOverlay =
    DClass Plain False ''PolylineOverlay'' [] (Some (TRef ''Overlay'')) [] []"

text \<open>\<^verbatim>\<open>src/mapkit.d.ts\<close>, lines 774 to 777.\<close>

definition mapkit_d_ts_PolygonOverlay :: decl where
  "mapkit_d_ts_PolygonOverlay =
    DClass Plain False ''PolygonOverlay'' [] (Some (TRef ''Overlay'')) [] []"

text \<open>\<^verbatim>\<open>src/mapkit.d.ts\<close>, lines 779 to 782.\<close>

definition mapkit_d_ts_TileOverlay :: decl where
  "mapkit_d_ts_TileOverlay =
    DClass Plain False ''TileOverlay'' [] None [] []"

text \<open>\<^verbatim>\<open>src/mapkit.d.ts\<close>, lines 784 to 788.\<close>

definition mapkit_d_ts_GeocoderConstructorOptions :: decl where
  "mapkit_d_ts_GeocoderConstructorOptions =
    DInterface Plain ''GeocoderConstructorOptions'' [] [
      MProperty ''getsUserLocation'' True (Some TBoolean),
      MProperty ''language'' True (Some TString)]"

text \<open>\<^verbatim>\<open>src/mapkit.d.ts\<close>, lines 790 to 793.\<close>

definition mapkit_d_ts_GeocodeResponse :: decl where
  "mapkit_d_ts_GeocodeResponse =
    DInterface Plain ''GeocodeResponse'' [] [
      MProperty ''results'' False (Some (TArray (TRef ''Place'')))]"

text \<open>\<^verbatim>\<open>src/mapkit.d.ts\<close>, lines 795 to 803.\<close>

definition mapkit_d_ts_GeocoderLookupOptions :: decl where
  "mapkit_d_ts_GeocoderLookupOptions =
    DInterface Plain ''GeocoderLookupOptions'' [] [
      MProperty ''coordinate'' True (Some (TRef ''Coordinate'')),
      MProperty ''language'' True (Some TString),
      MProperty ''limitToCountries'' True (Some TString),
      MProperty ''region'' True (Some (TRef ''CoordinateRegion''))]"

text \<open>\<^verbatim>\<open>src/mapkit.d.ts\<close>, lines 805 to 808.\<close>

definition mapkit_d_ts_GeocoderReverseLookupOptions :: decl where
  "mapkit_d_ts_GeocoderReverseLookupOptions =
    DInterface Plain ''GeocoderReverseLookupOptions'' [] [
      MProperty ''language'' True (Some TString)]"

text \<open>\<^verbatim>\<open>src/mapkit.d.ts\<close>, lines 810 to 826.\<close>

definition mapkit_d_ts_Place :: decl where
  "mapkit_d_ts_Place =
    DInterface Plain ''Place'' [] [
      MProperty ''name'' False (Some TString),
      MProperty ''formattedAddress'' False (Some TString),
      MProperty ''countryCode'' False None,
      MProperty ''coordinate'' False (Some (TRef ''Coordinate'')),
      MProperty ''region'' False (Some (TRef ''CoordinateRegion''))]"

text \<open>\<^verbatim>\<open>src/mapkit.d.ts\<close>, lines 828 to 841.\<close>

definition mapkit_d_ts_Geocoder :: decl where
  "mapkit_d_ts_Geocoder =
    DClass Plain False ''Geocoder'' [] None [] [
      MConstructor [Param ''options'' True (Some (TRef ''GeocoderConstructorOptions''))] None,
      MProperty ''getsUserLocation'' False (Some TBoolean),
      MProperty ''language'' False (Some TString),
      MMethod ''lookup'' False []
        [Param ''place'' False (Some TString),
         Param ''callback'' False
           (Some (TFun
                   [Param ''error'' False None,
                    Param ''data'' False (Some (TRef ''GeocodeResponse''))]
                   TVoid)),
         Param ''options'' True (Some (TRef ''GeocoderLookupOptions''))]
        (Some TNumber) None,
      MMethod ''reverseLookup'' False []
        [Param ''coordinate'' False (Some (TRef ''Coordinate'')),
         Param ''callback'' False
           (Some (TFun
                   [Param ''error'' False None,
                    Param ''data'' False (Some (TRef ''GeocodeResponse''))]
                   TVoid)),
         Param ''options'' True (Some (TRef ''GeocoderReverseLookupOptions''))]
        None None,
      MMethod ''cancel'' False [] [Param ''id'' False (Some TNumber)] None None]"

text \<open>\<^verbatim>\<open>src/mapkit.d.ts\<close>, lines 843 to 857.\<close>

definition mapkit_d_ts_SearchConstructorOptions :: decl where
  "mapkit_d_ts_SearchConstructorOptions =
    DInterface Plain ''SearchConstructorOptions'' [] [
      MProperty ''coordinate'' True (Some (TRef ''Coordinate'')),
      MProperty ''getsUserLocation'' True (Some TBoolean),
      MProperty ''language'' True (Some TString),
      MProperty ''region'' True (Some (TRef ''CoordinateRegion''))]"

text \<open>\<^verbatim>\<open>src/mapkit.d.ts\<close>, lines 859 to 869.\<close>

definition mapkit_d_ts_SearchResponse :: decl where
  "mapkit_d_ts_SearchResponse =
    DInterface Plain ''SearchResponse'' [] [
      MProperty ''places'' False (Some (TArray (TRef ''Place''))),
      MProperty ''query'' True (Some TString),
      MProperty ''boundingRegion'' True (Some (TRef ''CoordinateRegion''))]"

text \<open>\<^verbatim>\<open>src/mapkit.d.ts\<close>, lines 871 to 879.\<close>

definition mapkit_d_ts_SearchOptions :: decl where
  "mapkit_d_ts_SearchOptions =
    DInterface Plain ''SearchOptions'' [] [
      MProperty ''coordinate'' True (Some (TRef ''Coordinate'')),
      MProperty ''language'' True (Some TString),
      MProperty ''region'' True (Some (TRef ''CoordinateRegion''))]"

text \<open>\<^verbatim>\<open>src/mapkit.d.ts\<close>, lines 881 to 888.\<close>

definition mapkit_d_ts_SearchAutocompleteResult :: decl where
  "mapkit_d_ts_SearchAutocompleteResult =
    DInterface Plain ''SearchAutocompleteResult'' [] [
      MProperty ''coordinate'' True (Some (TRef ''Coordinate'')),
      MProperty ''displayLines'' False (Some (TArray TString))]"

text \<open>\<^verbatim>\<open>src/mapkit.d.ts\<close>, lines 890 to 894.\<close>

definition mapkit_d_ts_SearchAutocompleteResponse :: decl where
  "mapkit_d_ts_SearchAutocompleteResponse =
    DInterface Plain ''SearchAutocompleteResponse'' [] [
      MProperty ''query'' False (Some TString),
      MProperty ''results'' False (Some (TArray (TRef ''SearchAutocompleteResult'')))]"

text \<open>\<^verbatim>\<open>src/mapkit.d.ts\<close>, lines 897 to 911.\<close>

definition mapkit_d_ts_SearchDelegate :: decl where
  "mapkit_d_ts_SearchDelegate =
    DInterface Plain ''SearchDelegate'' [] [
      MMethod ''autocompleteDidComplete'' True []
        [Param ''data'' False (Some (TRef ''SearchAutocompleteResponse''))]
        None None,
      MMethod ''autocompleteDidError'' True []
        [Param ''error'' False (Some (TRef ''Error''))]
        None None,
      MMethod ''searchDidComplete'' True []
        [Param ''data'' False (Some (TRef ''SearchResponse''))]
        None None,
      MMethod ''searchDidError'' True []
        [Param ''error'' False (Some (TRef ''Error''))]
        None None]"

text \<open>\<^verbatim>\<open>src/mapkit.d.ts\<close>, lines 914 to 922.\<close>

definition mapkit_d_ts_Search :: decl where
  "mapkit_d_ts_Search =
    DClass Plain False ''Search'' [] None [] [
      MConstructor [Param ''options'' True (Some (TRef ''SearchConstructorOptions''))] None,
      MMethod ''search'' False []
        [Param ''query'' False (Some (TUnion [TString, TRef ''SearchAutocompleteResult''])),
         Param ''callback'' False
           (Some (TUnion
                   [TRef ''SearchDelegate'',
                    TFun
                      [Param ''error'' False None,
                       Param ''data'' False (Some (TRef ''SearchResponse''))]
                      TVoid])),
         Param ''options'' True (Some (TRef ''SearchOptions''))]
        None None,
      MMethod ''autocomplete'' False []
        [Param ''query'' False (Some TString),
         Param ''callback'' False
           (Some (TUnion
                   [TRef ''SearchDelegate'',
                    TFun
                      [Param ''error'' False None,
                       Param ''data'' False (Some (TRef ''SearchAutocompleteResponse''))]
                      TVoid])),
         Param ''options'' True (Some (TRef ''SearchOptions''))]
        None None]"

text \<open>\<^verbatim>\<open>src/mapkit.d.ts\<close>, lines 925 to 934.\<close>

definition mapkit_d_ts_DOMPoint :: decl where
  "mapkit_d_ts_DOMPoint =
    DClass Exported False ''DOMPoint'' [] None [] [
      MConstructor [Param ''x'' False (Some TNumber), Param ''y'' False (Some TNumber)] None,
      MProperty ''w'' False (Some TNumber),
      MProperty ''x'' False (Some TNumber),
      MProperty ''y'' False (Some TNumber),
      MProperty ''z'' False (Some TNumber)]"

text \<open>The file: its declarations in source order.\<close>

definition mapkit_d_ts :: "decl list" where
  "mapkit_d_ts = [
    DExportAsNamespace ''mapkit'',
    mapkit_d_ts_init,
    mapkit_d_ts_addEventListener,
    mapkit_d_ts_removeEventListener,
    mapkit_d_ts_maps,
    mapkit_d_ts_MapKitInitOptions,
    mapkit_d_ts_Coordinate,
    mapkit_d_ts_MapConstructorOptions,
    mapkit_d_ts_Map,
    mapkit_d_ts_Map_namespace,
    mapkit_d_ts_MapShowItemsOptions,
    mapkit_d_ts_MapPoint,
    mapkit_d_ts_MapSize,
    mapkit_d_ts_MapRect,
    mapkit_d_ts_CoordinateRegion,
    mapkit_d_ts_CoordinateSpan,
    mapkit_d_ts_BoundingRegion,
    mapkit_d_ts_PaddingConstructorOptions,
    mapkit_d_ts_Padding,
    mapkit_d_ts_AnnotationConstructorOptions,
    mapkit_d_ts_Annotation,
    mapkit_d_ts_Annotation_namespace,
    mapkit_d_ts__DisplayAsset,
    mapkit_d_ts_MarkerAnnotation,
    mapkit_d_ts_MarkerAnnotationConstructorOptions,
    mapkit_d_ts_ImageAnnotation,
    mapkit_d_ts_ImageAnnotationConstructorOptions,
    mapkit_d_ts_FeatureVisibility,
    mapkit_d_ts_AnnotationCalloutDelegate,
    mapkit_d_ts_Overlay,
    mapkit_d_ts_CircleOverlay,
    mapkit_d_ts_PolylineOverlay,
    mapkit_d_ts_PolygonOverlay,
    mapkit_d_ts_TileOverlay,
    mapkit_d_ts_GeocoderConstructorOptions,
    mapkit_d_ts_GeocodeResponse,
    mapkit_d_ts_GeocoderLookupOptions,
    mapkit_d_ts_GeocoderReverseLookupOptions,
    mapkit_d_ts_Place,
    mapkit_d_ts_Geocoder,
    mapkit_d_ts_SearchConstructorOptions,
    mapkit_d_ts_SearchResponse,
    mapkit_d_ts_SearchOptions,
    mapkit_d_ts_SearchAutocompleteResult,
    mapkit_d_ts_SearchAutocompleteResponse,
    mapkit_d_ts_SearchDelegate,
    mapkit_d_ts_Search,
    mapkit_d_ts_DOMPoint]"

section \<open>The declarations of \<^verbatim>\<open>src/unnamed/part_000\<close>\<close>

text \<open>\<^verbatim>\<open>src/unnamed/part_000\<close>, lines 10 to 14.\<close>

definition part_000_MapKitError :: decl where
  "part_000_MapKitError =
    DInterface Ambient ''MapKitError'' [] [
      MProperty ''code'' False (Some TNumber),
      MProperty ''message'' False (Some TString)]"

text \<open>\<^verbatim>\<open>src/unnamed/part_000\<close>, lines 16 to 24.\<close>

definition part_000_SelectEventTypes :: decl where
  "part_000_SelectEventTypes =
    DInterface Plain ''SelectEventTypes'' [] [
      MProperty ''select'' False
        (Some (TUnion [TRef ''AnnotationEvent'', TRef ''OverlayEvent''])),
      MProperty ''deselect'' False
        (Some (TUnion [TRef ''AnnotationEvent'', TRef ''OverlayEvent'']))]"

text \<open>\<^verbatim>\<open>src/unnamed/part_000\<close>, lines 26 to 33.\<close>

definition part_000_MapKitEvented :: decl where
  "part_000_MapKitEvented =
    DClass Ambient False ''MapKitEvented'' [TParam ''T'' None] None [] [
      MMethod ''addEventListener'' False [TParam ''K'' (Some (TKeyof (TRef ''T'')))]
        [Param ''type'' False (Some (TRef ''K'')),
         Param ''listener'' False
           (Some (TFun
                   [Param ''event'' False (Some (TIndexed (TRef ''T'') (TRef ''K'')))]
                   TVoid)),
         Param ''thisObject'' True (Some TAny)]
        (Some TVoid) None,
      MMethod ''removeEventListener'' False [TParam ''K'' (Some (TKeyof (TRef ''T'')))]
        [Param ''type'' False (Some (TRef ''K'')),
         Param ''listener'' False
           (Some (TFun
                   [Param ''event'' False (Some (TIndexed (TRef ''T'') (TRef ''K'')))]
                   TVoid)),
         Param ''thisObject'' True (Some TAny)]
        (Some TVoid) None]"

text \<open>\<^verbatim>\<open>src/unnamed/part_000\<close>, line 36.\<close>

definition part_000_init :: decl where
  "part_000_init =
    DFunction Exported ''init'' []
      [Param ''options'' False (Some (TRef ''MapKitInitOptions''))]
      (Some TVoid) None"

text \<open>\<^verbatim>\<open>src/unnamed/part_000\<close>, lines 38 to 45.\<close>

definition part_000_MapKitInitSuccessStatus :: decl where
  "part_000_MapKitInitSuccessStatus =
    DEnum Ambient ''MapKitInitSuccessStatus'' [
      (''initialized'', Some (StrLit ''Initialized'')),
      (''refreshed'', Some (StrLit ''Refreshed''))]"

text \<open>\<^verbatim>\<open>src/unnamed/part_000\<close>, lines 47 to 54.\<close>

definition part_000_MapKitInitFailureStatus :: decl where
  "part_000_MapKitInitFailureStatus =
    DEnum Ambient ''MapKitInitFailureStatus'' [
      (''unauthorized'', Some (StrLit ''Unauthorized'')),
      (''tooManyRequests'', Some (StrLit ''Too Many Requests''))]"

text \<open>\<^verbatim>\<open>src/unnamed/part_000\<close>, lines 56 to 58.\<close>

definition part_000_MapKitInitSuccessEvent :: decl where
  "part_000_MapKitInitSuccessEvent =
    DClass Ambient False ''MapKitInitSuccessEvent'' [] (Some (TRef ''Event'')) [] [
      MProperty ''status'' False (Some (TRef ''MapKitInitSuccessStatus''))]"

text \<open>\<^verbatim>\<open>src/unnamed/part_000\<close>, lines 60 to 62.\<close>

definition part_000_MapKitInitFailureEvent :: decl where
  "part_000_MapKitInitFailureEvent =
    DClass Ambient False ''MapKitInitFailureEvent'' [] (Some (TRef ''Event'')) [] [
      MProperty ''status'' False (Some (TRef ''MapKitInitFailureStatus''))]"

text \<open>\<^verbatim>\<open>src/unnamed/part_000\<close>, lines 64 to 67.\<close>

definition part_000_MapKitEventTypes :: decl where
  "part_000_MapKitEventTypes =
    DInterface Plain ''MapKitEventTypes'' [] [
      MProperty ''configuration-change'' False (Some (TRef ''MapKitInitSuccessEvent'')),
      MProperty ''error'' False (Some (TRef ''MapKitInitFailureEvent''))]"

text \<open>\<^verbatim>\<open>src/unnamed/part_000\<close>, line 70.\<close>

definition part_000_addEventListener :: decl where
  "part_000_addEventListener =
    DFunction Exported ''addEventListener'' [TParam ''K'' (Some (TKeyof (TRef ''MapKitEventTypes'')))]
      [Param ''type'' False (Some (TRef ''K'')),
       Param ''listener'' False
         (Some (TFun
                 [Param ''event'' False
                    (Some (TIndexed (TRef ''MapKitEventTypes'') (TRef ''K'')))]
                 TVoid)),
       Param ''thisObject'' True (Some TAny)]
      (Some TVoid) None"

text \<open>\<^verbatim>\<open>src/unnamed/part_000\<close>, line 73.\<close>

definition part_000_removeEventListener :: decl where
  "part_000_removeEventListener =
    DFunction Exported ''removeEventListener'' [TParam ''K'' (Some (TKeyof (TRef ''MapKitEventTypes'')))]
      [Param ''type'' False (Some (TRef ''K'')),
       Param ''listener'' False
         (Some (TFun
                 [Param ''event'' False
                    (Some (TIndexed (TRef ''MapKitEventTypes'') (TRef ''K'')))]
                 TVoid)),
       Param ''thisObject'' True (Some TAny)]
      (Some TVoid) None"

text \<open>\<^verbatim>\<open>src/unnamed/part_000\<close>, line 76.\<close>

definition part_000_maps :: decl where
  "part_000_maps =
    DVariable Exported Let ''maps'' (Some (TArray (TRef ''Map''))) None"

text \<open>\<^verbatim>\<open>src/unnamed/part_000\<close>, line 79.\<close>

definition part_000_language :: decl where
  "part_000_language =
    DVariable Exported Let ''language'' (Some TString) None"

text \<open>\<^verbatim>\<open>src/unnamed/part_000\<close>, line 82.\<close>

definition part_000_build :: decl where
  "part_000_build =
    DVariable Exported Const ''build'' (Some TString) None"

text \<open>\<^verbatim>\<open>src/unnamed/part_000\<close>, lines 84 to 93.\<close>

definition part_000_MapKitInitOptions :: decl where
  "part_000_MapKitInitOptions =
    DInterface Exported ''MapKitInitOptions'' [] [
      MProperty ''authorizationCallback'' False
        (Some (TFun
                [Param ''done'' False (Some (TFun [Param ''jwt'' False (Some TString)] TVoid))]
                TVoid)),
      MProperty ''language'' True (Some TString)]"

text \<open>\<^verbatim>\<open>src/unnamed/part_000\<close>, lines 95 to 117.\<close>

definition part_000_Coordinate :: decl where
  "part_000_Coordinate =
    DClass Exported False ''Coordinate'' [] None [] [
      MConstructor
        [Param ''latitude'' False (Some TNumber),
         Param ''longitude'' False (Some TNumber)]
        None,
      MProperty ''latitude'' False (Some TNumber),
      MProperty ''longitude'' False (Some TNumber),
      MMethod ''copy'' False [] [] (Some (TRef ''Coordinate'')) None,
      MMethod ''equals'' False []
        [Param ''other'' False (Some (TRef ''Coordinate''))]
        (Some TBoolean) None,
      MMethod ''toMapPoint'' False [] [] (Some (TRef ''MapPoint'')) None,
      MMethod ''toUnwrappedMapPoint'' False [] [] (Some (TRef ''MapPoint'')) None]"

text \<open>\<^verbatim>\<open>src/unnamed/part_000\<close>, lines 119 to 193.\<close>

definition part_000_MapConstructorOptions :: decl where
  "part_000_MapConstructorOptions =
    DInterface Exported ''MapConstructorOptions'' [] [
      MProperty ''visibleMapRect'' True (Some (TRef ''MapRect'')),
      MProperty ''region'' True (Some (TRef ''CoordinateRegion'')),
      MProperty ''center'' True (Some (TRef ''Coordinate'')),
      MProperty ''rotation'' True (Some TNumber),
      MProperty ''tintColor'' True (Some TString),
      MProperty ''colorScheme'' True (Some (TRef ''Map.ColorSchemes'')),
      MProperty ''mapType'' True (Some (TRef ''Map.MapTypes'')),
      MProperty ''padding'' True (Some (TRef ''Padding'')),
      MProperty ''showsMapTypeControl'' True (Some TBoolean),
      MProperty ''isRotationEnabled'' True (Some TBoolean),
      MProperty ''showsCompass'' True (Some (TRef ''FeatureVisibility'')),
      MProperty ''isZoomEnabled'' True (Some TBoolean),
      MProperty ''showsZoomControl'' True (Some TBoolean),
      MProperty ''isScrollEnabled'' True (Some TBoolean),
      MProperty ''showsScale'' True (Some (TRef ''FeatureVisibility'')),
      MProperty ''annotationForCluster'' True
        (Some (TFun
                [Param ''clusterAnnotation'' False (Some (TRef ''Annotation''))]
                (TUnion [TVoid, TRef ''Annotation'']))),
      MProperty ''annotations'' True (Some (TArray (TRef ''Annotation''))),
      MProperty ''selectedAnnotation'' True (Some (TRef ''Annotation'')),
      MProperty ''overlays'' True (Some (TArray (TRef ''Overlay''))),
      MProperty ''selectedOverlay'' True (Some (TRef ''Overlay'')),
      MProperty ''showsPointsOfInterest'' True (Some TBoolean),
      MProperty ''showsUserLocation'' True (Some TBoolean),
      MProperty ''tracksUserLocation'' True (Some TBoolean),
      MProperty ''showsUserLocationControl'' True (Some TBoolean)]"

text \<open>\<^verbatim>\<open>src/unnamed/part_000\<close>, lines 195 to 197.\<close>

definition part_000_MapEvent :: decl where
  "part_000_MapEvent =
    DClass Ambient False ''MapEvent'' [] (Some (TRef ''Event'')) [] []"

text \<open>\<^verbatim>\<open>src/unnamed/part_000\<close>, lines 199 to 201.\<close>

definition part_000_OverlayEvent :: decl where
  "part_000_OverlayEvent =
    DClass Ambient False ''OverlayEvent'' [] (Some (TRef ''Event'')) [] [
      MProperty ''overlay'' False (Some (TRef ''Overlay''))]"

text \<open>\<^verbatim>\<open>src/unnamed/part_000\<close>, lines 203 to 206.\<close>

definition part_000_UserLocationChangeEvent :: decl where
  "part_000_UserLocationChangeEvent =
    DClass Ambient False ''UserLocationChangeEvent'' [] (Some (TRef ''Event'')) [] [
      MProperty ''coordinate'' False (Some (TRef ''Coordinate'')),
      MProperty ''timestamp'' False (Some (TRef ''Date''))]"

text \<open>\<^verbatim>\<open>src/unnamed/part_000\<close>, lines 208 to 213.\<close>

definition part_000_LocationError :: decl where
  "part_000_LocationError =
    DEnum Ambient ''LocationError'' [
      (''PERMISSION_DENIED'', Some (NumLit 1)),
      (''POSITION_UNAVAILABLE'', Some (NumLit 2)),
      (''TIMEOUT'', Some (NumLit 3)),
      (''MAPKIT_NOT_INITIALIZED'', Some (NumLit 4))]"

text \<open>\<^verbatim>\<open>src/unnamed/part_000\<close>, lines 215 to 218.\<close>

definition part_000_UserLocationErrorEvent :: decl where
  "part_000_UserLocationErrorEvent =
    DClass Ambient False ''UserLocationErrorEvent'' [] None [TRef ''MapKitError''] [
      MProperty ''code'' False (Some (TRef ''LocationError'')),
      MProperty ''message'' False (Some TString)]"

text \<open>\<^verbatim>\<open>src/unnamed/part_000\<close>, lines 220 to 231.\<close>

definition part_000_MapEventTypes :: decl where
  "part_000_MapEventTypes =
    DInterface Plain ''MapEventTypes'' [TRef ''SelectEventTypes'', TRef ''AnnotationEventWithoutSelectTypes'', TRef ''OverlayEventWithoutSelectTypes''] [
      MProperty ''region-change-start'' False (Some (TRef ''MapEvent'')),
      MProperty ''region-change-end'' False (Some (TRef ''MapEvent'')),
      MProperty ''scroll-start'' False (Some (TRef ''MapEvent'')),
      MProperty ''scroll-end'' False (Some (TRef ''MapEvent'')),
      MProperty ''zoom-start'' False (Some (TRef ''MapEvent'')),
      MProperty ''zoom-end'' False (Some (TRef ''MapEvent'')),
      MProperty ''map-type-change'' False (Some (TRef ''MapEvent'')),
      MProperty ''user-location-change'' False (Some (TRef ''UserLocationChangeEvent'')),
      MProperty ''user-location-error'' False (Some (TRef ''UserLocationErrorEvent''))]"

text \<open>\<^verbatim>\<open>src/unnamed/part_000\<close>, lines 234 to 393.\<close>

definition part_000_Map :: decl where
  "part_000_Map =
    DClass Exported False ''Map'' [] (Some (TApp ''MapKitEvented'' [TRef ''MapEventTypes''])) [] [
      MConstructor
        [Param ''parent'' True (Some (TUnion [TString, TRef ''HTMLElement''])),
         Param ''options'' True (Some (TRef ''MapConstructorOptions''))]
        None,
      MProperty ''isRotationAvailable'' False (Some TBoolean),
      MProperty ''isRotationEnabled'' False (Some TBoolean),
      MProperty ''isScrollEnabled'' False (Some TBoolean),
      MProperty ''isZoomEnabled'' False (Some TBoolean),
      MProperty ''center'' False (Some (TRef ''Coordinate'')),
      MMethod ''setCenterAnimated'' False []
        [Param ''coordinate'' False (Some (TRef ''Coordinate'')),
         Param ''animate'' True (Some TBoolean)]
        (Some (TRef ''Map'')) None,
      MProperty ''region'' False (Some (TRef ''CoordinateRegion'')),
      MMethod ''setRegionAnimated'' False []
        [Param ''egion'' False (Some (TRef ''CoordinateRegion'')),
         Param ''animate'' True (Some TBoolean)]
        (Some (TRef ''Map'')) None,
      MProperty ''rotation'' False (Some TNumber),
      MMethod ''setRotationAnimated'' False []
        [Param ''degrees'' False (Some TNumber),
         Param ''animate'' True (Some TBoolean)]
        (Some (TRef ''Map'')) None,
      MProperty ''visibleMapRect'' False (Some (TRef ''MapRect'')),
      MMethod ''setVisibleMapRectAnimated'' False []
        [Param ''mapRect'' False (Some (TRef ''MapRect'')),
         Param ''animate'' True (Some TBoolean)]
        (Some (TRef ''Map'')) None,
      MProperty ''colorScheme'' False (Some (TRef ''Map.ColorSchemes'')),
      MProperty ''distances'' False (Some (TRef ''Map.Distances'')),
      MProperty ''mapType'' False (Some (TRef ''Map.MapTypes'')),
      MProperty ''padding'' False (Some (TRef ''Padding'')),
      MProperty ''showsCompass'' False (Some (TRef ''FeatureVisibility'')),
      MProperty ''showsMapTypeControl'' False (Some TBoolean),
      MProperty ''showsZoomControl'' False (Some TBoolean),
      MProperty ''showsUserLocationControl'' False (Some TBoolean),
      MProperty ''showsPointsOfInterest'' False (Some TBoolean),
      MProperty ''showsScale'' False (Some (TRef ''FeatureVisibility'')),
      MProperty ''tintColor'' False (Some TString),
      MMethod ''showItems'' False []
        [Param ''items'' False (Some (TArray (TUnion [TRef ''Annotation'', TRef ''Overlay'']))),
         Param ''options'' True (Some (TRef ''MapShowItemsOptions''))]
        (Some (TArray (TUnion [TRef ''Annotation'', TRef ''Overlay'']))) None,
      MProperty ''annotationForCluster'' True
        (Some (TFun
                [Param ''clusterAnnotation'' False (Some (TRef ''Annotation''))]
                (TUnion [TVoid, TRef ''Annotation'']))),
      MProperty ''annotations'' True (Some (TArray (TRef ''Annotation''))),
      MProperty ''selectedAnnotation'' False (Some (TUnion [TRef ''Annotation'', TNull])),
      MMethod ''annotationsInMapRect'' False []
        [Param ''mapRect'' False (Some (TRef ''MapRect''))]
        (Some (TArray (TRef ''Annotation''))) None,
      MMethod ''addAnnotation'' False []
        [Param ''annotation'' False (Some (TRef ''Annotation''))]
        (Some (TRef ''Annotation'')) None,
      MMethod ''addAnnotations'' False []
        [Param ''annotations'' False (Some (TArray (TRef ''Annotation'')))]
        (Some (TArray (TRef ''Annotation''))) None,
      MMethod ''removeAnnotation'' False []
        [Param ''annotation'' False (Some (TRef ''Annotation''))]
        (Some (TRef ''Annotation'')) None,
      MMethod ''removeAnnotations'' False []
        [Param ''annotations'' False (Some (TArray (TRef ''Annotation'')))]
        (Some (TArray (TRef ''Annotation''))) None,
      MProperty ''overlays'' False (Some (TArray (TRef ''Overlay''))),
      MProperty ''selectedOverlay'' False (Some (TUnion [TRef ''Overlay'', TNull])),
      MMethod ''overlaysAtPoint'' False []
        [Param ''point'' False (Some (TRef ''DOMPoint''))]
        (Some (TArray (TRef ''Overlay''))) None,
      MMethod ''addOverlay'' False []
        [Param ''overlay'' False (Some (TRef ''Overlay''))]
        (Some (TRef ''Overlay'')) None,
      MMethod ''addOverlays'' False []
        [Param ''overlays'' False (Some (TArray (TRef ''Overlay'')))]
        (Some (TArray (TRef ''Overlay''))) None,
      MMethod ''removeOverlay'' False []
        [Param ''overlay'' False (Some (TRef ''Overlay''))]
        (Some (TRef ''Overlay'')) None,
      MMethod ''removeOverlays'' False []
        [Param ''overlays'' False (Some (TArray (TRef ''Overlay'')))]
        (Some (TArray (TRef ''Overlay''))) None,
      MMethod ''topOverlayAtPoint'' False []
        [Param ''point'' False (Some (TRef ''DOMPoint''))]
        (Some (TRef ''Overlay'')) None,
      MProperty ''tileOverlays'' False (Some (TArray (TRef ''TileOverlay''))),
      MMethod ''addTileOverlay'' False []
        [Param ''overlay'' False (Some (TRef ''TileOverlay''))]
        (Some (TRef ''TileOverlay'')) None,
      MMethod ''addTileOverlays'' False []
        [Param ''overlays'' False (Some (TArray (TRef ''TileOverlay'')))]
        (Some (TArray (TRef ''TileOverlay''))) None,
      MMethod ''removeTileOverlay'' False []
        [Param ''overlay'' False (Some (TRef ''TileOverlay''))]
        (Some (TRef ''TileOverlay'')) None,
      MMethod ''removeTileOverlays'' False []
        [Param ''overlays'' False (Some (TArray (TRef ''TileOverlay'')))]
        (Some (TArray (TRef ''TileOverlay''))) None,
      MProperty ''showsUserLocation'' False (Some TBoolean),
      MProperty ''tracksUserLocation'' False (Some TBoolean),
      MProperty ''userLocationAnnotation'' False (Some (TUnion [TRef ''Annotation'', TNull])),
      MMethod ''convertCoordinateToPointOnPage'' False []
        [Param ''coordinate'' False (Some (TRef ''Coordinate''))]
        (Some (TRef ''DOMPoint'')) None,
      MMethod ''convertPointOnPageToCoordinate'' False []
        [Param ''point'' False (Some (TRef ''DOMPoint''))]
        (Some (TRef ''Coordinate'')) None,
      MMethod ''destroy'' False [] [] (Some TVoid) None,
      MProperty ''element'' False (Some (TRef ''HTMLElement''))]"

text \<open>\<^verbatim>\<open>src/unnamed/part_000\<close>, lines 395 to 432.\<close>

definition part_000_Map_namespace :: decl where
  "part_000_Map_namespace =
    DNamespace Exported ''Map'' [
      DEnum Exported ''MapTypes'' [
        (''Hybrid'', Some (StrLit ''Hybrid'')),
        (''Satellite'', Some (StrLit ''Satellite'')),
        (''Standard'', Some (StrLit ''Standard'')),
        (''MutedStandard'', Some (StrLit ''MutedStandard''))],
      DEnum Exported ''ColorSchemes'' [
        (''Light'', Some (StrLit ''Light'')),
        (''Dark'', Some (StrLit ''Dark''))],
      DEnum Exported ''Distances'' [
        (''Adaptive'', Some (StrLit ''Adaptive'')),
        (''Metric'', Some (StrLit ''Metric'')),
        (''Imperial'', Some (StrLit ''Imperial''))]]"

text \<open>\<^verbatim>\<open>src/unnamed/part_000\<close>, lines 435 to 446.\<close>

definition part_000_MapShowItemsOptions :: decl where
  "part_000_MapShowItemsOptions =
    DInterface Exported ''MapShowItemsOptions'' [] [
      MProperty ''animate'' True (Some TBoolean),
      MProperty ''minimumSpan'' True (Some (TRef ''CoordinateSpan'')),
      MProperty ''padding'' False (Some (TRef ''Padding''))]"

text \<open>\<^verbatim>\<open>src/unnamed/part_000\<close>, lines 448 to 468.\<close>

definition part_000_MapPoint :: decl where
  "part_000_MapPoint =
    DClass Exported False ''MapPoint'' [] None [] [
      MConstructor [Param ''x'' False (Some TNumber), Param ''y'' False (Some TNumber)] None,
      MProperty ''x'' False (Some TNumber),
      MProperty ''y'' False (Some TNumber),
      MMethod ''copy'' False [] [] (Some (TRef ''MapPoint'')) None,
      MMethod ''equals'' False []
        [Param ''other'' False (Some (TRef ''MapPoint''))]
        (Some TBoolean) None,
      MMethod ''toCoordinate'' False [] [] (Some (TRef ''Coordinate'')) None]"

text \<open>\<^verbatim>\<open>src/unnamed/part_000\<close>, lines 471 to 487.\<close>

definition part_000_MapSize :: decl where
  "part_000_MapSize =
    DClass Exported False ''MapSize'' [] None [] [
      MConstructor
        [Param ''width'' False (Some TNumber),
         Param ''height'' False (Some TNumber)]
        None,
      MProperty ''width'' False (Some TNumber),
      MProperty ''height'' False (Some TNumber),
      MProperty ''copy'' False (Some (TRef ''MapSize'')),
      MMethod ''equals'' False []
        [Param ''anotherSize'' False (Some (TRef ''MapSize''))]
        (Some TBoolean) None]"

text \<open>\<^verbatim>\<open>src/unnamed/part_000\<close>, lines 490 to 529.\<close>

definition part_000_MapRect :: decl where
  "part_000_MapRect =
    DClass Exported False ''MapRect'' [] None [] [
      MConstructor
        [Param ''x'' False (Some TNumber),
         Param ''y'' False (Some TNumber),
         Param ''width'' False (Some TNumber),
         Param ''height'' False (Some TNumber)]
        None,
      MProperty ''origin'' False (Some (TRef ''MapPoint'')),
      MProperty ''size'' False (Some (TRef ''MapSize'')),
      MProperty ''maxX'' False (Some TNumber),
      MProperty ''maxY'' False (Some TNumber),
      MProperty ''midX'' False (Some TNumber),
      MProperty ''midY'' False (Some TNumber),
      MProperty ''minX'' False (Some TNumber),
      MProperty ''minY'' False (Some TNumber),
      MMethod ''copy'' False [] [] (Some (TRef ''MapRect'')) None,
      MMethod ''equals'' False []
        [Param ''other'' False (Some (TRef ''MapRect''))]
        (Some TBoolean) None,
      MMethod ''scale'' False []
        [Param ''scaleFactor'' False (Some TNumber),
         Param ''scaleCenter'' False (Some (TRef ''MapPoint''))]
        (Some (TRef ''MapRect'')) None,
      MMethod ''toCoordinateRegion'' False [] [] (Some (TRef ''CoordinateRegion'')) None]"

text \<open>\<^verbatim>\<open>src/unnamed/part_000\<close>, lines 532 to 553.\<close>

definition part_000_CoordinateRegion :: decl where
  "part_000_CoordinateRegion =
    DClass Exported False ''CoordinateRegion'' [] None [] [
      MConstructor
        [Param ''center'' False (Some (TRef ''Coordinate'')),
         Param ''span'' False (Some (TRef ''CoordinateSpan''))]
        None,
      MProperty ''center'' False (Some (TRef ''Coordinate'')),
      MProperty ''span'' False (Some (TRef ''CoordinateSpan'')),
      MMethod ''copy'' False [] [] (Some (TRef ''CoordinateRegion'')) None,
      MMethod ''equals'' False []
        [Param ''other'' False (Some (TRef ''CoordinateRegion''))]
        (Some TBoolean) None,
      MMethod ''toBoundingRegion'' False [] [] (Some (TRef ''BoundingRegion'')) None,
      MMethod ''toMapRect'' False [] [] (Some (TRef ''MapRect'')) None]"

text \<open>\<^verbatim>\<open>src/unnamed/part_000\<close>, lines 556 to 571.\<close>

definition part_000_CoordinateSpan :: decl where
  "part_000_CoordinateSpan =
    DClass Exported False ''CoordinateSpan'' [] None [] [
      MConstructor
        [Param ''latitudeDelta'' False (Some TNumber),
         Param ''longitudeDelta'' False (Some TNumber)]
        None,
      MProperty ''latitudeDelta'' False (Some TNumber),
      MProperty ''longitudeDelta'' False (Some TNumber),
      MMethod ''copy'' False [] [] (Some (TRef ''CoordinateSpan'')) None,
      MMethod ''equals'' False []
        [Param ''other'' False (Some (TRef ''CoordinateSpan''))]
        (Some TBoolean) None]"

text \<open>\<^verbatim>\<open>src/unnamed/part_000\<close>, lines 574 to 595.\<close>

definition part_000_BoundingRegion :: decl where
  "part_000_BoundingRegion =
    DClass Exported False ''BoundingRegion'' [] None [] [
      MConstructor
        [Param ''northLatitude'' False (Some TNumber),
         Param ''eastLongitude'' False (Some TNumber),
         Param ''southLatitude'' False (Some TNumber),
         Param ''westLongitude'' False (Some TNumber)]
        None,
      MProperty ''northLatitude'' False (Some TNumber),
      MProperty ''eastLongitude'' False (Some TNumber),
      MProperty ''southLatitude'' False (Some TNumber),
      MProperty ''westLongitude'' False (Some TNumber),
      MMethod ''copy'' False [] [] (Some (TRef ''BoundingRegion'')) None,
      MMethod ''toCoordinateRegion'' False [] [] (Some (TRef ''CoordinateRegion'')) None]"

text \<open>\<^verbatim>\<open>src/unnamed/part_000\<close>, lines 597 to 603.\<close>

definition part_000_PaddingConstructorOptions :: decl where
  "part_000_PaddingConstructorOptions =
    DInterface Exported ''PaddingConstructorOptions'' [] [
      MProperty ''bottom'' False (Some TNumber),
      MProperty ''left'' False (Some TNumber),
      MProperty ''right'' False (Some TNumber),
      MProperty ''top'' False (Some TNumber)]"

text \<open>\<^verbatim>\<open>src/unnamed/part_000\<close>, lines 605 to 620.\<close>

definition part_000_Padding :: decl where
  "part_000_Padding =
    DClass Exported False ''Padding'' [] None [] [
      MConstructor
        [Param ''options'' True
           (Some (TUnion [TRef ''PaddingConstructorOptions'', TArray TNumber]))]
        None,
      MProperty ''bottom'' False (Some TNumber),
      MProperty ''left'' False (Some TNumber),
      MProperty ''right'' False (Some TNumber),
      MProperty ''top'' False (Some TNumber)]"

text \<open>\<^verbatim>\<open>src/unnamed/part_000\<close>, lines 622 to 675.\<close>

definition part_000_AnnotationConstructorOptions :: decl where
  "part_000_AnnotationConstructorOptions =
    DInterface Exported ''AnnotationConstructorOptions'' [] [
      MProperty ''data'' True (Some TAny),
      MProperty ''title'' True (Some TString),
      MProperty ''subtitle'' True (Some TString),
      MProperty ''anchorOffset'' True (Some (TRef ''DOMPoint'')),
      MProperty ''appearanceAnimation'' True (Some TString),
      MProperty ''displayPriority'' True (Some TNumber),
      MProperty ''size'' True (Some (TObjLit [(''height'', TNumber), (''width'', TNumber)])),
      MProperty ''visible'' True (Some TBoolean),
      MProperty ''animates'' True (Some TBoolean),
      MProperty ''draggable'' True (Some TBoolean),
      MProperty ''enabled'' True (Some TBoolean),
      MProperty ''selected'' True (Some TBoolean),
      MProperty ''callout'' True (Some (TRef ''AnnotationCalloutDelegate'')),
      MProperty ''calloutEnabled'' True (Some TBoolean),
      MProperty ''calloutOffset'' True (Some (TRef ''DOMPoint'')),
      MProperty ''clusteringIdentifier'' True (Some TString),
      MProperty ''collisionMode'' True (Some (TRef ''Annotation.CollisionMode'')),
      MProperty ''accessibilityLabel'' True (Some TString)]"

text \<open>\<^verbatim>\<open>src/unnamed/part_000\<close>, lines 677 to 679.\<close>

definition part_000_AnnotationEvent :: decl where
  "part_000_AnnotationEvent =
    DClass Ambient False ''AnnotationEvent'' [] (Some (TRef ''Event'')) [] [
      MProperty ''annotation'' False (Some (TRef ''Annotation''))]"

text \<open>\<^verbatim>\<open>src/unnamed/part_000\<close>, lines 681 to 689.\<close>

definition part_000_AnnotationEventWithoutSelectTypes :: decl where
  "part_000_AnnotationEventWithoutSelectTypes =
    DInterface Plain ''AnnotationEventWithoutSelectTypes'' [] [
      MProperty ''drag-start'' False (Some (TRef ''AnnotationEvent'')),
      MProperty ''dragging'' False (Some (TRef ''AnnotationEvent'')),
      MProperty ''drag-end'' False (Some (TRef ''AnnotationEvent''))]"

text \<open>\<^verbatim>\<open>src/unnamed/part_000\<close>, lines 691 to 694.\<close>

definition part_000_AnnotationEventTypes :: decl where
  "part_000_AnnotationEventTypes =
    DInterface Plain ''AnnotationEventTypes'' [TRef ''SelectEventTypes'', TRef ''AnnotationEventWithoutSelectTypes''] [
      MProperty ''select'' False (Some (TRef ''AnnotationEvent'')),
      MProperty ''deselect'' False (Some (TRef ''AnnotationEvent''))]"

text \<open>\<^verbatim>\<open>src/unnamed/part_000\<close>, lines 699 to 744.\<close>

definition part_000_Annotation :: decl where
  "part_000_Annotation =
    DClass Exported False ''Annotation'' [] (Some (TApp ''MapKitEvented'' [TRef ''AnnotationEventTypes''])) [] [
      MConstructor
        [Param ''coordinate'' False (Some (TRef ''Coordinate'')),
         Param ''factory'' False (Some (TRef ''Function'')),
         Param ''options'' True (Some (TRef ''AnnotationConstructorOptions''))]
        None,
      MProperty ''coordinate'' False (Some (TRef ''Coordinate'')),
      MProperty ''data'' False (Some TAny),
      MProperty ''title'' False (Some TString),
      MProperty ''subtitle'' False (Some TString),
      MProperty ''anchorOffset'' False (Some (TRef ''DOMPoint'')),
      MProperty ''appearanceAnimation'' False (Some TString),
      MProperty ''displayPriority'' False (Some TNumber),
      MProperty ''size'' False (Some (TObjLit [(''height'', TNumber), (''width'', TNumber)])),
      MProperty ''visible'' False (Some TBoolean),
      MProperty ''animates'' False (Some TBoolean),
      MProperty ''draggable'' False (Some TBoolean),
      MProperty ''selected'' False (Some TBoolean),
      MProperty ''enabled'' False (Some TBoolean),
      MProperty ''map'' False (Some (TRef ''Map'')),
      MProperty ''element'' False (Some (TRef ''HTMLElement'')),
      MProperty ''callout'' False (Some (TRef ''AnnotationCalloutDelegate'')),
      MProperty ''calloutEnabled'' False (Some TBoolean),
      MProperty ''calloutOffset'' False (Some (TRef ''DOMPoint'')),
      MProperty ''memberAnnotations'' False (Some (TArray (TRef ''Annotation''))),
      MProperty ''clusteringIdentifier'' False (Some TString),
      MProperty ''collisionMode'' False (Some (TRef ''Annotation.CollisionMode'')),
      MProperty ''accessibilityLabel'' False (Some TString)]"

text \<open>\<^verbatim>\<open>src/unnamed/part_000\<close>, lines 746 to 769.\<close>

definition part_000_Annotation_namespace :: decl where
  "part_000_Annotation_namespace =
    DNamespace Exported ''Annotation'' [
      DEnum Exported ''DisplayPriority'' [
        (''Low'', Some (NumLit 250)),
        (''High'', Some (NumLit 750)),
        (''Required'', Some (NumLit 1000))],
      DEnum Exported ''CollisionMode'' [
        (''Circle'', Some (StrLit ''Circle'')),
        (''Rectangle'', Some (StrLit ''Rectangle''))]]"

text \<open>\<^verbatim>\<open>src/unnamed/part_000\<close>, lines 772 to 782.\<close>

definition part_000__DisplayAsset :: decl where
  "part_000__DisplayAsset =
    DInterface Plain ''_DisplayAsset'' [] [
      MProperty ''1'' False (Some TString),
      MProperty ''2'' True (Some TString),
      MProperty ''3'' True (Some TString)]"

text \<open>\<^verbatim>\<open>src/unnamed/part_000\<close>, lines 784 to 808.\<close>

definition part_000_MarkerAnnotation :: decl where
  "part_000_MarkerAnnotation =
    DClass Exported False ''MarkerAnnotation'' [] (Some (TRef ''Annotation'')) [] [
      MConstructor
        [Param ''coordinate'' False (Some (TRef ''Coordinate'')),
         Param ''options'' True (Some (TRef ''MarkerAnnotationConstructorOptions''))]
        None,
      MProperty ''color'' False (Some TString),
      MProperty ''glyphColor'' False (Some TString),
      MProperty ''glyphImage'' False (Some (TRef ''_DisplayAsset'')),
      MProperty ''glyphText'' False (Some TString),
      MProperty ''selectedGlyphImage'' False (Some (TRef ''_DisplayAsset'')),
      MProperty ''subtitleVisibility'' False (Some (TRef ''FeatureVisibility'')),
      MProperty ''titleVisibility'' False (Some (TRef ''FeatureVisibility''))]"

text \<open>\<^verbatim>\<open>src/unnamed/part_000\<close>, lines 810 to 833.\<close>

definition part_000_MarkerAnnotationConstructorOptions :: decl where
  "part_000_MarkerAnnotationConstructorOptions =
    DInterface Exported ''MarkerAnnotationConstructorOptions'' [TRef ''AnnotationConstructorOptions''] [
      MProperty ''color'' True (Some TString),
      MProperty ''glyphColor'' True (Some TString),
      MProperty ''glyphImage'' True (Some (TRef ''_DisplayAsset'')),
      MProperty ''glyphText'' True (Some TString),
      MProperty ''selectedGlyphImage'' True (Some (TRef ''_DisplayAsset'')),
      MProperty ''subtitleVisibility'' True (Some (TRef ''FeatureVisibility'')),
      MProperty ''titleVisibility'' True (Some (TRef ''FeatureVisibility''))]"

text \<open>\<^verbatim>\<open>src/unnamed/part_000\<close>, lines 836 to 849.\<close>

definition part_000_ImageAnnotation :: decl where
  "part_000_ImageAnnotation =
    DClass Exported False ''ImageAnnotation'' [] (Some (TRef ''Annotation'')) [] [
      MConstructor
        [Param ''coordinate'' False (Some (TRef ''Coordinate'')),
         Param ''options'' True (Some (TRef ''ImageAnnotationConstructorOptions''))]
        None,
      MProperty ''url'' False (Some (TRef ''_DisplayAsset''))]"

text \<open>\<^verbatim>\<open>src/unnamed/part_000\<close>, lines 851 to 862.\<close>

definition part_000_ImageAnnotationConstructorOptions :: decl where
  "part_000_ImageAnnotationConstructorOptions =
    DInterface Exported ''ImageAnnotationConstructorOptions'' [TRef ''AnnotationConstructorOptions''] [
      MProperty ''url'' False (Some (TRef ''_DisplayAsset''))]"

text \<open>\<^verbatim>\<open>src/unnamed/part_000\<close>, lines 864 to 875.\<close>

definition part_000_FeatureVisibility :: decl where
  "part_000_FeatureVisibility =
    DEnum Exported ''FeatureVisibility'' [
      (''Adaptive'', Some (StrLit ''Adaptive'')),
      (''Hidden'', Some (StrLit ''Hidden'')),
      (''Visible'', Some (StrLit ''Visible''))]"

text \<open>\<^verbatim>\<open>src/unnamed/part_000\<close>, lines 877 to 880.\<close>

definition part_000_AnnotationCalloutDelegate :: decl where
  "part_000_AnnotationCalloutDelegate =
    DInterface Exported ''AnnotationCalloutDelegate'' [] []"

text \<open>\<^verbatim>\<open>src/unnamed/part_000\<close>, line 882.\<close>

definition part_000_OverlayEventWithoutSelectTypes :: decl where
  "part_000_OverlayEventWithoutSelectTypes =
    DInterface Plain ''OverlayEventWithoutSelectTypes'' [] []"

text \<open>\<^verbatim>\<open>src/unnamed/part_000\<close>, lines 884 to 887.\<close>

definition part_000_OverlayEventTypes :: decl where
  "part_000_OverlayEventTypes =
    DInterface Plain ''OverlayEventTypes'' [TRef ''SelectEventTypes'', TRef ''OverlayEventWithoutSelectTypes''] [
      MProperty ''select'' False (Some (TRef ''OverlayEvent'')),
      MProperty ''deselect'' False (Some (TRef ''OverlayEvent''))]"

text \<open>\<^verbatim>\<open>src/unnamed/part_000\<close>, lines 889 to 892.\<close>

definition part_000_Overlay :: decl where
  "part_000_Overlay =
    DClass Exported False ''Overlay'' [] None [] []"

text \<open>\<^verbatim>\<open>src/unnamed/part_000\<close>, lines 894 to 897.\<close>

definition part_000_CircleOverlay :: decl where
  "part_000_CircleOverlay =
    DClass Exported False ''CircleOverlay'' [] (Some (TRef ''Overlay'')) [] []"

text \<open>\<^verbatim>\<open>src/unnamed/part_000\<close>, lines 899 to 902.\<close>

definition part_000_PolylineOverlay :: decl where
  "part_000_PolylineOverlay =
    DClass Exported False ''PolylineOverlay'' [] (Some (TRef ''Overlay'')) [] []"

text \<open>\<^verbatim>\<open>src/unnamed/part_000\<close>, lines 904 to 907.\<close>

definition part_000_PolygonOverlay :: decl where
  "part_000_PolygonOverlay =
    DClass Exported False ''PolygonOverlay'' [] (Some (TRef ''Overlay'')) [] []"

text \<open>\<^verbatim>\<open>src/unnamed/part_000\<close>, lines 909 to 912.\<close>

definition part_000_TileOverlay :: decl where
  "part_000_TileOverlay =
    DClass Exported False ''TileOverlay'' [] None [] []"

text \<open>\<^verbatim>\<open>src/unnamed/part_000\<close>, lines 914 to 921.\<close>

definition part_000_GeocoderConstructorOptions :: decl where
  "part_000_GeocoderConstructorOptions =
    DInterface Exported ''GeocoderConstructorOptions'' [] [
      MProperty ''getsUserLocation'' True (Some TBoolean),
      MProperty ''language'' True (Some TString)]"

text \<open>\<^verbatim>\<open>src/unnamed/part_000\<close>, lines 923 to 926.\<close>

definition part_000_GeocodeResponse :: decl where
  "part_000_GeocodeResponse =
    DInterface Exported ''GeocodeResponse'' [] [
      MProperty ''results'' False (Some (TArray (TRef ''Place'')))]"

text \<open>\<^verbatim>\<open>src/unnamed/part_000\<close>, lines 928 to 941.\<close>

definition part_000_GeocoderLookupOptions :: decl where
  "part_000_GeocoderLookupOptions =
    DInterface Exported ''GeocoderLookupOptions'' [] [
      MProperty ''coordinate'' True (Some (TRef ''Coordinate'')),
      MProperty ''language'' True (Some TString),
      MProperty ''limitToCountries'' True (Some TString),
      MProperty ''region'' True (Some (TRef ''CoordinateRegion''))]"

text \<open>\<^verbatim>\<open>src/unnamed/part_000\<close>, lines 943 to 946.\<close>

definition part_000_GeocoderReverseLookupOptions :: decl where
  "part_000_GeocoderReverseLookupOptions =
    DInterface Exported ''GeocoderReverseLookupOptions'' [] [
      MProperty ''language'' True (Some TString)]"

text \<open>\<^verbatim>\<open>src/unnamed/part_000\<close>, lines 948 to 964.\<close>

definition part_000_Place :: decl where
  "part_000_Place =
    DInterface Exported ''Place'' [] [
      MProperty ''name'' False (Some TString),
      MProperty ''formattedAddress'' False (Some TString),
      MProperty ''countryCode'' False (Some TString),
      MProperty ''coordinate'' False (Some (TRef ''Coordinate'')),
      MProperty ''region'' False (Some (TRef ''CoordinateRegion''))]"

text \<open>\<^verbatim>\<open>src/unnamed/part_000\<close>, lines 966 to 984.\<close>

definition part_000_Geocoder :: decl where
  "part_000_Geocoder =
    DClass Exported False ''Geocoder'' [] None [] [
      MConstructor [Param ''options'' True (Some (TRef ''GeocoderConstructorOptions''))] None,
      MProperty ''getsUserLocation'' False (Some TBoolean),
      MProperty ''language'' False (Some TString),
      MMethod ''lookup'' False []
        [Param ''place'' False (Some TString),
         Param ''callback'' False
           (Some (TFun
                   [Param ''error'' False (Some (TRef ''MapKitError'')),
                    Param ''data'' False (Some (TRef ''GeocodeResponse''))]
                   TVoid)),
         Param ''options'' True (Some (TRef ''GeocoderLookupOptions''))]
        (Some TNumber) None,
      MMethod ''reverseLookup'' False []
        [Param ''coordinate'' False (Some (TRef ''Coordinate'')),
         Param ''callback'' False
           (Some (TFun
                   [Param ''error'' False (Some (TRef ''MapKitError'')),
                    Param ''data'' False (Some (TRef ''GeocodeResponse''))]
                   TVoid)),
         Param ''options'' True (Some (TRef ''GeocoderReverseLookupOptions''))]
        (Some TNumber) None,
      MMethod ''cancel'' False [] [Param ''id'' False (Some TNumber)] (Some TBoolean) None]"

text \<open>\<^verbatim>\<open>src/unnamed/part_000\<close>, lines 986 to 999.\<close>

definition part_000_SearchConstructorOptions :: decl where
  "part_000_SearchConstructorOptions =
    DInterface Exported ''SearchConstructorOptions'' [] [
      MProperty ''coordinate'' True (Some (TRef ''Coordinate'')),
      MProperty ''getsUserLocation'' True (Some TBoolean),
      MProperty ''language'' True (Some TString),
      MProperty ''region'' True (Some (TRef ''CoordinateRegion''))]"

text \<open>\<^verbatim>\<open>src/unnamed/part_000\<close>, lines 1001 to 1017.\<close>

definition part_000_SearchResponse :: decl where
  "part_000_SearchResponse =
    DInterface Exported ''SearchResponse'' [] [
      MProperty ''places'' False (Some (TArray (TRef ''Place''))),
      MProperty ''query'' False (Some TString),
      MProperty ''boundingRegion'' True (Some (TRef ''CoordinateRegion''))]"

text \<open>\<^verbatim>\<open>src/unnamed/part_000\<close>, lines 1019 to 1029.\<close>

definition part_000_SearchOptions :: decl where
  "part_000_SearchOptions =
    DInterface Exported ''SearchOptions'' [] [
      MProperty ''coordinate'' True (Some (TRef ''Coordinate'')),
      MProperty ''language'' True (Some TString),
      MProperty ''region'' True (Some (TRef ''CoordinateRegion''))]"

text \<open>\<^verbatim>\<open>src/unnamed/part_000\<close>, lines 1032 to 1039.\<close>

definition part_000_SearchAutocompleteResult :: decl where
  "part_000_SearchAutocompleteResult =
    DInterface Exported ''SearchAutocompleteResult'' [] [
      MProperty ''coordinate'' True (Some (TRef ''Coordinate'')),
      MProperty ''displayLines'' False (Some (TArray TString))]"

text \<open>\<^verbatim>\<open>src/unnamed/part_000\<close>, lines 1042 to 1049.\<close>

definition part_000_SearchAutocompleteResponse :: decl where
  "part_000_SearchAutocompleteResponse =
    DInterface Exported ''SearchAutocompleteResponse'' [] [
      MProperty ''query'' False (Some TString),
      MProperty ''results'' False (Some (TArray (TRef ''SearchAutocompleteResult'')))]"

text \<open>\<^verbatim>\<open>src/unnamed/part_000\<close>, lines 1052 to 1065.\<close>

definition part_000_SearchDelegate :: decl where
  "part_000_SearchDelegate =
    DInterface Exported ''SearchDelegate'' [] [
      MMethod ''autocompleteDidComplete'' True []
        [Param ''data'' False (Some (TRef ''SearchAutocompleteResponse''))]
        (Some TVoid) None,
      MMethod ''autocompleteDidError'' True []
        [Param ''error'' False (Some (TRef ''MapKitError''))]
        (Some TVoid) None,
      MMethod ''searchDidComplete'' True []
        [Param ''data'' False (Some (TRef ''SearchResponse''))]
        (Some TVoid) None,
      MMethod ''searchDidError'' True []
        [Param ''error'' False (Some (TRef ''MapKitError''))]
        (Some TVoid) None]"

text \<open>\<^verbatim>\<open>src/unnamed/part_000\<close>, lines 1068 to 1078.\<close>

definition part_000_Search :: decl where
  "part_000_Search =
    DClass Exported False ''Search'' [] None [] [
      MConstructor [Param ''options'' True (Some (TRef ''SearchConstructorOptions''))] None,
      MMethod ''search'' False []
        [Param ''query'' False (Some (TUnion [TString, TRef ''SearchAutocompleteResult''])),
         Param ''callback'' False
           (Some (TUnion
                   [TRef ''SearchDelegate'',
                    TFun
                      [Param ''error'' False (Some (TRef ''MapKitError'')),
                       Param ''data'' False (Some (TRef ''SearchResponse''))]
                      TVoid])),
         Param ''options'' True (Some (TRef ''SearchOptions''))]
        (Some TNumber) None,
      MMethod ''autocomplete'' False []
        [Param ''query'' False (Some TString),
         Param ''callback'' False
           (Some (TUnion
                   [TRef ''SearchDelegate'',
                    TFun
                      [Param ''error'' False (Some (TRef ''MapKitError'')),
                       Param ''data'' False (Some (TRef ''SearchAutocompleteResponse''))]
                      TVoid])),
         Param ''options'' True (Some (TRef ''SearchOptions''))]
        (Some TNumber) None]"

text \<open>\<^verbatim>\<open>src/unnamed/part_000\<close>, lines 1081 to 1090.\<close>

definition part_000_DOMPoint :: decl where
  "part_000_DOMPoint =
    DClass Exported False ''DOMPoint'' [] None [] [
      MConstructor [Param ''x'' False (Some TNumber), Param ''y'' False (Some TNumber)] None,
      MProperty ''w'' False (Some TNumber),
      MProperty ''x'' False (Some TNumber),
      MProperty ''y'' False (Some TNumber),
      MProperty ''z'' False (Some TNumber)]"

text \<open>The file: its declarations in source order.\<close>

definition part_000 :: "decl list" where
  "part_000 = [
    DExportAsNamespace ''mapkit'',
    part_000_MapKitError,
    part_000_SelectEventTypes,
    part_000_MapKitEvented,
    part_000_init,
    part_000_MapKitInitSuccessStatus,
    part_000_MapKitInitFailureStatus,
    part_000_MapKitInitSuccessEvent,
    part_000_MapKitInitFailureEvent,
    part_000_MapKitEventTypes,
    part_000_addEventListener,
    part_000_removeEventListener,
    part_000_maps,
    part_000_language,
    part_000_build,
    part_000_MapKitInitOptions,
    part_000_Coordinate,
    part_000_MapConstructorOptions,
    part_000_MapEvent,
    part_000_OverlayEvent,
    part_000_UserLocationChangeEvent,
    part_000_LocationError,
    part_000_UserLocationErrorEvent,
    part_000_MapEventTypes,
    part_000_Map,
    part_000_Map_namespace,
    part_000_MapShowItemsOptions,
    part_000_MapPoint,
    part_000_MapSize,
    part_000_MapRect,
    part_000_CoordinateRegion,
    part_000_CoordinateSpan,
    part_000_BoundingRegion,
    part_000_PaddingConstructorOptions,
    part_000_Padding,
    part_000_AnnotationConstructorOptions,
    part_000_AnnotationEvent,
    part_000_AnnotationEventWithoutSelectTypes,
    part_000_AnnotationEventTypes,
    part_000_Annotation,
    part_000_Annotation_namespace,
    part_000__DisplayAsset,
    part_000_MarkerAnnotation,
    part_000_MarkerAnnotationConstructorOptions,
    part_000_ImageAnnotation,
    part_000_ImageAnnotationConstructorOptions,
    part_000_FeatureVisibility,
    part_000_AnnotationCalloutDelegate,
    part_000_OverlayEventWithoutSelectTypes,
    part_000_OverlayEventTypes,
    part_000_Overlay,
    part_000_CircleOverlay,
    part_000_PolylineOverlay,
    part_000_PolygonOverlay,
    part_000_TileOverlay,
    part_000_GeocoderConstructorOptions,
    part_000_GeocodeResponse,
    part_000_GeocoderLookupOptions,
    part_000_GeocoderReverseLookupOptions,
    part_000_Place,
    part_000_Geocoder,
    part_000_SearchConstructorOptions,
    part_000_SearchResponse,
    part_000_SearchOptions,
    part_000_SearchAutocompleteResult,
    part_000_SearchAutocompleteResponse,
    part_000_SearchDelegate,
    part_000_Search,
    part_000_DOMPoint]"

section \<open>The declarations of \<^verbatim>\<open>src/unnamed/part_001\<close>\<close>

text \<open>\<^verbatim>\<open>src/unnamed/part_001\<close>, lines 11 to 16.\<close>

definition part_001_MapKitError :: decl where
  "part_001_MapKitError =
    DInterface Ambient ''MapKitError'' [] [
      MProperty ''code'' False (Some TNumber),
      MProperty ''message'' False (Some TString)]"

text \<open>\<^verbatim>\<open>src/unnamed/part_001\<close>, lines 18 to 27.\<close>

definition part_001_SelectEventTypes :: decl where
  "part_001_SelectEventTypes =
    DInterface Ambient ''SelectEventTypes'' [] [
      MProperty ''select'' False
        (Some (TUnion [TRef ''AnnotationEvent'', TRef ''OverlayEvent''])),
      MProperty ''deselect'' False
        (Some (TUnion [TRef ''AnnotationEvent'', TRef ''OverlayEvent'']))]"

text \<open>\<^verbatim>\<open>src/unnamed/part_001\<close>, lines 29 to 37.\<close>

definition part_001_MapKitEvented :: decl where
  "part_001_MapKitEvented =
    DClass Ambient False ''MapKitEvented'' [TParam ''T'' None] None [] [
      MMethod ''addEventListener'' False [TParam ''K'' (Some (TKeyof (TRef ''T'')))]
        [Param ''type'' False (Some (TRef ''K'')),
         Param ''listener'' False
           (Some (TFun
                   [Param ''event'' False (Some (TIndexed (TRef ''T'') (TRef ''K'')))]
                   TVoid)),
         Param ''thisObject'' True (Some TAny)]
        (Some TVoid) None,
      MMethod ''removeEventListener'' False [TParam ''K'' (Some (TKeyof (TRef ''T'')))]
        [Param ''type'' False (Some (TRef ''K'')),
         Param ''listener'' False
           (Some (TFun
                   [Param ''event'' False (Some (TIndexed (TRef ''T'') (TRef ''K'')))]
                   TVoid)),
         Param ''thisObject'' True (Some TAny)]
        (Some TVoid) None]"

text \<open>\<^verbatim>\<open>src/unnamed/part_001\<close>, line 40.\<close>

definition part_001_init :: decl where
  "part_001_init =
    DFunction Exported ''init'' []
      [Param ''options'' False (Some (TRef ''MapKitInitOptions''))]
      (Some TVoid) None"

text \<open>\<^verbatim>\<open>src/unnamed/part_001\<close>, lines 42 to 49.\<close>

definition part_001_MapKitInitSuccessStatus :: decl where
  "part_001_MapKitInitSuccessStatus =
    DEnum Ambient ''MapKitInitSuccessStatus'' [
      (''initialized'', Some (StrLit ''Initialized'')),
      (''refreshed'', Some (StrLit ''Refreshed''))]"

text \<open>\<^verbatim>\<open>src/unnamed/part_001\<close>, lines 51 to 58.\<close>

definition part_001_MapKitInitFailureStatus :: decl where
  "part_001_MapKitInitFailureStatus =
    DEnum Ambient ''MapKitInitFailureStatus'' [
      (''unauthorized'', Some (StrLit ''Unauthorized'')),
      (''tooManyRequests'', Some (StrLit ''Too Many Requests''))]"

text \<open>\<^verbatim>\<open>src/unnamed/part_001\<close>, lines 60 to 63.\<close>

definition part_001_MapKitInitSuccessEvent :: decl where
  "part_001_MapKitInitSuccessEvent =
    DClass Ambient False ''MapKitInitSuccessEvent'' [] (Some (TRef ''Event'')) [] [
      MProperty ''status'' False (Some (TRef ''MapKitInitSuccessStatus''))]"

text \<open>\<^verbatim>\<open>src/unnamed/part_001\<close>, lines 65 to 68.\<close>

definition part_001_MapKitInitFailureEvent :: decl where
  "part_001_MapKitInitFailureEvent =
    DClass Ambient False ''MapKitInitFailureEvent'' [] (Some (TRef ''Event'')) [] [
      MProperty ''status'' False (Some (TRef ''MapKitInitFailureStatus''))]"

text \<open>\<^verbatim>\<open>src/unnamed/part_001\<close>, lines 70 to 74.\<close>

definition part_001_MapKitEventTypes :: decl where
  "part_001_MapKitEventTypes =
    DInterface Plain ''MapKitEventTypes'' [] [
      MProperty ''configuration-change'' False (Some (TRef ''MapKitInitSuccessEvent'')),
      MProperty ''error'' False (Some (TRef ''MapKitInitFailureEvent''))]"

text \<open>\<^verbatim>\<open>src/unnamed/part_001\<close>, line 77.\<close>

definition part_001_addEventListener :: decl where
  "part_001_addEventListener =
    DFunction Exported ''addEventListener'' [TParam ''K'' (Some (TKeyof (TRef ''MapKitEventTypes'')))]
      [Param ''type'' False (Some (TRef ''K'')),
       Param ''listener'' False
         (Some (TFun
                 [Param ''event'' False
                    (Some (TIndexed (TRef ''MapKitEventTypes'') (TRef ''K'')))]
                 TVoid)),
       Param ''thisObject'' True (Some TAny)]
      (Some TVoid) None"

text \<open>\<^verbatim>\<open>src/unnamed/part_001\<close>, line 80.\<close>

definition part_001_removeEventListener :: decl where
  "part_001_removeEventListener =
    DFunction Exported ''removeEventListener'' [TParam ''K'' (Some (TKeyof (TRef ''MapKitEventTypes'')))]
      [Param ''type'' False (Some (TRef ''K'')),
       Param ''listener'' False
         (Some (TFun
                 [Param ''event'' False
                    (Some (TIndexed (TRef ''MapKitEventTypes'') (TRef ''K'')))]
                 TVoid)),
       Param ''thisObject'' True (Some TAny)]
      (Some TVoid) None"

text \<open>\<^verbatim>\<open>src/unnamed/part_001\<close>, line 83.\<close>

definition part_001_maps :: decl where
  "part_001_maps =
    DVariable Exported Let ''maps'' (Some (TArray (TRef ''Map''))) None"

text \<open>\<^verbatim>\<open>src/unnamed/part_001\<close>, line 86.\<close>

definition part_001_language :: decl where
  "part_001_language =
    DVariable Exported Let ''language'' (Some TString) None"

text \<open>\<^verbatim>\<open>src/unnamed/part_001\<close>, line 89.\<close>

definition part_001_build :: decl where
  "part_001_build =
    DVariable Exported Const ''build'' (Some TString) None"

text \<open>\<^verbatim>\<open>src/unnamed/part_001\<close>, lines 92 to 102.\<close>

definition part_001_MapKitInitOptions :: decl where
  "part_001_MapKitInitOptions =
    DInterface Exported ''MapKitInitOptions'' [] [
      MProperty ''authorizationCallback'' False
        (Some (TFun
                [Param ''done'' False (Some (TFun [Param ''jwt'' False (Some TString)] TVoid))]
                TVoid)),
      MProperty ''language'' True (Some TString)]"

text \<open>\<^verbatim>\<open>src/unnamed/part_001\<close>, lines 105 to 127.\<close>

definition part_001_Coordinate :: decl where
  "part_001_Coordinate =
    DClass Exported False ''Coordinate'' [] None [] [
      MConstructor
        [Param ''latitude'' False (Some TNumber),
         Param ''longitude'' False (Some TNumber)]
        None,
      MProperty ''latitude'' False (Some TNumber),
      MProperty ''longitude'' False (Some TNumber),
      MMethod ''copy'' False [] [] (Some (TRef ''Coordinate'')) None,
      MMethod ''equals'' False []
        [Param ''other'' False (Some (TRef ''Coordinate''))]
        (Some TBoolean) None,
      MMethod ''toMapPoint'' False [] [] (Some (TRef ''MapPoint'')) None,
      MMethod ''toUnwrappedMapPoint'' False [] [] (Some (TRef ''MapPoint'')) None]"

text \<open>\<^verbatim>\<open>src/unnamed/part_001\<close>, lines 130 to 204.\<close>

definition part_001_MapConstructorOptions :: decl where
  "part_001_MapConstructorOptions =
    DInterface Exported ''MapConstructorOptions'' [] [
      MProperty ''visibleMapRect'' True (Some (TRef ''MapRect'')),
      MProperty ''region'' True (Some (TRef ''CoordinateRegion'')),
      MProperty ''center'' True (Some (TRef ''Coordinate'')),
      MProperty ''rotation'' True (Some TNumber),
      MProperty ''tintColor'' True (Some TString),
      MProperty ''colorScheme'' True (Some (TRef ''Map.ColorSchemes'')),
      MProperty ''mapType'' True (Some (TRef ''Map.MapTypes'')),
      MProperty ''padding'' True (Some (TRef ''Padding'')),
      MProperty ''showsMapTypeControl'' True (Some TBoolean),
      MProperty ''isRotationEnabled'' True (Some TBoolean),
      MProperty ''showsCompass'' True (Some (TRef ''FeatureVisibility'')),
      MProperty ''isZoomEnabled'' True (Some TBoolean),
      MProperty ''showsZoomControl'' True (Some TBoolean),
      MProperty ''isScrollEnabled'' True (Some TBoolean),
      MProperty ''showsScale'' True (Some (TRef ''FeatureVisibility'')),
      MProperty ''annotationForCluster'' True
        (Some (TFun
                [Param ''clusterAnnotation'' False (Some (TRef ''Annotation''))]
                (TUnion [TVoid, TRef ''Annotation'']))),
      MProperty ''annotations'' True (Some (TArray (TRef ''Annotation''))),
      MProperty ''selectedAnnotation'' True (Some (TRef ''Annotation'')),
      MProperty ''overlays'' True (Some (TArray (TRef ''Overlay''))),
      MProperty ''selectedOverlay'' True (Some (TRef ''Overlay'')),
      MProperty ''showsPointsOfInterest'' True (Some TBoolean),
      MProperty ''showsUserLocation'' True (Some TBoolean),
      MProperty ''tracksUserLocation'' True (Some TBoolean),
      MProperty ''showsUserLocationControl'' True (Some TBoolean)]"

text \<open>\<^verbatim>\<open>src/unnamed/part_001\<close>, lines 206 to 209.\<close>

definition part_001_MapEvent :: decl where
  "part_001_MapEvent =
    DClass Ambient False ''MapEvent'' [] (Some (TRef ''Event'')) [] []"

text \<open>\<^verbatim>\<open>src/unnamed/part_001\<close>, lines 211 to 214.\<close>

definition part_001_OverlayEvent :: decl where
  "part_001_OverlayEvent =
    DClass Ambient False ''OverlayEvent'' [] (Some (TRef ''Event'')) [] [
      MProperty ''overlay'' False (Some (TRef ''Overlay''))]"

text \<open>\<^verbatim>\<open>src/unnamed/part_001\<close>, lines 216 to 220.\<close>

definition part_001_UserLocationChangeEvent :: decl where
  "part_001_UserLocationChangeEvent =
    DClass Ambient False ''UserLocationChangeEvent'' [] (Some (TRef ''Event'')) [] [
      MProperty ''coordinate'' False (Some (TRef ''Coordinate'')),
      MProperty ''timestamp'' False (Some (TRef ''Date''))]"

text \<open>\<^verbatim>\<open>src/unnamed/part_001\<close>, lines 222 to 228.\<close>

definition part_001_LocationError :: decl where
  "part_001_LocationError =
    DEnum Ambient ''LocationError'' [
      (''PERMISSION_DENIED'', Some (NumLit 1)),
      (''POSITION_UNAVAILABLE'', Some (NumLit 2)),
      (''TIMEOUT'', Some (NumLit 3)),
      (''MAPKIT_NOT_INITIALIZED'', Some (NumLit 4))]"

text \<open>\<^verbatim>\<open>src/unnamed/part_001\<close>, lines 230 to 234.\<close>

definition part_001_UserLocationErrorEvent :: decl where
  "part_001_UserLocationErrorEvent =
    DClass Ambient False ''UserLocationErrorEvent'' [] None [TRef ''MapKitError''] [
      MProperty ''code'' False (Some (TRef ''LocationError'')),
      MProperty ''message'' False (Some TString)]"

text \<open>\<^verbatim>\<open>src/unnamed/part_001\<close>, lines 236 to 248.\<close>

definition part_001_MapEventTypes :: decl where
  "part_001_MapEventTypes =
    DInterface Plain ''MapEventTypes'' [TRef ''SelectEventTypes'', TRef ''AnnotationEventWithoutSelectTypes'', TRef ''OverlayEventWithoutSelectTypes''] [
      MProperty ''region-change-start'' False (Some (TRef ''MapEvent'')),
      MProperty ''region-change-end'' False (Some (TRef ''MapEvent'')),
      MProperty ''scroll-start'' False (Some (TRef ''MapEvent'')),
      MProperty ''scroll-end'' False (Some (TRef ''MapEvent'')),
      MProperty ''zoom-start'' False (Some (TRef ''MapEvent'')),
      MProperty ''zoom-end'' False (Some (TRef ''MapEvent'')),
      MProperty ''map-type-change'' False (Some (TRef ''MapEvent'')),
      MProperty ''user-location-change'' False (Some (TRef ''UserLocationChangeEvent'')),
      MProperty ''user-location-error'' False (Some (TRef ''UserLocationErrorEvent''))]"

text \<open>\<^verbatim>\<open>src/unnamed/part_001\<close>, lines 251 to 411.\<close>

definition part_001_Map :: decl where
  "part_001_Map =
    DClass Exported False ''Map'' [] (Some (TApp ''MapKitEvented'' [TRef ''MapEventTypes''])) [] [
      MConstructor
        [Param ''parent'' True (Some (TUnion [TString, TRef ''HTMLElement''])),
         Param ''options'' True (Some (TRef ''MapConstructorOptions''))]
        None,
      MProperty ''isRotationAvailable'' False (Some TBoolean),
      MProperty ''isRotationEnabled'' False (Some TBoolean),
      MProperty ''isScrollEnabled'' False (Some TBoolean),
      MProperty ''isZoomEnabled'' False (Some TBoolean),
      MProperty ''center'' False (Some (TRef ''Coordinate'')),
      MMethod ''setCenterAnimated'' False []
        [Param ''coordinate'' False (Some (TRef ''Coordinate'')),
         Param ''animate'' True (Some TBoolean)]
        (Some (TRef ''Map'')) None,
      MProperty ''region'' False (Some (TRef ''CoordinateRegion'')),
      MMethod ''setRegionAnimated'' False []
        [Param ''egion'' False (Some (TRef ''CoordinateRegion'')),
         Param ''animate'' True (Some TBoolean)]
        (Some (TRef ''Map'')) None,
      MProperty ''rotation'' False (Some TNumber),
      MMethod ''setRotationAnimated'' False []
        [Param ''degrees'' False (Some TNumber),
         Param ''animate'' True (Some TBoolean)]
        (Some (TRef ''Map'')) None,
      MProperty ''visibleMapRect'' False (Some (TRef ''MapRect'')),
      MMethod ''setVisibleMapRectAnimated'' False []
        [Param ''mapRect'' False (Some (TRef ''MapRect'')),
         Param ''animate'' True (Some TBoolean)]
        (Some (TRef ''Map'')) None,
      MProperty ''colorScheme'' False (Some (TRef ''Map.ColorSchemes'')),
      MProperty ''distances'' False (Some (TRef ''Map.Distances'')),
      MProperty ''mapType'' False (Some (TRef ''Map.MapTypes'')),
      MProperty ''padding'' False (Some (TRef ''Padding'')),
      MProperty ''showsCompass'' False (Some (TRef ''FeatureVisibility'')),
      MProperty ''showsMapTypeControl'' False (Some TBoolean),
      MProperty ''showsZoomControl'' False (Some TBoolean),
      MProperty ''showsUserLocationControl'' False (Some TBoolean),
      MProperty ''showsPointsOfInterest'' False (Some TBoolean),
      MProperty ''showsScale'' False (Some (TRef ''FeatureVisibility'')),
      MProperty ''tintColor'' False (Some TString),
      MMethod ''showItems'' False []
        [Param ''items'' False (Some (TArray (TUnion [TRef ''Annotation'', TRef ''Overlay'']))),
         Param ''options'' True (Some (TRef ''MapShowItemsOptions''))]
        (Some (TArray (TUnion [TRef ''Annotation'', TRef ''Overlay'']))) None,
      MProperty ''annotationForCluster'' True
        (Some (TFun
                [Param ''clusterAnnotation'' False (Some (TRef ''Annotation''))]
                (TUnion [TVoid, TRef ''Annotation'']))),
      MProperty ''annotations'' True (Some (TArray (TRef ''Annotation''))),
      MProperty ''selectedAnnotation'' False (Some (TUnion [TRef ''Annotation'', TNull])),
      MMethod ''annotationsInMapRect'' False []
        [Param ''mapRect'' False (Some (TRef ''MapRect''))]
        (Some (TArray (TRef ''Annotation''))) None,
      MMethod ''addAnnotation'' False []
        [Param ''annotation'' False (Some (TRef ''Annotation''))]
        (Some (TRef ''Annotation'')) None,
      MMethod ''addAnnotations'' False []
        [Param ''annotations'' False (Some (TArray (TRef ''Annotation'')))]
        (Some (TArray (TRef ''Annotation''))) None,
      MMethod ''removeAnnotation'' False []
        [Param ''annotation'' False (Some (TRef ''Annotation''))]
        (Some (TRef ''Annotation'')) None,
      MMethod ''removeAnnotations'' False []
        [Param ''annotations'' False (Some (TArray (TRef ''Annotation'')))]
        (Some (TArray (TRef ''Annotation''))) None,
      MProperty ''overlays'' False (Some (TArray (TRef ''Overlay''))),
      MProperty ''selectedOverlay'' False (Some (TUnion [TRef ''Overlay'', TNull])),
      MMethod ''overlaysAtPoint'' False []
        [Param ''point'' False (Some (TRef ''DOMPoint''))]
        (Some (TArray (TRef ''Overlay''))) None,
      MMethod ''addOverlay'' False []
        [Param ''overlay'' False (Some (TRef ''Overlay''))]
        (Some (TRef ''Overlay'')) None,
      MMethod ''addOverlays'' False []
        [Param ''overlays'' False (Some (TArray (TRef ''Overlay'')))]
        (Some (TArray (TRef ''Overlay''))) None,
      MMethod ''removeOverlay'' False []
        [Param ''overlay'' False (Some (TRef ''Overlay''))]
        (Some (TRef ''Overlay'')) None,
      MMethod ''removeOverlays'' False []
        [Param ''overlays'' False (Some (TArray (TRef ''Overlay'')))]
        (Some (TArray (TRef ''Overlay''))) None,
      MMethod ''topOverlayAtPoint'' False []
        [Param ''point'' False (Some (TRef ''DOMPoint''))]
        (Some (TRef ''Overlay'')) None,
      MProperty ''tileOverlays'' False (Some (TArray (TRef ''TileOverlay''))),
      MMethod ''addTileOverlay'' False []
        [Param ''overlay'' False (Some (TRef ''TileOverlay''))]
        (Some (TRef ''TileOverlay'')) None,
      MMethod ''addTileOverlays'' False []
        [Param ''overlays'' False (Some (TArray (TRef ''TileOverlay'')))]
        (Some (TArray (TRef ''TileOverlay''))) None,
      MMethod ''removeTileOverlay'' False []
        [Param ''overlay'' False (Some (TRef ''TileOverlay''))]
        (Some (TRef ''TileOverlay'')) None,
      MMethod ''removeTileOverlays'' False []
        [Param ''overlays'' False (Some (TArray (TRef ''TileOverlay'')))]
        (Some (TArray (TRef ''TileOverlay''))) None,
      MProperty ''showsUserLocation'' False (Some TBoolean),
      MProperty ''tracksUserLocation'' False (Some TBoolean),
      MProperty ''userLocationAnnotation'' False (Some (TUnion [TRef ''Annotation'', TNull])),
      MMethod ''convertCoordinateToPointOnPage'' False []
        [Param ''coordinate'' False (Some (TRef ''Coordinate''))]
        (Some (TRef ''DOMPoint'')) None,
      MMethod ''convertPointOnPageToCoordinate'' False []
        [Param ''point'' False (Some (TRef ''DOMPoint''))]
        (Some (TRef ''Coordinate'')) None,
      MMethod ''destroy'' False [] [] (Some TVoid) None,
      MProperty ''element'' False (Some (TRef ''HTMLElement''))]"

text \<open>\<^verbatim>\<open>src/unnamed/part_001\<close>, lines 413 to 454.\<close>

definition part_001_Map_namespace :: decl where
  "part_001_Map_namespace =
    DNamespace Exported ''Map'' [
      DEnum Exported ''MapTypes'' [
        (''Hybrid'', Some (StrLit ''Hybrid'')),
        (''Satellite'', Some (StrLit ''Satellite'')),
        (''Standard'', Some (StrLit ''Standard'')),
        (''MutedStandard'', Some (StrLit ''MutedStandard''))],
      DEnum Exported ''ColorSchemes'' [
        (''Light'', Some (StrLit ''Light'')),
        (''Dark'', Some (StrLit ''Dark''))],
      DEnum Exported ''Distances'' [
        (''Adaptive'', Some (StrLit ''Adaptive'')),
        (''Metric'', Some (StrLit ''Metric'')),
        (''Imperial'', Some (StrLit ''Imperial''))]]"

text \<open>\<^verbatim>\<open>src/unnamed/part_001\<close>, lines 457 to 467.\<close>

definition part_001_MapShowItemsOptions :: decl where
  "part_001_MapShowItemsOptions =
    DInterface Exported ''MapShowItemsOptions'' [] [
      MProperty ''animate'' True (Some TBoolean),
      MProperty ''minimumSpan'' True (Some (TRef ''CoordinateSpan'')),
      MProperty ''padding'' False (Some (TRef ''Padding''))]"

text \<open>\<^verbatim>\<open>src/unnamed/part_001\<close>, lines 470 to 489.\<close>

definition part_001_MapPoint :: decl where
  "part_001_MapPoint =
    DClass Exported False ''MapPoint'' [] None [] [
      MConstructor [Param ''x'' False (Some TNumber), Param ''y'' False (Some TNumber)] None,
      MProperty ''x'' False (Some TNumber),
      MProperty ''y'' False (Some TNumber),
      MMethod ''copy'' False [] [] (Some (TRef ''MapPoint'')) None,
      MMethod ''equals'' False []
        [Param ''other'' False (Some (TRef ''MapPoint''))]
        (Some TBoolean) None,
      MMethod ''toCoordinate'' False [] [] (Some (TRef ''Coordinate'')) None]"

text \<open>\<^verbatim>\<open>src/unnamed/part_001\<close>, lines 492 to 508.\<close>

definition part_001_MapSize :: decl where
  "part_001_MapSize =
    DClass Exported False ''MapSize'' [] None [] [
      MConstructor
        [Param ''width'' False (Some TNumber),
         Param ''height'' False (Some TNumber)]
        None,
      MProperty ''width'' False (Some TNumber),
      MProperty ''height'' False (Some TNumber),
      MProperty ''copy'' False (Some (TRef ''MapSize'')),
      MMethod ''equals'' False []
        [Param ''anotherSize'' False (Some (TRef ''MapSize''))]
        (Some TBoolean) None]"

text \<open>\<^verbatim>\<open>src/unnamed/part_001\<close>, lines 511 to 551.\<close>

definition part_001_MapRect :: decl where
  "part_001_MapRect =
    DClass Exported False ''MapRect'' [] None [] [
      MConstructor
        [Param ''x'' False (Some TNumber),
         Param ''y'' False (Some TNumber),
         Param ''width'' False (Some TNumber),
         Param ''height'' False (Some TNumber)]
        None,
      MProperty ''origin'' False (Some (TRef ''MapPoint'')),
      MProperty ''size'' False (Some (TRef ''MapSize'')),
      MProperty ''maxX'' False (Some TNumber),
      MProperty ''maxY'' False (Some TNumber),
      MProperty ''midX'' False (Some TNumber),
      MProperty ''midY'' False (Some TNumber),
      MProperty ''minX'' False (Some TNumber),
      MProperty ''minY'' False (Some TNumber),
      MMethod ''copy'' False [] [] (Some (TRef ''MapRect'')) None,
      MMethod ''equals'' False []
        [Param ''other'' False (Some (TRef ''MapRect''))]
        (Some TBoolean) None,
      MMethod ''scale'' False []
        [Param ''scaleFactor'' False (Some TNumber),
         Param ''scaleCenter'' False (Some (TRef ''MapPoint''))]
        (Some (TRef ''MapRect'')) None,
      MMethod ''toCoordinateRegion'' False [] [] (Some (TRef ''CoordinateRegion'')) None]"

text \<open>\<^verbatim>\<open>src/unnamed/part_001\<close>, lines 554 to 576.\<close>

definition part_001_CoordinateRegion :: decl where
  "part_001_CoordinateRegion =
    DClass Exported False ''CoordinateRegion'' [] None [] [
      MConstructor
        [Param ''center'' False (Some (TRef ''Coordinate'')),
         Param ''span'' False (Some (TRef ''CoordinateSpan''))]
        None,
      MProperty ''center'' False (Some (TRef ''Coordinate'')),
      MProperty ''span'' False (Some (TRef ''CoordinateSpan'')),
      MMethod ''copy'' False [] [] (Some (TRef ''CoordinateRegion'')) None,
      MMethod ''equals'' False []
        [Param ''other'' False (Some (TRef ''CoordinateRegion''))]
        (Some TBoolean) None,
      MMethod ''toBoundingRegion'' False [] [] (Some (TRef ''BoundingRegion'')) None,
      MMethod ''toMapRect'' False [] [] (Some (TRef ''MapRect'')) None]"

text \<open>\<^verbatim>\<open>src/unnamed/part_001\<close>, lines 579 to 595.\<close>

definition part_001_CoordinateSpan :: decl where
  "part_001_CoordinateSpan =
    DClass Exported False ''CoordinateSpan'' [] None [] [
      MConstructor
        [Param ''latitudeDelta'' False (Some TNumber),
         Param ''longitudeDelta'' False (Some TNumber)]
        None,
      MProperty ''latitudeDelta'' False (Some TNumber),
      MProperty ''longitudeDelta'' False (Some TNumber),
      MMethod ''copy'' False [] [] (Some (TRef ''CoordinateSpan'')) None,
      MMethod ''equals'' False []
        [Param ''other'' False (Some (TRef ''CoordinateSpan''))]
        (Some TBoolean) None]"

text \<open>\<^verbatim>\<open>src/unnamed/part_001\<close>, lines 598 to 620.\<close>

definition part_001_BoundingRegion :: decl where
  "part_001_BoundingRegion =
    DClass Exported False ''BoundingRegion'' [] None [] [
      MConstructor
        [Param ''northLatitude'' False (Some TNumber),
         Param ''eastLongitude'' False (Some TNumber),
         Param ''southLatitude'' False (Some TNumber),
         Param ''westLongitude'' False (Some TNumber)]
        None,
      MProperty ''northLatitude'' False (Some TNumber),
      MProperty ''eastLongitude'' False (Some TNumber),
      MProperty ''southLatitude'' False (Some TNumber),
      MProperty ''westLongitude'' False (Some TNumber),
      MMethod ''copy'' False [] [] (Some (TRef ''BoundingRegion'')) None,
      MMethod ''toCoordinateRegion'' False [] [] (Some (TRef ''CoordinateRegion'')) None]"

text \<open>\<^verbatim>\<open>src/unnamed/part_001\<close>, lines 623 to 636.\<close>

definition part_001_PaddingConstructorOptions :: decl where
  "part_001_PaddingConstructorOptions =
    DInterface Exported ''PaddingConstructorOptions'' [] [
      MProperty ''bottom'' False (Some TNumber),
      MProperty ''left'' False (Some TNumber),
      MProperty ''right'' False (Some TNumber),
      MProperty ''top'' False (Some TNumber)]"

text \<open>\<^verbatim>\<open>src/unnamed/part_001\<close>, lines 639 to 655.\<close>

definition part_001_Padding :: decl where
  "part_001_Padding =
    DClass Exported False ''Padding'' [] None [] [
      MConstructor
        [Param ''options'' True
           (Some (TUnion [TRef ''PaddingConstructorOptions'', TArray TNumber]))]
        None,
      MProperty ''bottom'' False (Some TNumber),
      MProperty ''left'' False (Some TNumber),
      MProperty ''right'' False (Some TNumber),
      MProperty ''top'' False (Some TNumber)]"

text \<open>\<^verbatim>\<open>src/unnamed/part_001\<close>, lines 658 to 713.\<close>

definition part_001_AnnotationConstructorOptions :: decl where
  "part_001_AnnotationConstructorOptions =
    DInterface Exported ''AnnotationConstructorOptions'' [] [
      MProperty ''data'' True (Some TAny),
      MProperty ''title'' True (Some TString),
      MProperty ''subtitle'' True (Some TString),
      MProperty ''anchorOffset'' True (Some (TRef ''DOMPoint'')),
      MProperty ''appearanceAnimation'' True (Some TString),
      MProperty ''displayPriority'' True (Some TNumber),
      MProperty ''size'' True (Some (TObjLit [(''height'', TNumber), (''width'', TNumber)])),
      MProperty ''visible'' True (Some TBoolean),
      MProperty ''animates'' True (Some TBoolean),
      MProperty ''draggable'' True (Some TBoolean),
      MProperty ''enabled'' True (Some TBoolean),
      MProperty ''selected'' True (Some TBoolean),
      MProperty ''callout'' True (Some (TRef ''AnnotationCalloutDelegate'')),
      MProperty ''calloutEnabled'' True (Some TBoolean),
      MProperty ''calloutOffset'' True (Some (TRef ''DOMPoint'')),
      MProperty ''clusteringIdentifier'' True (Some TString),
      MProperty ''collisionMode'' True (Some (TRef ''Annotation.CollisionMode'')),
      MProperty ''accessibilityLabel'' True (Some TString)]"

text \<open>\<^verbatim>\<open>src/unnamed/part_001\<close>, lines 715 to 718.\<close>

definition part_001_AnnotationEvent :: decl where
  "part_001_AnnotationEvent =
    DClass Ambient False ''AnnotationEvent'' [] (Some (TRef ''Event'')) [] [
      MProperty ''annotation'' False (Some (TRef ''Annotation''))]"

text \<open>\<^verbatim>\<open>src/unnamed/part_001\<close>, lines 720 to 729.\<close>

definition part_001_AnnotationEventWithoutSelectTypes :: decl where
  "part_001_AnnotationEventWithoutSelectTypes =
    DInterface Plain ''AnnotationEventWithoutSelectTypes'' [] [
      MProperty ''drag-start'' False (Some (TRef ''AnnotationEvent'')),
      MProperty ''dragging'' False (Some (TRef ''AnnotationEvent'')),
      MProperty ''drag-end'' False (Some (TRef ''AnnotationEvent''))]"

text \<open>\<^verbatim>\<open>src/unnamed/part_001\<close>, lines 731 to 735.\<close>

definition part_001_AnnotationEventTypes :: decl where
  "part_001_AnnotationEventTypes =
    DInterface Plain ''AnnotationEventTypes'' [TRef ''SelectEventTypes'', TRef ''AnnotationEventWithoutSelectTypes''] [
      MProperty ''select'' False (Some (TRef ''AnnotationEvent'')),
      MProperty ''deselect'' False (Some (TRef ''AnnotationEvent''))]"

text \<open>\<^verbatim>\<open>src/unnamed/part_001\<close>, lines 740 to 810.\<close>

definition part_001_Annotation :: decl where
  "part_001_Annotation =
    DClass Exported False ''Annotation'' [] (Some (TApp ''MapKitEvented'' [TRef ''AnnotationEventTypes''])) [] [
      MConstructor
        [Param ''coordinate'' False (Some (TRef ''Coordinate'')),
         Param ''factory'' False (Some (TRef ''Function'')),
         Param ''options'' True (Some (TRef ''AnnotationConstructorOptions''))]
        None,
      MProperty ''coordinate'' False (Some (TRef ''Coordinate'')),
      MProperty ''data'' False (Some TAny),
      MProperty ''title'' False (Some TString),
      MProperty ''subtitle'' False (Some TString),
      MProperty ''anchorOffset'' False (Some (TRef ''DOMPoint'')),
      MProperty ''appearanceAnimation'' False (Some TString),
      MProperty ''displayPriority'' False (Some TNumber),
      MProperty ''size'' False (Some (TObjLit [(''height'', TNumber), (''width'', TNumber)])),
      MProperty ''visible'' False (Some TBoolean),
      MProperty ''animates'' False (Some TBoolean),
      MProperty ''draggable'' False (Some TBoolean),
      MProperty ''selected'' False (Some TBoolean),
      MProperty ''enabled'' False (Some TBoolean),
      MProperty ''map'' False (Some (TRef ''Map'')),
      MProperty ''element'' False (Some (TRef ''HTMLElement'')),
      MProperty ''callout'' False (Some (TRef ''AnnotationCalloutDelegate'')),
      MProperty ''calloutEnabled'' False (Some TBoolean),
      MProperty ''calloutOffset'' False (Some (TRef ''DOMPoint'')),
      MProperty ''memberAnnotations'' False (Some (TArray (TRef ''Annotation''))),
      MProperty ''clusteringIdentifier'' False (Some TString),
      MProperty ''collisionMode'' False (Some (TRef ''Annotation.CollisionMode'')),
      MProperty ''accessibilityLabel'' False (Some TString)]"

text \<open>\<^verbatim>\<open>src/unnamed/part_001\<close>, lines 812 to 836.\<close>

definition part_001_Annotation_namespace :: decl where
  "part_001_Annotation_namespace =
    DNamespace Exported ''Annotation'' [
      DEnum Exported ''DisplayPriority'' [
        (''Low'', Some (NumLit 250)),
        (''High'', Some (NumLit 750)),
        (''Required'', Some (NumLit 1000))],
      DEnum Exported ''CollisionMode'' [
        (''Circle'', Some (StrLit ''Circle'')),
        (''Rectangle'', Some (StrLit ''Rectangle''))]]"

text \<open>\<^verbatim>\<open>src/unnamed/part_001\<close>, lines 839 to 849.\<close>

definition part_001_DisplayAsset :: decl where
  "part_001_DisplayAsset =
    DInterface Plain ''DisplayAsset'' [] [
      MProperty ''1'' False (Some TString),
      MProperty ''2'' True (Some TString),
      MProperty ''3'' True (Some TString)]"

text \<open>\<^verbatim>\<open>src/unnamed/part_001\<close>, lines 852 to 877.\<close>

definition part_001_MarkerAnnotation :: decl where
  "part_001_MarkerAnnotation =
    DClass Exported False ''MarkerAnnotation'' [] (Some (TRef ''Annotation'')) [] [
      MConstructor
        [Param ''coordinate'' False (Some (TRef ''Coordinate'')),
         Param ''options'' True (Some (TRef ''MarkerAnnotationConstructorOptions''))]
        None,
      MProperty ''color'' False (Some TString),
      MProperty ''glyphColor'' False (Some TString),
      MProperty ''glyphImage'' False (Some (TRef ''DisplayAsset'')),
      MProperty ''glyphText'' False (Some TString),
      MProperty ''selectedGlyphImage'' False (Some (TRef ''DisplayAsset'')),
      MProperty ''subtitleVisibility'' False (Some (TRef ''FeatureVisibility'')),
      MProperty ''titleVisibility'' False (Some (TRef ''FeatureVisibility''))]"

text \<open>\<^verbatim>\<open>src/unnamed/part_001\<close>, lines 880 to 902.\<close>

definition part_001_MarkerAnnotationConstructorOptions :: decl where
  "part_001_MarkerAnnotationConstructorOptions =
    DInterface Exported ''MarkerAnnotationConstructorOptions'' [TRef ''AnnotationConstructorOptions''] [
      MProperty ''color'' True (Some TString),
      MProperty ''glyphColor'' True (Some TString),
      MProperty ''glyphImage'' True (Some (TRef ''DisplayAsset'')),
      MProperty ''glyphText'' True (Some TString),
      MProperty ''selectedGlyphImage'' True (Some (TRef ''DisplayAsset'')),
      MProperty ''subtitleVisibility'' True (Some (TRef ''FeatureVisibility'')),
      MProperty ''titleVisibility'' True (Some (TRef ''FeatureVisibility''))]"

text \<open>\<^verbatim>\<open>src/unnamed/part_001\<close>, lines 905 to 912.\<close>

definition part_001_ImageAnnotation :: decl where
  "part_001_ImageAnnotation =
    DClass Exported False ''ImageAnnotation'' [] (Some (TRef ''Annotation'')) [] [
      MConstructor
        [Param ''coordinate'' False (Some (TRef ''Coordinate'')),
         Param ''options'' True (Some (TRef ''ImageAnnotationConstructorOptions''))]
        None,
      MProperty ''url'' False (Some (TRef ''DisplayAsset''))]"

text \<open>\<^verbatim>\<open>src/unnamed/part_001\<close>, lines 915 to 919.\<close>

definition part_001_ImageAnnotationConstructorOptions :: decl where
  "part_001_ImageAnnotationConstructorOptions =
    DInterface Exported ''ImageAnnotationConstructorOptions'' [TRef ''AnnotationConstructorOptions''] [
      MProperty ''url'' False (Some (TRef ''DisplayAsset''))]"

text \<open>\<^verbatim>\<open>src/unnamed/part_001\<close>, lines 922 to 932.\<close>

definition part_001_FeatureVisibility :: decl where
  "part_001_FeatureVisibility =
    DEnum Exported ''FeatureVisibility'' [
      (''Adaptive'', Some (StrLit ''Adaptive'')),
      (''Hidden'', Some (StrLit ''Hidden'')),
      (''Visible'', Some (StrLit ''Visible''))]"

text \<open>\<^verbatim>\<open>src/unnamed/part_001\<close>, lines 934 to 959.\<close>

definition part_001_AnnotationCalloutDelegate :: decl where
  "part_001_AnnotationCalloutDelegate =
    DInterface Exported ''AnnotationCalloutDelegate'' [] [
      MMethod ''calloutAnchorOffsetForAnnotation'' False []
        [Param ''annotation'' False (Some (TRef ''Annotation'')),
         Param ''size'' False (Some (TObjLit [(''width'', TNumber), (''height'', TNumber)]))]
        (Some (TRef ''DOMPoint'')) None,
      MMethod ''calloutShouldAppearForAnnotation'' False []
        [Param ''annotation'' False (Some (TRef ''Annotation''))]
        (Some TBoolean) None,
      MMethod ''calloutShouldAnimateForAnnotation'' False []
        [Param ''annotation'' False (Some (TRef ''Annotation''))]
        (Some TBoolean) None,
      MMethod ''calloutAppearanceAnimationForAnnotation'' False []
        [Param ''annotation'' False (Some (TRef ''Annotation''))]
        (Some TString) None,
      MMethod ''calloutContentForAnnotation'' False []
        [Param ''annotation'' False (Some (TRef ''Annotation''))]
        (Some (TRef ''HTMLElement'')) None,
      MMethod ''calloutElementForAnnotation'' False []
        [Param ''annotation'' False (Some (TRef ''Annotation''))]
        (Some (TRef ''HTMLElement'')) None,
      MMethod ''calloutLeftAccessoryForAnnotation'' False []
        [Param ''annotation'' False (Some (TRef ''Annotation''))]
        (Some (TRef ''HTMLElement'')) None,
      MMethod ''calloutRightAccessoryForAnnotation'' False []
        [Param ''annotation'' False (Some (TRef ''Annotation''))]
        (Some (TRef ''HTMLElement'')) None]"

text \<open>\<^verbatim>\<open>src/unnamed/part_001\<close>, lines 961 to 965.\<close>

definition part_001_FillOpacityRule :: decl where
  "part_001_FillOpacityRule =
    DEnum Ambient ''FillOpacityRule'' [
      (''NonZero'', Some (StrLit ''nonzero'')),
      (''EvenOdd'', Some (StrLit ''evenodd''))]"

text \<open>\<^verbatim>\<open>src/unnamed/part_001\<close>, lines 967 to 972.\<close>

definition part_001_LineCapStyle :: decl where
  "part_001_LineCapStyle =
    DEnum Ambient ''LineCapStyle'' [
      (''Butt'', Some (StrLit ''butt'')),
      (''Round'', Some (StrLit ''round'')),
      (''Square'', Some (StrLit ''square''))]"

text \<open>\<^verbatim>\<open>src/unnamed/part_001\<close>, lines 974 to 979.\<close>

definition part_001_LineJoinStyle :: decl where
  "part_001_LineJoinStyle =
    DEnum Ambient ''LineJoinStyle'' [
      (''Miter'', Some (StrLit ''miter'')),
      (''Round'', Some (StrLit ''round'')),
      (''Bevel'', Some (StrLit ''bevel''))]"

text \<open>\<^verbatim>\<open>src/unnamed/part_001\<close>, lines 982 to 1013.\<close>

definition part_001_StyleConstructorOptions :: decl where
  "part_001_StyleConstructorOptions =
    DInterface Exported ''StyleConstructorOptions'' [] [
      MProperty ''fillColor'' True (Some (TUnion [TString, TNull])),
      MProperty ''fillOpacity'' True (Some TNumber),
      MProperty ''fillRule'' True (Some (TRef ''FillOpacityRule'')),
      MProperty ''lineCap'' True (Some (TRef ''LineCapStyle'')),
      MProperty ''lineDash'' True (Some (TArray TNumber)),
      MProperty ''lineDashOffset'' True (Some TNumber),
      MProperty ''lineJoin'' True (Some (TRef ''LineJoinStyle'')),
      MProperty ''lineWidth'' True (Some TNumber),
      MProperty ''strokeColor'' True (Some TNumber),
      MProperty ''strokeOpacity'' True (Some TNumber)]"

text \<open>\<^verbatim>\<open>src/unnamed/part_001\<close>, lines 1016 to 1050.\<close>

definition part_001_Style :: decl where
  "part_001_Style =
    DClass Exported False ''Style'' [] None [] [
      MConstructor [Param ''options'' True (Some (TRef ''StyleConstructorOptions''))] None,
      MProperty ''fillColor'' False (Some (TUnion [TString, TNull])),
      MProperty ''fillOpacity'' False (Some TNumber),
      MProperty ''fillRule'' False (Some (TRef ''FillOpacityRule'')),
      MProperty ''lineCap'' False (Some (TRef ''LineCapStyle'')),
      MProperty ''lineDash'' False (Some (TArray TNumber)),
      MProperty ''lineDashOffset'' False (Some TNumber),
      MProperty ''lineJoin'' False (Some (TRef ''LineJoinStyle'')),
      MProperty ''lineWidth'' False (Some TNumber),
      MProperty ''strokeColor'' False (Some TNumber),
      MProperty ''strokeOpacity'' False (Some TNumber)]"

text \<open>\<^verbatim>\<open>src/unnamed/part_001\<close>, line 1052.\<close>

definition part_001_OverlayEventWithoutSelectTypes :: decl where
  "part_001_OverlayEventWithoutSelectTypes =
    DInterface Plain ''OverlayEventWithoutSelectTypes'' [] []"

text \<open>\<^verbatim>\<open>src/unnamed/part_001\<close>, lines 1054 to 1058.\<close>

definition part_001_OverlayEventTypes :: decl where
  "part_001_OverlayEventTypes =
    DInterface Plain ''OverlayEventTypes'' [TRef ''SelectEventTypes'', TRef ''OverlayEventWithoutSelectTypes''] [
      MProperty ''select'' False (Some (TRef ''OverlayEvent'')),
      MProperty ''deselect'' False (Some (TRef ''OverlayEvent''))]"

text \<open>\<^verbatim>\<open>src/unnamed/part_001\<close>, lines 1061 to 1080.\<close>

definition part_001_Overlay :: decl where
  "part_001_Overlay =
    DClass Exported True ''Overlay'' [] (Some (TApp ''MapKitEvented'' [TRef ''OverlayEventTypes''])) [] [
      MProperty ''data'' False (Some TAny),
      MProperty ''visible'' False (Some TBoolean),
      MProperty ''enabled'' False (Some TBoolean),
      MProperty ''selected'' False (Some TBoolean),
      MProperty ''style'' False (Some (TRef ''Style'')),
      MProperty ''map'' False (Some (TRef ''Map''))]"

text \<open>\<^verbatim>\<open>src/unnamed/part_001\<close>, lines 1083 to 1103.\<close>

definition part_001_OverlayOptions :: decl where
  "part_001_OverlayOptions =
    DInterface Exported ''OverlayOptions'' [] [
      MProperty ''data'' True (Some TAny),
      MProperty ''enabled'' True (Some TBoolean),
      MProperty ''selected'' True (Some TBoolean),
      MProperty ''visible'' True (Some TBoolean),
      MProperty ''style'' True (Some (TRef ''Style''))]"

text \<open>\<^verbatim>\<open>src/unnamed/part_001\<close>, lines 1106 to 1116.\<close>

definition part_001_CircleOverlay :: decl where
  "part_001_CircleOverlay =
    DClass Exported False ''CircleOverlay'' [] (Some (TRef ''Overlay'')) [] [
      MConstructor
        [Param ''coordinate'' False (Some (TRef ''Coordinate'')),
         Param ''radius'' False (Some TNumber),
         Param ''options'' True (Some (TRef ''OverlayOptions''))]
        None,
      MProperty ''coordinate'' False (Some (TRef ''Coordinate'')),
      MProperty ''radius'' False (Some TNumber)]"

text \<open>\<^verbatim>\<open>src/unnamed/part_001\<close>, lines 1119 to 1126.\<close>

definition part_001_PolylineOverlay :: decl where
  "part_001_PolylineOverlay =
    DClass Exported False ''PolylineOverlay'' [] (Some (TRef ''Overlay'')) [] [
      MConstructor
        [Param ''points'' False (Some (TArray (TRef ''Coordinate''))),
         Param ''options'' True (Some (TRef ''OverlayOptions''))]
        None,
      MProperty ''points'' False (Some (TArray (TRef ''Coordinate'')))]"

text \<open>\<^verbatim>\<open>src/unnamed/part_001\<close>, lines 1129 to 1142.\<close>

definition part_001_PolygonOverlay :: decl where
  "part_001_PolygonOverlay =
    DClass Exported False ''PolygonOverlay'' [] (Some (TRef ''Overlay'')) [] [
      MConstructor
        [Param ''points'' False (Some (TArray (TRef ''Coordinate''))),
         Param ''options'' True (Some (TRef ''OverlayOptions''))]
        None,
      MConstructor
        [Param ''points'' False (Some (TArray (TArray (TRef ''Coordinate'')))),
         Param ''options'' True (Some (TRef ''OverlayOptions''))]
        None,
      MProperty ''points'' False
        (Some (TUnion [TArray (TArray (TRef ''Coordinate'')), TArray (TRef ''Coordinate'')]))]"

text \<open>\<^verbatim>\<open>src/unnamed/part_001\<close>, lines 1145 to 1158.\<close>

definition part_001_TileOverlayConstructorOptions :: decl where
  "part_001_TileOverlayConstructorOptions =
    DInterface Exported ''TileOverlayConstructorOptions'' [] [
      MProperty ''data'' False (Some TAny),
      MProperty ''maximumZ'' False (Some TNumber),
      MProperty ''minimumZ'' False (Some TNumber),
      MProperty ''opacity'' False (Some TNumber)]"

text \<open>\<^verbatim>\<open>src/unnamed/part_001\<close>, lines 1160 to 1167.\<close>

definition part_001_TileOverlayErrorEvent :: decl where
  "part_001_TileOverlayErrorEvent =
    DInterface Plain ''TileOverlayErrorEvent'' [] [
      MProperty ''tileOverlay'' False (Some (TRef ''TileOverlay'')),
      MProperty ''tileUrl'' False (Some TString)]"

text \<open>\<^verbatim>\<open>src/unnamed/part_001\<close>, lines 1169 to 1172.\<close>

definition part_001_TileOverlayEventTypes :: decl where
  "part_001_TileOverlayEventTypes =
    DInterface Plain ''TileOverlayEventTypes'' [] [
      MProperty ''tile-error'' False (Some (TRef ''TileOverlayErrorEvent''))]"

text \<open>\<^verbatim>\<open>src/unnamed/part_001\<close>, lines 1175 to 1198.\<close>

definition part_001_TileOverlay :: decl where
  "part_001_TileOverlay =
    DClass Exported False ''TileOverlay'' [] (Some (TApp ''MapKitEvented'' [TRef ''TileOverlayEventTypes''])) [] [
      MConstructor
        [Param ''urlTemplate'' False (Some TString),
         Param ''options'' True (Some (TRef ''TileOverlayConstructorOptions''))]
        None,
      MConstructor
        [Param ''urlTemplate'' False
           (Some (TFun
                   [Param ''x'' False (Some TNumber),
                    Param ''y'' False (Some TNumber),
                    Param ''z'' False (Some TNumber),
                    Param ''scale'' False (Some TNumber),
                    Param ''data'' False (Some TAny)]
                   TString)),
         Param ''options'' True (Some (TRef ''TileOverlayConstructorOptions''))]
        None,
      MProperty ''urlTemplate'' False
        (Some (TFun
                [Param ''x'' False (Some TNumber),
                 Param ''y'' False (Some TNumber),
                 Param ''z'' False (Some TNumber),
                 Param ''scale'' False (Some TNumber),
                 Param ''data'' False (Some TAny)]
                (TUnion [TString, TString]))),
      MProperty ''data'' False (Some TAny),
      MMethod ''reload'' False [] [] (Some TVoid) None,
      MProperty ''opacity'' False (Some TNumber),
      MProperty ''maximumZ'' False (Some (TUnion [TNumber, TNull])),
      MProperty ''minimumZ'' False (Some (TUnion [TNumber, TNull]))]"

text \<open>\<^verbatim>\<open>src/unnamed/part_001\<close>, lines 1201 to 1208.\<close>

definition part_001_GeocoderConstructorOptions :: decl where
  "part_001_GeocoderConstructorOptions =
    DInterface Exported ''GeocoderConstructorOptions'' [] [
      MProperty ''getsUserLocation'' True (Some TBoolean),
      MProperty ''language'' True (Some TString)]"

text \<open>\<^verbatim>\<open>src/unnamed/part_001\<close>, lines 1211 to 1215.\<close>

definition part_001_GeocodeResponse :: decl where
  "part_001_GeocodeResponse =
    DInterface Exported ''GeocodeResponse'' [] [
      MProperty ''results'' False (Some (TArray (TRef ''Place'')))]"

text \<open>\<^verbatim>\<open>src/unnamed/part_001\<close>, lines 1218 to 1231.\<close>

definition part_001_GeocoderLookupOptions :: decl where
  "part_001_GeocoderLookupOptions =
    DInterface Exported ''GeocoderLookupOptions'' [] [
      MProperty ''coordinate'' True (Some (TRef ''Coordinate'')),
      MProperty ''language'' True (Some TString),
      MProperty ''limitToCountries'' True (Some TString),
      MProperty ''region'' True (Some (TRef ''CoordinateRegion''))]"

text \<open>\<^verbatim>\<open>src/unnamed/part_001\<close>, lines 1234 to 1238.\<close>

definition part_001_GeocoderReverseLookupOptions :: decl where
  "part_001_GeocoderReverseLookupOptions =
    DInterface Exported ''GeocoderReverseLookupOptions'' [] [
      MProperty ''language'' True (Some TString)]"

text \<open>\<^verbatim>\<open>src/unnamed/part_001\<close>, lines 1241 to 1257.\<close>

definition part_001_Place :: decl where
  "part_001_Place =
    DInterface Exported ''Place'' [] [
      MProperty ''name'' False (Some TString),
      MProperty ''formattedAddress'' False (Some TString),
      MProperty ''countryCode'' False (Some TString),
      MProperty ''coordinate'' False (Some (TRef ''Coordinate'')),
      MProperty ''region'' False (Some (TRef ''CoordinateRegion''))]"

text \<open>\<^verbatim>\<open>src/unnamed/part_001\<close>, lines 1260 to 1279.\<close>

definition part_001_Geocoder :: decl where
  "part_001_Geocoder =
    DClass Exported False ''Geocoder'' [] None [] [
      MConstructor [Param ''options'' True (Some (TRef ''GeocoderConstructorOptions''))] None,
      MProperty ''getsUserLocation'' False (Some TBoolean),
      MProperty ''language'' False (Some TString),
      MMethod ''lookup'' False []
        [Param ''place'' False (Some TString),
         Param ''callback'' False
           (Some (TFun
                   [Param ''error'' False (Some (TRef ''MapKitError'')),
                    Param ''data'' False (Some (TRef ''GeocodeResponse''))]
                   TVoid)),
         Param ''options'' True (Some (TRef ''GeocoderLookupOptions''))]
        (Some TNumber) None,
      MMethod ''reverseLookup'' False []
        [Param ''coordinate'' False (Some (TRef ''Coordinate'')),
         Param ''callback'' False
           (Some (TFun
                   [Param ''error'' False (Some (TRef ''MapKitError'')),
                    Param ''data'' False (Some (TRef ''GeocodeResponse''))]
                   TVoid)),
         Param ''options'' True (Some (TRef ''GeocoderReverseLookupOptions''))]
        (Some TNumber) None,
      MMethod ''cancel'' False [] [Param ''id'' False (Some TNumber)] (Some TBoolean) None]"

text \<open>\<^verbatim>\<open>src/unnamed/part_001\<close>, lines 1282 to 1295.\<close>

definition part_001_SearchConstructorOptions :: decl where
  "part_001_SearchConstructorOptions =
    DInterface Exported ''SearchConstructorOptions'' [] [
      MProperty ''coordinate'' True (Some (TRef ''Coordinate'')),
      MProperty ''getsUserLocation'' True (Some TBoolean),
      MProperty ''language'' True (Some TString),
      MProperty ''region'' True (Some (TRef ''CoordinateRegion''))]"

text \<open>\<^verbatim>\<open>src/unnamed/part_001\<close>, lines 1298 to 1314.\<close>

definition part_001_SearchResponse :: decl where
  "part_001_SearchResponse =
    DInterface Exported ''SearchResponse'' [] [
      MProperty ''places'' False (Some (TArray (TRef ''Place''))),
      MProperty ''query'' False (Some TString),
      MProperty ''boundingRegion'' True (Some (TRef ''CoordinateRegion''))]"

text \<open>\<^verbatim>\<open>src/unnamed/part_001\<close>, lines 1317 to 1327.\<close>

definition part_001_SearchOptions :: decl where
  "part_001_SearchOptions =
    DInterface Exported ''SearchOptions'' [] [
      MProperty ''coordinate'' True (Some (TRef ''Coordinate'')),
      MProperty ''language'' True (Some TString),
      MProperty ''region'' True (Some (TRef ''CoordinateRegion''))]"

text \<open>\<^verbatim>\<open>src/unnamed/part_001\<close>, lines 1330 to 1337.\<close>

definition part_001_SearchAutocompleteResult :: decl where
  "part_001_SearchAutocompleteResult =
    DInterface Exported ''SearchAutocompleteResult'' [] [
      MProperty ''coordinate'' True (Some (TRef ''Coordinate'')),
      MProperty ''displayLines'' False (Some (TArray TString))]"

text \<open>\<^verbatim>\<open>src/unnamed/part_001\<close>, lines 1340 to 1347.\<close>

definition part_001_SearchAutocompleteResponse :: decl where
  "part_001_SearchAutocompleteResponse =
    DInterface Exported ''SearchAutocompleteResponse'' [] [
      MProperty ''query'' False (Some TString),
      MProperty ''results'' False (Some (TArray (TRef ''SearchAutocompleteResult'')))]"

text \<open>\<^verbatim>\<open>src/unnamed/part_001\<close>, lines 1350 to 1363.\<close>

definition part_001_SearchDelegate :: decl where
  "part_001_SearchDelegate =
    DInterface Exported ''SearchDelegate'' [] [
      MMethod ''autocompleteDidComplete'' True []
        [Param ''data'' False (Some (TRef ''SearchAutocompleteResponse''))]
        (Some TVoid) None,
      MMethod ''autocompleteDidError'' True []
        [Param ''error'' False (Some (TRef ''MapKitError''))]
        (Some TVoid) None,
      MMethod ''searchDidComplete'' True []
        [Param ''data'' False (Some (TRef ''SearchResponse''))]
        (Some TVoid) None,
      MMethod ''searchDidError'' True []
        [Param ''error'' False (Some (TRef ''MapKitError''))]
        (Some TVoid) None]"

text \<open>\<^verbatim>\<open>src/unnamed/part_001\<close>, lines 1366 to 1379.\<close>

definition part_001_Search :: decl where
  "part_001_Search =
    DClass Exported False ''Search'' [] None [] [
      MConstructor [Param ''options'' True (Some (TRef ''SearchConstructorOptions''))] None,
      MMethod ''search'' False []
        [Param ''query'' False (Some (TUnion [TString, TRef ''SearchAutocompleteResult''])),
         Param ''callback'' False
           (Some (TUnion
                   [TRef ''SearchDelegate'',
                    TFun
                      [Param ''error'' False (Some (TRef ''MapKitError'')),
                       Param ''data'' False (Some (TRef ''SearchResponse''))]
                      TVoid])),
         Param ''options'' True (Some (TRef ''SearchOptions''))]
        (Some TNumber) None,
      MMethod ''autocomplete'' False []
        [Param ''query'' False (Some TString),
         Param ''callback'' False
           (Some (TUnion
                   [TRef ''SearchDelegate'',
                    TFun
                      [Param ''error'' False (Some (TRef ''MapKitError'')),
                       Param ''data'' False (Some (TRef ''SearchAutocompleteResponse''))]
                      TVoid])),
         Param ''options'' True (Some (TRef ''SearchOptions''))]
        (Some TNumber) None,
      MMethod ''cancel'' False [] [Param ''id'' False (Some TNumber)] (Some TBoolean) None]"

text \<open>\<^verbatim>\<open>src/unnamed/part_001\<close>, lines 1382 to 1386.\<close>

definition part_001_DirectionsConstructorOptions :: decl where
  "part_001_DirectionsConstructorOptions =
    DInterface Exported ''DirectionsConstructorOptions'' [] [
      MProperty ''language'' True (Some TString)]"

text \<open>\<^verbatim>\<open>src/unnamed/part_001\<close>, lines 1389 to 1402.\<close>

definition part_001_DirectionsRequest :: decl where
  "part_001_DirectionsRequest =
    DInterface Exported ''DirectionsRequest'' [] [
      MProperty ''origin'' False (Some (TUnion [TString, TRef ''Coordinate'', TRef ''Place''])),
      MProperty ''destination'' False
        (Some (TUnion [TString, TRef ''Coordinate'', TRef ''Place''])),
      MProperty ''requestsAlternateRoutes'' False (Some TBoolean),
      MProperty ''transportType'' False (Some (TRef ''Directions.Transport''))]"

text \<open>\<^verbatim>\<open>src/unnamed/part_001\<close>, lines 1405 to 1418.\<close>

definition part_001_RouteStep :: decl where
  "part_001_RouteStep =
    DInterface Exported ''RouteStep'' [] [
      MProperty ''path'' False (Some (TArray (TRef ''Coordinate''))),
      MProperty ''instructions'' False (Some TString),
      MProperty ''distance'' False (Some TNumber),
      MProperty ''transportType'' False (Some (TRef ''Directions.Transport''))]"

text \<open>\<^verbatim>\<open>src/unnamed/part_001\<close>, lines 1421 to 1446.\<close>

definition part_001_Route :: decl where
  "part_001_Route =
    DInterface Exported ''Route'' [] [
      MProperty ''polyline'' False (Some (TRef ''PolylineOverlay'')),
      MProperty ''path'' False (Some (TArray (TArray (TRef ''Coordinate'')))),
      MProperty ''steps'' False (Some (TArray (TRef ''RouteStep''))),
      MProperty ''name'' False (Some TString),
      MProperty ''distance'' False (Some TNumber),
      MProperty ''expectedTravelTime'' False (Some TNumber),
      MProperty ''transportType'' False (Some (TRef ''Directions.Transport''))]"

text \<open>\<^verbatim>\<open>src/unnamed/part_001\<close>, lines 1449 to 1456.\<close>

definition part_001_DirectionsResponse :: decl where
  "part_001_DirectionsResponse =
    DInterface Exported ''DirectionsResponse'' [] [
      MProperty ''request'' False (Some (TRef ''DirectionsRequest'')),
      MProperty ''routes'' False (Some (TArray (TRef ''Route'')))]"

text \<open>\<^verbatim>\<open>src/unnamed/part_001\<close>, lines 1459 to 1469.\<close>

definition part_001_Directions :: decl where
  "part_001_Directions =
    DClass Exported False ''Directions'' [] None [] [
      MConstructor [Param ''options'' True (Some (TRef ''DirectionsConstructorOptions''))] None,
      MMethod ''route'' False []
        [Param ''request'' False (Some (TRef ''DirectionsRequest'')),
         Param ''callback'' False
           (Some (TFun
                   [Param ''error'' True (Some (TRef ''Error'')),
                    Param ''data'' True (Some (TRef ''DirectionsResponse''))]
                   TVoid))]
        (Some TNumber) None,
      MMethod ''cancel'' False [] [Param ''id'' False (Some TNumber)] (Some TBoolean) None]"

text \<open>\<^verbatim>\<open>src/unnamed/part_001\<close>, lines 1471 to 1482.\<close>

definition part_001_Directions_namespace :: decl where
  "part_001_Directions_namespace =
    DNamespace Exported ''Directions'' [
      DEnum Exported ''Transport'' [
        (''Automobile'', Some (StrLit ''Automobile'')),
        (''Walking'', Some (StrLit ''Walking''))]]"

text \<open>\<^verbatim>\<open>src/unnamed/part_001\<close>, lines 1485 to 1495.\<close>

definition part_001_ItemCollection :: decl where
  "part_001_ItemCollection =
    DInterface Exported ''ItemCollection'' [] [
      MProperty ''data'' False (Some TObject),
      MProperty ''getFlattenedItemList'' False
        (Some (TArray (TUnion [TRef ''Annotation'', TRef ''Overlay'']))),
      MProperty ''items'' False
        (Some (TArray (TUnion [TRef ''Annotation'', TRef ''Overlay'', TRef ''ItemCollection''])))]"

text \<open>\<^verbatim>\<open>src/unnamed/part_001\<close>, lines 1498 to 1532.\<close>

definition part_001_GeoJSONDelegate :: decl where
  "part_001_GeoJSONDelegate =
    DInterface Exported ''GeoJSONDelegate'' [] [
      MProperty ''itemForFeature'' True
        (Some (TFun
                [Param ''item'' False
                   (Some (TUnion [TRef ''Annotation'', TRef ''Overlay'', TNull])),
                 Param ''geoJSON'' False (Some TObject)]
                (TUnion
                  [TRef ''Annotation'',
                   TRef ''Overlay'',
                   TArray (TRef ''Annotation''),
                   TArray (TRef ''Overlay'')]))),
      MProperty ''itemForFeatureCollection'' True
        (Some (TFun
                [Param ''itemCollection'' False (Some (TRef ''ItemCollection'')),
                 Param ''geoJSON'' False (Some TObject)]
                (TUnion
                  [TRef ''Annotation'',
                   TRef ''Overlay'',
                   TArray (TRef ''Annotation''),
                   TArray (TRef ''Overlay'')]))),
      MProperty ''itemForLineString'' True
        (Some (TFun
                [Param ''overlay'' False (Some (TRef ''PolylineOverlay'')),
                 Param ''geoJSON'' False (Some TObject)]
                (TUnion
                  [TRef ''Annotation'',
                   TRef ''Overlay'',
                   TArray (TRef ''Annotation''),
                   TArray (TRef ''Overlay'')]))),
      MProperty ''itemForMultiLineString'' True
        (Some (TFun
                [Param ''itemCollection'' False (Some (TRef ''ItemCollection'')),
                 Param ''geoJSON'' False (Some TObject)]
                (TUnion
                  [TRef ''Annotation'',
                   TRef ''Overlay'',
                   TArray (TRef ''Annotation''),
                   TArray (TRef ''Overlay'')]))),
      MProperty ''itemForPoint'' True
        (Some (TFun
                [Param ''overlay'' False (Some (TRef ''Coordinate'')),
                 Param ''geoJSON'' False (Some TObject)]
                (TUnion
                  [TRef ''Annotation'',
                   TRef ''Overlay'',
                   TArray (TRef ''Annotation''),
                   TArray (TRef ''Overlay'')]))),
      MProperty ''itemForMultiPoint'' True
        (Some (TFun
                [Param ''itemCollection'' False (Some (TRef ''ItemCollection'')),
                 Param ''geoJSON'' False (Some TObject)]
                (TUnion
                  [TRef ''Annotation'',
                   TRef ''Overlay'',
                   TArray (TRef ''Annotation''),
                   TArray (TRef ''Overlay'')]))),
      MProperty ''itemForPolygon'' True
        (Some (TFun
                [Param ''overlay'' False (Some (TRef ''PolygonOverlay'')),
                 Param ''geoJSON'' False (Some TObject)]
                (TUnion
                  [TRef ''Annotation'',
                   TRef ''Overlay'',
                   TArray (TRef ''Annotation''),
                   TArray (TRef ''Overlay'')]))),
      MProperty ''itemForMultiPolygon'' True
        (Some (TFun
                [Param ''itemCollection'' False (Some (TRef ''ItemCollection'')),
                 Param ''geoJSON'' False (Some TObject)]
                (TUnion
                  [TRef ''Annotation'',
                   TRef ''Overlay'',
                   TArray (TRef ''Annotation''),
                   TArray (TRef ''Overlay'')]))),
      MProperty ''styleForOverlay'' True
        (Some (TFun
                [Param ''overlay'' False (Some (TRef ''Overlay'')),
                 Param ''geoJSON'' False (Some TObject)]
                (TRef ''Style''))),
      MProperty ''geoJSONDidComplete'' True
        (Some (TFun
                [Param ''result'' False (Some (TRef ''ItemCollection'')),
                 Param ''geoJSON'' False (Some TObject)]
                TVoid)),
      MProperty ''geoJSONDidError'' True
        (Some (TFun
                [Param ''error'' False (Some (TRef ''Error'')),
                 Param ''geoJSON'' False (Some TObject)]
                TVoid))]"

text \<open>\<^verbatim>\<open>src/unnamed/part_001\<close>, line 1535.\<close>

definition part_001_importGeoJSON :: decl where
  "part_001_importGeoJSON =
    DFunction Exported ''importGeoJSON'' []
      [Param ''data'' False (Some (TUnion [TString, TObject])),
       Param ''callback'' False
         (Some (TUnion
                 [TRef ''GeoJSONDelegate'',
                  TFun
                    [Param ''error'' False (Some (TRef ''MapKitError'')),
                     Param ''result'' False (Some (TRef ''ItemCollection''))]
                    TVoid]))]
      (Some (TUnion [TRef ''Error'', TRef ''ItemCollection''])) None"

text \<open>\<^verbatim>\<open>src/unnamed/part_001\<close>, lines 1538 to 1547.\<close>

definition part_001_DOMPoint :: decl where
  "part_001_DOMPoint =
    DClass Exported False ''DOMPoint'' [] None [] [
      MConstructor [Param ''x'' False (Some TNumber), Param ''y'' False (Some TNumber)] None,
      MProperty ''w'' False (Some TNumber),
      MProperty ''x'' False (Some TNumber),
      MProperty ''y'' False (Some TNumber),
      MProperty ''z'' False (Some TNumber)]"

text \<open>The file: its declarations in source order.\<close>

definition part_001 :: "decl list" where
  "part_001 = [
    DExportAsNamespace ''mapkit'',
    part_001_MapKitError,
    part_001_SelectEventTypes,
    part_001_MapKitEvented,
    part_001_init,
    part_001_MapKitInitSuccessStatus,
    part_001_MapKitInitFailureStatus,
    part_001_MapKitInitSuccessEvent,
    part_001_MapKitInitFailureEvent,
    part_001_MapKitEventTypes,
    part_001_addEventListener,
    part_001_removeEventListener,
    part_001_maps,
    part_001_language,
    part_001_build,
    part_001_MapKitInitOptions,
    part_001_Coordinate,
    part_001_MapConstructorOptions,
    part_001_MapEvent,
    part_001_OverlayEvent,
    part_001_UserLocationChangeEvent,
    part_001_LocationError,
    part_001_UserLocationErrorEvent,
    part_001_MapEventTypes,
    part_001_Map,
    part_001_Map_namespace,
    part_001_MapShowItemsOptions,
    part_001_MapPoint,
    part_001_MapSize,
    part_001_MapRect,
    part_001_CoordinateRegion,
    part_001_CoordinateSpan,
    part_001_BoundingRegion,
    part_001_PaddingConstructorOptions,
    part_001_Padding,
    part_001_AnnotationConstructorOptions,
    part_001_AnnotationEvent,
    part_001_AnnotationEventWithoutSelectTypes,
    part_001_AnnotationEventTypes,
    part_001_Annotation,
    part_001_Annotation_namespace,
    part_001_DisplayAsset,
    part_001_MarkerAnnotation,
    part_001_MarkerAnnotationConstructorOptions,
    part_001_ImageAnnotation,
    part_001_ImageAnnotationConstructorOptions,
    part_001_FeatureVisibility,
    part_001_AnnotationCalloutDelegate,
    part_001_FillOpacityRule,
    part_001_LineCapStyle,
    part_001_LineJoinStyle,
    part_001_StyleConstructorOptions,
    part_001_Style,
    part_001_OverlayEventWithoutSelectTypes,
    part_001_OverlayEventTypes,
    part_001_Overlay,
    part_001_OverlayOptions,
    part_001_CircleOverlay,
    part_001_PolylineOverlay,
    part_001_PolygonOverlay,
    part_001_TileOverlayConstructorOptions,
    part_001_TileOverlayErrorEvent,
    part_001_TileOverlayEventTypes,
    part_001_TileOverlay,
    part_001_GeocoderConstructorOptions,
    part_001_GeocodeResponse,
    part_001_GeocoderLookupOptions,
    part_001_GeocoderReverseLookupOptions,
    part_001_Place,
    part_001_Geocoder,
    part_001_SearchConstructorOptions,
    part_001_SearchResponse,
    part_001_SearchOptions,
    part_001_SearchAutocompleteResult,
    part_001_SearchAutocompleteResponse,
    part_001_SearchDelegate,
    part_001_Search,
    part_001_DirectionsConstructorOptions,
    part_001_DirectionsRequest,
    part_001_RouteStep,
    part_001_Route,
    part_001_DirectionsResponse,
    part_001_Directions,
    part_001_Directions_namespace,
    part_001_ItemCollection,
    part_001_GeoJSONDelegate,
    part_001_importGeoJSON,
    part_001_DOMPoint]"

section \<open>The repository and its lookups\<close>

text \<open>The files of the repository, each under its path.\<close>

definition repository :: "(string \<times> decl list) list" where
  "repository =
    [(''src/mapkit.d.ts'', mapkit_d_ts),
     (''src/unnamed/part_000'', part_000),
     (''src/unnamed/part_001'', part_001)]"

text \<open>The kind and the name of a declaration, and the parts each kind carries.\<close>

datatype kind =
  KExportAsNamespace | KFunction | KTypeAlias | KVariable | KInterface | KClass | KEnum | KNamespace

fun decl_kind :: "decl \<Rightarrow> kind" where
  "decl_kind (DExportAsNamespace _) = KExportAsNamespace"
| "decl_kind (DFunction _ _ _ _ _ _) = KFunction"
| "decl_kind (DTypeAlias _ _ _) = KTypeAlias"
| "decl_kind (DVariable _ _ _ _ _) = KVariable"
| "decl_kind (DInterface _ _ _ _) = KInterface"
| "decl_kind (DClass _ _ _ _ _ _ _) = KClass"
| "decl_kind (DEnum _ _ _) = KEnum"
| "decl_kind (DNamespace _ _ _) = KNamespace"

fun decl_name :: "decl \<Rightarrow> string" where
  "decl_name (DExportAsNamespace n) = n"
| "decl_name (DFunction _ n _ _ _ _) = n"
| "decl_name (DTypeAlias _ n _) = n"
| "decl_name (DVariable _ _ n _ _) = n"
| "decl_name (DInterface _ n _ _) = n"
| "decl_name (DClass _ _ n _ _ _ _) = n"
| "decl_name (DEnum _ n _) = n"
| "decl_name (DNamespace _ n _) = n"

text \<open>The members of a class or an interface (no other declaration has members).\<close>

fun decl_members :: "decl \<Rightarrow> member list" where
  "decl_members (DInterface _ _ _ ms) = ms"
| "decl_members (DClass _ _ _ _ _ _ ms) = ms"
| "decl_members _ = []"

fun enum_literals :: "decl \<Rightarrow> (string \<times> literal option) list" where
  "enum_literals (DEnum _ _ ls) = ls"
| "enum_literals _ = []"

fun namespace_body :: "decl \<Rightarrow> decl list" where
  "namespace_body (DNamespace _ _ ds) = ds"
| "namespace_body _ = []"

text \<open>A function's signature: its parameters and its return type annotation.\<close>

fun signature_of :: "decl \<Rightarrow> param list \<times> ty option" where
  "signature_of (DFunction _ _ _ ps r _) = (ps, r)"
| "signature_of _ = ([], None)"

text \<open>
  Looking a declaration up by kind and name: the first match in source order, \<open>None\<close>
  when the file declares no such name.
\<close>

definition declared :: "kind \<Rightarrow> string \<Rightarrow> decl list \<Rightarrow> decl option" where
  "declared k n ds = find (\<lambda>d. decl_kind d = k \<and> decl_name d = n) ds"

definition class_members :: "string \<Rightarrow> decl list \<Rightarrow> member list option" where
  "class_members c ds = map_option decl_members (declared KClass c ds)"

definition interface_members :: "string \<Rightarrow> decl list \<Rightarrow> member list option" where
  "interface_members i ds = map_option decl_members (declared KInterface i ds)"

definition enum_members :: "string \<Rightarrow> decl list \<Rightarrow> (string \<times> literal option) list option" where
  "enum_members e ds = map_option enum_literals (declared KEnum e ds)"

definition function_signature :: "string \<Rightarrow> decl list \<Rightarrow> (param list \<times> ty option) option" where
  "function_signature f ds = map_option signature_of (declared KFunction f ds)"

text \<open>An enum declared inside a namespace, as \<^verbatim>\<open>Annotation.DisplayPriority\<close>.\<close>

definition namespace_enum ::
  "string \<Rightarrow> string \<Rightarrow> decl list \<Rightarrow> (string \<times> literal option) list option" where
  "namespace_enum s e ds =
     Option.bind (declared KNamespace s ds) (\<lambda>d. enum_members e (namespace_body d))"

text \<open>The members of a given name, and the parameter lists of the constructors.\<close>

fun member_name :: "member \<Rightarrow> string option" where
  "member_name (MProperty n _ _) = Some n"
| "member_name (MMethod n _ _ _ _ _) = Some n"
| "member_name (MConstructor _ _) = None"

definition members_named :: "string \<Rightarrow> member list \<Rightarrow> member list" where
  "members_named n ms = filter (\<lambda>m. member_name m = Some n) ms"

fun constructors :: "member list \<Rightarrow> param list list" where
  "constructors [] = []"
| "constructors (MConstructor ps _ # ms) = ps # constructors ms"
| "constructors (MProperty _ _ _ # ms) = constructors ms"
| "constructors (MMethod _ _ _ _ _ _ # ms) = constructors ms"

text \<open>
  The declarations of member \<open>m\<close> in class \<open>c\<close> of a file: \<open>None\<close> when the file has no
  class \<open>c\<close>, the empty list when the class has no member \<open>m\<close>.
\<close>

definition class_member :: "string \<Rightarrow> string \<Rightarrow> decl list \<Rightarrow> member list option" where
  "class_member c m ds = map_option (members_named m) (class_members c ds)"

definition class_constructors :: "string \<Rightarrow> decl list \<Rightarrow> param list list option" where
  "class_constructors c ds = map_option constructors (class_members c ds)"

section \<open>Properties of the declared surface\<close>

subsection \<open>Asynchronous requests and their cancellation\<close>

text \<open>
  The asynchronous request operations, each with the class that declares it. An
  operation returns a request ID when its return type annotation is \<^verbatim>\<open>number\<close>; a class
  pairs it with a cancellation when it declares a method \<^verbatim>\<open>cancel(id: number)\<close>.
\<close>

definition request_operations :: "(string \<times> string) list" where
  "request_operations =
    [(''Geocoder'', ''lookup''), (''Geocoder'', ''reverseLookup''),
     (''Search'', ''search''), (''Search'', ''autocomplete''),
     (''Directions'', ''route'')]"

fun returns_request_id :: "member \<Rightarrow> bool" where
  "returns_request_id (MMethod _ _ _ _ r _) = (r = Some TNumber)"
| "returns_request_id _ = False"

fun is_cancel :: "member \<Rightarrow> bool" where
  "is_cancel (MMethod n _ _ ps _ _) = (n = ''cancel'' \<and> ps = [Param ''id'' False (Some TNumber)])"
| "is_cancel _ = False"

text \<open>
  What is asked of operation \<open>m\<close> of class \<open>c\<close> in a file, wherever the file declares
  it: every declaration of \<open>m\<close> returns a request ID and the class declares the
  cancellation. A file that does not declare the class or the operation asks nothing.
\<close>

definition request_operation_ok :: "string \<Rightarrow> string \<Rightarrow> decl list \<Rightarrow> bool" where
  "request_operation_ok c m ds =
     (case class_members c ds of
        None \<Rightarrow> True
      | Some ms \<Rightarrow>
          list_all (\<lambda>opn. returns_request_id opn \<and> list_ex is_cancel ms) (members_named m ms))"

subsection \<open>Constructors\<close>

text \<open>
  The per-instance classes. A host parameter is one typed as a selector string or a DOM
  element (\<^verbatim>\<open>string | Element\<close>, \<^verbatim>\<open>string | HTMLElement\<close>); the options parameter of
  class \<open>c\<close> is the optional parameter \<^verbatim>\<open>options\<close> typed with \<open>c\<close>'s own
  \<^verbatim>\<open>ConstructorOptions\<close> interface.
\<close>

definition per_instance_classes :: "string list" where
  "per_instance_classes = [''Map'', ''Annotation'', ''Geocoder'', ''Search'', ''Directions'']"

definition is_host_param :: "param \<Rightarrow> bool" where
  "is_host_param p =
     (param_type p = Some (TUnion [TString, TRef ''Element'']) \<or>
      param_type p = Some (TUnion [TString, TRef ''HTMLElement'']))"

definition is_options_param :: "string \<Rightarrow> param \<Rightarrow> bool" where
  "is_options_param c p = (p = Param ''options'' True (Some (TRef (c @ ''ConstructorOptions''))))"

definition takes_host_and_options :: "string \<Rightarrow> param list \<Rightarrow> bool" where
  "takes_host_and_options c ps = (list_ex is_host_param ps \<and> list_ex (is_options_param c) ps)"

text \<open>
  Class \<open>c\<close> of a file declares a constructor taking a host and an options object: the
  class is declared, has a constructor, and every constructor takes both.
\<close>

definition constructor_takes_host_and_options :: "string \<Rightarrow> decl list \<Rightarrow> bool" where
  "constructor_takes_host_and_options c ds =
     (case class_constructors c ds of
        None \<Rightarrow> False
      | Some cs \<Rightarrow> cs \<noteq> [] \<and> list_all (takes_host_and_options c) cs)"

subsection \<open>Comparing two declarations of a class\<close>

text \<open>Two files declare the same surface for class \<open>c\<close> when its member lists are equal.\<close>

definition same_surface :: "string \<Rightarrow> decl list \<Rightarrow> decl list \<Rightarrow> bool" where
  "same_surface c ds ds' = (class_members c ds = class_members c ds')"

text \<open>
  A later declaration refines an earlier one when it differs only by added type
  annotations: where the earlier one writes a type, the later one writes the same type;
  where the earlier one leaves a parameter or a return type without annotation, the later
  one is free. Names, optionality and the number of parameters are the same.
\<close>

fun ty_refines :: "ty \<Rightarrow> ty \<Rightarrow> bool"
  and tys_refine :: "ty list \<Rightarrow> ty list \<Rightarrow> bool"
  and params_refine :: "param list \<Rightarrow> param list \<Rightarrow> bool"
  and annotation_refines :: "ty option \<Rightarrow> ty option \<Rightarrow> bool"
where
  "ty_refines (TFun ps r) t = (case t of TFun qs s \<Rightarrow> params_refine ps qs \<and> ty_refines r s | _ \<Rightarrow> False)"
| "ty_refines (TUnion ts) t = (case t of TUnion us \<Rightarrow> tys_refine ts us | _ \<Rightarrow> False)"
| "ty_refines (TArray a) t = (case t of TArray b \<Rightarrow> ty_refines a b | _ \<Rightarrow> False)"
| "ty_refines a t = (a = t)"
| "tys_refine [] us = (us = [])"
| "tys_refine (t # ts) us = (case us of [] \<Rightarrow> False | u # us' \<Rightarrow> ty_refines t u \<and> tys_refine ts us')"
| "params_refine [] qs = (qs = [])"
| "params_refine (Param n opt a # ps) qs =
     (case qs of
        [] \<Rightarrow> False
      | Param m opt' b # qs' \<Rightarrow> n = m \<and> opt = opt' \<and> annotation_refines a b \<and> params_refine ps qs')"
| "annotation_refines None b = True"
| "annotation_refines (Some a) b = (case b of None \<Rightarrow> False | Some t \<Rightarrow> ty_refines a t)"

fun member_refines :: "member \<Rightarrow> member \<Rightarrow> bool" where
  "member_refines (MProperty n opt a) (MProperty n' opt' a') =
     (n = n' \<and> opt = opt' \<and> annotation_refines a a')"
| "member_refines (MMethod n opt tps ps r b) (MMethod n' opt' tps' ps' r' b') =
     (n = n' \<and> opt = opt' \<and> tps = tps' \<and> params_refine ps ps' \<and> annotation_refines r r' \<and> b = b')"
| "member_refines (MConstructor ps b) (MConstructor ps' b') = (params_refine ps ps' \<and> b = b')"
| "member_refines _ _ = False"

text \<open>
  Member lists: the later list refines the earlier one member by member, in order, and
  may declare further members after them.
\<close>

fun members_refine :: "member list \<Rightarrow> member list \<Rightarrow> bool" where
  "members_refine [] ms' = True"
| "members_refine (m # ms) [] = False"
| "members_refine (m # ms) (m' # ms') = (member_refines m m' \<and> members_refine ms ms')"

definition surface_refines :: "string \<Rightarrow> decl list \<Rightarrow> decl list \<Rightarrow> bool" where
  "surface_refines c ds ds' =
     (case (class_members c ds, class_members c ds') of
        (Some ms, Some ms') \<Rightarrow> members_refine ms ms'
      | _ \<Rightarrow> False)"

fun is_method :: "member \<Rightarrow> bool" where
  "is_method (MMethod _ _ _ _ _ _) = True"
| "is_method _ = False"

text \<open>The parameters a member declares (a property declares none).\<close>

fun member_params :: "member \<Rightarrow> param list" where
  "member_params (MProperty _ _ _) = []"
| "member_params (MMethod _ _ _ ps _ _) = ps"
| "member_params (MConstructor ps _) = ps"

subsection \<open>Failure codes\<close>

text \<open>
  Every enum a file declares, a nested one under its qualified name, and among them the
  enums of failure codes: those whose name says \<^verbatim>\<open>Error\<close> or \<^verbatim>\<open>Failure\<close>.
\<close>

fun declared_enums :: "decl list \<Rightarrow> string list" where
  "declared_enums [] = []"
| "declared_enums (DEnum _ n _ # ds) = n # declared_enums ds"
| "declared_enums (DNamespace _ s body # ds) =
     map (\<lambda>n. s @ ''.'' @ n) (declared_enums body) @ declared_enums ds"
| "declared_enums (_ # ds) = declared_enums ds"

fun occurs_in :: "string \<Rightarrow> string \<Rightarrow> bool" where
  "occurs_in w [] = (w = [])"
| "occurs_in w (c # cs) = (prefix w (c # cs) \<or> occurs_in w cs)"

definition failure_enums :: "decl list \<Rightarrow> string list" where
  "failure_enums ds =
     filter (\<lambda>n. occurs_in ''Error'' n \<or> occurs_in ''Failure'' n) (declared_enums ds)"

subsection \<open>GeoJSON import\<close>

text \<open>
  The GeoJSON geometry types; the delegate's hook for a type is the member named
  \<^verbatim>\<open>itemFor\<close> followed by the type. A hook is an override hook when it is an optional
  property of function type.
\<close>

definition geojson_types :: "string list" where
  "geojson_types =
    [''Point'', ''MultiPoint'', ''LineString'', ''MultiLineString'',
     ''Polygon'', ''MultiPolygon'', ''Feature'', ''FeatureCollection'']"

fun is_optional_hook :: "member \<Rightarrow> bool" where
  "is_optional_hook (MProperty _ opt (Some (TFun _ _))) = opt"
| "is_optional_hook _ = False"

definition declares_importGeoJSON :: "decl list \<Rightarrow> bool" where
  "declares_importGeoJSON ds =
     (case function_signature ''importGeoJSON'' ds of
        Some ([d, cb], _) \<Rightarrow>
          param_name d = ''data'' \<and>
          (case param_type cb of
             Some (TUnion (TRef i # _)) \<Rightarrow>
               i = ''GeoJSONDelegate'' \<and>
               (case interface_members i ds of
                  None \<Rightarrow> False
                | Some ms \<Rightarrow>
                    list_all (\<lambda>g. list_all is_optional_hook (members_named (''itemFor'' @ g) ms)
                                  \<and> length (members_named (''itemFor'' @ g) ms) = 1) geojson_types)
           | _ \<Rightarrow> False)
      | _ \<Rightarrow> False)"

subsection \<open>Calling a constructor\<close>

text \<open>
  Whether a parameter list accepts a list of arguments, given the judgement \<open>conf\<close> that
  a value conforms to a type. Arguments are positional; \<open>None\<close> is an argument passed as
  \<^verbatim>\<open>undefined\<close>. A parameter marked optional may be left out or passed as \<^verbatim>\<open>undefined\<close>;
  a required one may not; a parameter without annotation takes any value; more
  arguments than parameters are refused.
\<close>

fun accepts_args :: "('v \<Rightarrow> ty \<Rightarrow> bool) \<Rightarrow> param list \<Rightarrow> 'v option list \<Rightarrow> bool" where
  "accepts_args conf [] [] = True"
| "accepts_args conf [] (a # as) = False"
| "accepts_args conf (Param n opt t # ps) [] = (opt \<and> accepts_args conf ps [])"
| "accepts_args conf (Param n opt t # ps) (None # as) = (opt \<and> accepts_args conf ps as)"
| "accepts_args conf (Param n opt t # ps) (Some a # as) =
     ((case t of None \<Rightarrow> True | Some T \<Rightarrow> conf a T) \<and> accepts_args conf ps as)"

definition constructor_accepts ::
  "('v \<Rightarrow> ty \<Rightarrow> bool) \<Rightarrow> string \<Rightarrow> decl list \<Rightarrow> 'v option list \<Rightarrow> bool" where
  "constructor_accepts conf c ds args =
     (case class_constructors c ds of
        None \<Rightarrow> False
      | Some cs \<Rightarrow> list_ex (\<lambda>ps. accepts_args conf ps args) cs)"

fun is_optional_property :: "member \<Rightarrow> bool" where
  "is_optional_property (MProperty _ opt _) = opt"
| "is_optional_property _ = False"

text \<open>
  The shape a class or an interface gives to a value: its named members, a method
  counting as a property of function type (of return type \<^verbatim>\<open>any\<close> when it has no
  annotation). Only a declaration without heritage and without type parameters gives
  its shape by its own members.
\<close>

fun member_optional :: "member \<Rightarrow> bool" where
  "member_optional (MProperty _ opt _) = opt"
| "member_optional (MMethod _ opt _ _ _ _) = opt"
| "member_optional (MConstructor _ _) = True"

fun member_type :: "member \<Rightarrow> ty option" where
  "member_type (MProperty _ _ a) = a"
| "member_type (MMethod _ _ _ ps r _) = Some (TFun ps (case r of None \<Rightarrow> TAny | Some t \<Rightarrow> t))"
| "member_type (MConstructor _ _) = None"

fun own_shape :: "decl \<Rightarrow> member list option" where
  "own_shape (DInterface _ _ ext ms) = (if ext = [] then Some ms else None)"
| "own_shape (DClass _ _ _ tps ext _ ms) = (if tps = [] \<and> ext = None then Some ms else None)"
| "own_shape _ = None"

definition interface_shape :: "string \<Rightarrow> decl list \<Rightarrow> member list option" where
  "interface_shape i ds = Option.bind (declared KInterface i ds) own_shape"

definition class_shape :: "string \<Rightarrow> decl list \<Rightarrow> member list option" where
  "class_shape c ds = Option.bind (declared KClass c ds) own_shape"

text \<open>
  An object is given by its properties, a list of names with values, and \<open>conf\<close> judges
  whether a property's value conforms to a type. A property is declared when a member
  has its name; it conforms when it is undeclared or its value conforms to the type the
  member declares; the required members are present when every member that is not
  optional names a property of the object.
\<close>

definition is_declared :: "member list \<Rightarrow> string \<Rightarrow> bool" where
  "is_declared ms n = list_ex (\<lambda>m. member_name m = Some n) ms"

definition property_conforms :: "('v \<Rightarrow> ty \<Rightarrow> bool) \<Rightarrow> member list \<Rightarrow> string \<times> 'v \<Rightarrow> bool" where
  "property_conforms conf ms nx =
     (case find (\<lambda>m. member_name m = Some (fst nx)) ms of
        None \<Rightarrow> True
      | Some m \<Rightarrow> (case member_type m of None \<Rightarrow> True | Some t \<Rightarrow> conf (snd nx) t))"

definition required_present :: "member list \<Rightarrow> (string \<times> 'v) list \<Rightarrow> bool" where
  "required_present ms fs =
     list_all (\<lambda>m. member_optional m \<or>
                    (case member_name m of None \<Rightarrow> True | Some n \<Rightarrow> map_of fs n \<noteq> None)) ms"

text \<open>
  An object satisfies a shape when every one of its properties is declared by the shape
  and conforms to its declared type, and the required members are present.
\<close>

definition satisfies_shape :: "('v \<Rightarrow> ty \<Rightarrow> bool) \<Rightarrow> member list \<Rightarrow> (string \<times> 'v) list \<Rightarrow> bool" where
  "satisfies_shape conf ms fs =
     (list_all (\<lambda>nx. is_declared ms (fst nx)) fs \<and>
      list_all (property_conforms conf ms) fs \<and>
      required_present ms fs)"

text \<open>
  What the type checker asks of an object passed where a shape is expected. The
  required members are present and the declared properties conform. Beyond that, an
  object literal written in place (a fresh one) may have no undeclared property; any
  other object may, but when the shape is weak (it has members and all are optional)
  and the object has properties, at least one of them must be declared.
\<close>

definition is_weak :: "member list \<Rightarrow> bool" where
  "is_weak ms =
     (filter (\<lambda>m. member_name m \<noteq> None) ms \<noteq> [] \<and> list_all member_optional ms)"

definition object_assignable ::
  "('v \<Rightarrow> ty \<Rightarrow> bool) \<Rightarrow> bool \<Rightarrow> member list \<Rightarrow> (string \<times> 'v) list \<Rightarrow> bool" where
  "object_assignable conf fresh ms fs =
     (required_present ms fs \<and>
      list_all (property_conforms conf ms) fs \<and>
      (if fresh then list_all (\<lambda>nx. is_declared ms (fst nx)) fs
       else if is_weak ms \<and> fs \<noteq> [] then list_ex (\<lambda>nx. is_declared ms (fst nx)) fs
       else True))"

text \<open>
  The judgement an argument is checked with against a parameter's type. Where the type
  names an interface of the file that gives its own shape, the argument must be an
  object (\<open>props\<close> gives its properties, \<open>fresh\<close> tells whether it is a literal written in
  place) assignable to that shape; every other type is left to \<open>conf\<close>.
\<close>

definition conforms_to ::
  "('v \<Rightarrow> (string \<times> 'v) list option) \<Rightarrow> ('v \<Rightarrow> bool) \<Rightarrow> ('v \<Rightarrow> ty \<Rightarrow> bool) \<Rightarrow>
   decl list \<Rightarrow> 'v \<Rightarrow> ty \<Rightarrow> bool" where
  "conforms_to props fresh conf ds v t =
     (case t of
        TRef i \<Rightarrow>
          (case interface_shape i ds of
             None \<Rightarrow> conf v t
           | Some ms \<Rightarrow>
               (case props v of
                  None \<Rightarrow> False
                | Some fs \<Rightarrow> object_assignable conf (fresh v) ms fs))
      | _ \<Rightarrow> conf v t)"

text \<open>
  Values to run the acceptance on, as the checker sees the expression that denotes
  them: an object is a literal written in place (\<open>JLiteral\<close>) or denoted by any other
  expression (\<open>JObject\<close>); \<open>JNew c\<close> is an instance made by \<^verbatim>\<open>new c(...)\<close>;
  \<open>JEnumMember e m\<close> is the member \<open>m\<close> of the enum named \<open>e\<close> (qualified by its namespace,
  as \<^verbatim>\<open>Map.MapTypes\<close>); \<open>JFunction t\<close> is a function declared with the type \<open>t\<close>.
\<close>

datatype jsvalue =
    JNull | JNum int | JStr string | JBool bool
  | JArray "jsvalue list"
  | JLiteral "(string \<times> jsvalue) list"
  | JObject "(string \<times> jsvalue) list"
  | JNew string
  | JEnumMember string string
  | JFunction ty

fun object_props :: "jsvalue \<Rightarrow> (string \<times> jsvalue) list option" where
  "object_props (JLiteral fs) = Some fs"
| "object_props (JObject fs) = Some fs"
| "object_props _ = None"

fun is_fresh :: "jsvalue \<Rightarrow> bool" where
  "is_fresh (JLiteral _) = True"
| "is_fresh _ = False"

text \<open>
  The enum of a qualified name, the literal of one of its members, and whether an
  instance of class \<open>c\<close> is an instance of class \<open>n\<close>: it is when \<open>c\<close> is \<open>n\<close> or extends,
  through its superclasses, \<open>n\<close>. Only a class that is not abstract has instances of its
  own.
\<close>

definition qualified_enum :: "string \<Rightarrow> decl list \<Rightarrow> (string \<times> literal option) list option" where
  "qualified_enum q ds =
     (case dropWhile (\<lambda>c. c \<noteq> CHR ''.'') q of
        [] \<Rightarrow> enum_members q ds
      | _ # e \<Rightarrow> namespace_enum (takeWhile (\<lambda>c. c \<noteq> CHR ''.'') q) e ds)"

definition enum_member_literal :: "string \<Rightarrow> string \<Rightarrow> decl list \<Rightarrow> literal option option" where
  "enum_member_literal e m ds = Option.bind (qualified_enum e ds) (\<lambda>ls. map_of ls m)"

fun superclass :: "decl \<Rightarrow> string option" where
  "superclass (DClass _ _ _ _ (Some (TRef d)) _ _) = Some d"
| "superclass (DClass _ _ _ _ (Some (TApp d _)) _ _) = Some d"
| "superclass _ = None"

fun is_concrete_class :: "decl \<Rightarrow> bool" where
  "is_concrete_class (DClass _ abstract _ _ _ _ _) = (\<not> abstract)"
| "is_concrete_class _ = False"

fun instance_of :: "decl list \<Rightarrow> nat \<Rightarrow> string \<Rightarrow> string \<Rightarrow> bool" where
  "instance_of ds 0 c n = False"
| "instance_of ds (Suc k) c n =
     (c = n \<or>
      (case Option.bind (declared KClass c ds) superclass of
         None \<Rightarrow> False
       | Some d \<Rightarrow> instance_of ds k d n))"

text \<open>
  A conformance judgement for these values. It accepts only what the type checker
  accepts (under strict null checks), on the types these files use; it is not the whole
  of the checker's assignability: a function conforms to a function type only when it
  was declared with that very type, an instance conforms to a class by its class and
  not by its structure, and generic and indexed types and the types the file does not
  declare (those of the DOM) are refused. The fuel bounds the depth of the check.
\<close>

fun conforms :: "decl list \<Rightarrow> nat \<Rightarrow> jsvalue \<Rightarrow> ty \<Rightarrow> bool" where
  "conforms ds 0 v t = False"
| "conforms ds (Suc k) v t =
     (case t of
        TAny \<Rightarrow> True
      | TNumber \<Rightarrow>
          (case v of
             JNum _ \<Rightarrow> True
           | JEnumMember e m \<Rightarrow>
               (case enum_member_literal e m ds of Some (Some (NumLit _)) \<Rightarrow> True | _ \<Rightarrow> False)
           | _ \<Rightarrow> False)
      | TString \<Rightarrow>
          (case v of
             JStr _ \<Rightarrow> True
           | JEnumMember e m \<Rightarrow>
               (case enum_member_literal e m ds of Some (Some (StrLit _)) \<Rightarrow> True | _ \<Rightarrow> False)
           | _ \<Rightarrow> False)
      | TBoolean \<Rightarrow> (case v of JBool _ \<Rightarrow> True | _ \<Rightarrow> False)
      | TNull \<Rightarrow> (case v of JNull \<Rightarrow> True | _ \<Rightarrow> False)
      | TArray u \<Rightarrow> (case v of JArray xs \<Rightarrow> list_all (\<lambda>x. conforms ds k x u) xs | _ \<Rightarrow> False)
      | TUnion us \<Rightarrow> list_ex (\<lambda>u. conforms ds k v u) us
      | TFun ps r \<Rightarrow> (case v of JFunction f \<Rightarrow> f = TFun ps r | _ \<Rightarrow> False)
      | TObjLit tfs \<Rightarrow>
          (case object_props v of
             None \<Rightarrow> False
           | Some fs \<Rightarrow>
               object_assignable (\<lambda>x u. conforms ds k x u) (is_fresh v)
                 (map (\<lambda>nt. MProperty (fst nt) False (Some (snd nt))) tfs) fs)
      | TRef n \<Rightarrow>
          (case v of
             JNew c \<Rightarrow>
               (case declared KClass c ds of
                  None \<Rightarrow> False
                | Some d \<Rightarrow> is_concrete_class d \<and> instance_of ds (Suc k) c n)
           | JEnumMember e m \<Rightarrow> e = n \<and> enum_member_literal e m ds \<noteq> None
           | _ \<Rightarrow>
               (case object_props v of
                  None \<Rightarrow> False
                | Some fs \<Rightarrow>
                    (case (case interface_shape n ds of
                             None \<Rightarrow> class_shape n ds
                           | Some ms \<Rightarrow> Some ms) of
                       None \<Rightarrow> False
                     | Some ms \<Rightarrow>
                         object_assignable (\<lambda>x u. conforms ds k x u) (is_fresh v) ms fs)))
      | _ \<Rightarrow> False)"

subsection \<open>Conversions between the geometric primitives\<close>

text \<open>Each conversion: the class that declares it, the method, and the class it returns.\<close>

definition conversions :: "(string \<times> string \<times> string) list" where
  "conversions =
    [(''Coordinate'', ''toMapPoint'', ''MapPoint''),
     (''MapPoint'', ''toCoordinate'', ''Coordinate''),
     (''MapRect'', ''toCoordinateRegion'', ''CoordinateRegion''),
     (''CoordinateRegion'', ''toMapRect'', ''MapRect''),
     (''CoordinateRegion'', ''toBoundingRegion'', ''BoundingRegion''),
     (''BoundingRegion'', ''toCoordinateRegion'', ''CoordinateRegion'')]"

subsection \<open>Executable definitions\<close>

text \<open>
  A member carries an executable definition when it is a method or a constructor with a
  body; a declaration when it is a function with a body, a variable with an initialiser,
  or holds such a member or declaration. An enum member holds at most a literal.
\<close>

fun member_has_body :: "member \<Rightarrow> bool" where
  "member_has_body (MProperty _ _ _) = False"
| "member_has_body (MMethod _ _ _ _ _ b) = (b \<noteq> None)"
| "member_has_body (MConstructor _ b) = (b \<noteq> None)"

fun decl_executable :: "decl \<Rightarrow> bool" where
  "decl_executable (DExportAsNamespace _) = False"
| "decl_executable (DFunction _ _ _ _ _ b) = (b \<noteq> None)"
| "decl_executable (DTypeAlias _ _ _) = False"
| "decl_executable (DVariable _ _ _ _ init) = (init \<noteq> None)"
| "decl_executable (DInterface _ _ _ ms) = list_ex member_has_body ms"
| "decl_executable (DClass _ _ _ _ _ _ ms) = list_ex member_has_body ms"
| "decl_executable (DEnum _ _ _) = False"
| "decl_executable (DNamespace _ _ ds) = list_ex decl_executable ds"

section \<open>Evaluating lookups\<close>

text \<open>
  The defining equations of each file's declarations, and the kind and name of each
  declaration: a lookup is evaluated on these, and only the declaration it finds is unfolded.
\<close>

lemmas mapkit_d_ts_decls =
  mapkit_d_ts_init_def
  mapkit_d_ts_addEventListener_def
  mapkit_d_ts_removeEventListener_def
  mapkit_d_ts_maps_def
  mapkit_d_ts_MapKitInitOptions_def
  mapkit_d_ts_Coordinate_def
  mapkit_d_ts_MapConstructorOptions_def
  mapkit_d_ts_Map_def
  mapkit_d_ts_Map_namespace_def
  mapkit_d_ts_MapShowItemsOptions_def
  mapkit_d_ts_MapPoint_def
  mapkit_d_ts_MapSize_def
  mapkit_d_ts_MapRect_def
  mapkit_d_ts_CoordinateRegion_def
  mapkit_d_ts_CoordinateSpan_def
  mapkit_d_ts_BoundingRegion_def
  mapkit_d_ts_PaddingConstructorOptions_def
  mapkit_d_ts_Padding_def
  mapkit_d_ts_AnnotationConstructorOptions_def
  mapkit_d_ts_Annotation_def
  mapkit_d_ts_Annotation_namespace_def
  mapkit_d_ts__DisplayAsset_def
  mapkit_d_ts_MarkerAnnotation_def
  mapkit_d_ts_MarkerAnnotationConstructorOptions_def
  mapkit_d_ts_ImageAnnotation_def
  mapkit_d_ts_ImageAnnotationConstructorOptions_def
  mapkit_d_ts_FeatureVisibility_def
  mapkit_d_ts_AnnotationCalloutDelegate_def
  mapkit_d_ts_Overlay_def
  mapkit_d_ts_CircleOverlay_def
  mapkit_d_ts_PolylineOverlay_def
  mapkit_d_ts_PolygonOverlay_def
  mapkit_d_ts_TileOverlay_def
  mapkit_d_ts_GeocoderConstructorOptions_def
  mapkit_d_ts_GeocodeResponse_def
  mapkit_d_ts_GeocoderLookupOptions_def
  mapkit_d_ts_GeocoderReverseLookupOptions_def
  mapkit_d_ts_Place_def
  mapkit_d_ts_Geocoder_def
  mapkit_d_ts_SearchConstructorOptions_def
  mapkit_d_ts_SearchResponse_def
  mapkit_d_ts_SearchOptions_def
  mapkit_d_ts_SearchAutocompleteResult_def
  mapkit_d_ts_SearchAutocompleteResponse_def
  mapkit_d_ts_SearchDelegate_def
  mapkit_d_ts_Search_def
  mapkit_d_ts_DOMPoint_def

lemma mapkit_d_ts_keys:
  "decl_kind mapkit_d_ts_init = KFunction"
  "decl_name mapkit_d_ts_init = ''init''"
  "decl_kind mapkit_d_ts_addEventListener = KFunction"
  "decl_name mapkit_d_ts_addEventListener = ''addEventListener''"
  "decl_kind mapkit_d_ts_removeEventListener = KFunction"
  "decl_name mapkit_d_ts_removeEventListener = ''removeEventListener''"
  "decl_kind mapkit_d_ts_maps = KTypeAlias"
  "decl_name mapkit_d_ts_maps = ''maps''"
  "decl_kind mapkit_d_ts_MapKitInitOptions = KInterface"
  "decl_name mapkit_d_ts_MapKitInitOptions = ''MapKitInitOptions''"
  "decl_kind mapkit_d_ts_Coordinate = KClass"
  "decl_name mapkit_d_ts_Coordinate = ''Coordinate''"
  "decl_kind mapkit_d_ts_MapConstructorOptions = KInterface"
  "decl_name mapkit_d_ts_MapConstructorOptions = ''MapConstructorOptions''"
  "decl_kind mapkit_d_ts_Map = KClass"
  "decl_name mapkit_d_ts_Map = ''Map''"
  "decl_kind mapkit_d_ts_Map_namespace = KNamespace"
  "decl_name mapkit_d_ts_Map_namespace = ''Map''"
  "decl_kind mapkit_d_ts_MapShowItemsOptions = KInterface"
  "decl_name mapkit_d_ts_MapShowItemsOptions = ''MapShowItemsOptions''"
  "decl_kind mapkit_d_ts_MapPoint = KClass"
  "decl_name mapkit_d_ts_MapPoint = ''MapPoint''"
  "decl_kind mapkit_d_ts_MapSize = KClass"
  "decl_name mapkit_d_ts_MapSize = ''MapSize''"
  "decl_kind mapkit_d_ts_MapRect = KClass"
  "decl_name mapkit_d_ts_MapRect = ''MapRect''"
  "decl_kind mapkit_d_ts_CoordinateRegion = KClass"
  "decl_name mapkit_d_ts_CoordinateRegion = ''CoordinateRegion''"
  "decl_kind mapkit_d_ts_CoordinateSpan = KClass"
  "decl_name mapkit_d_ts_CoordinateSpan = ''CoordinateSpan''"
  "decl_kind mapkit_d_ts_BoundingRegion = KClass"
  "decl_name mapkit_d_ts_BoundingRegion = ''BoundingRegion''"
  "decl_kind mapkit_d_ts_PaddingConstructorOptions = KInterface"
  "decl_name mapkit_d_ts_PaddingConstructorOptions = ''PaddingConstructorOptions''"
  "decl_kind mapkit_d_ts_Padding = KClass"
  "decl_name mapkit_d_ts_Padding = ''Padding''"
  "decl_kind mapkit_d_ts_AnnotationConstructorOptions = KInterface"
  "decl_name mapkit_d_ts_AnnotationConstructorOptions = ''AnnotationConstructorOptions''"
  "decl_kind mapkit_d_ts_Annotation = KClass"
  "decl_name mapkit_d_ts_Annotation = ''Annotation''"
  "decl_kind mapkit_d_ts_Annotation_namespace = KNamespace"
  "decl_name mapkit_d_ts_Annotation_namespace = ''Annotation''"
  "decl_kind mapkit_d_ts__DisplayAsset = KInterface"
  "decl_name mapkit_d_ts__DisplayAsset = ''_DisplayAsset''"
  "decl_kind mapkit_d_ts_MarkerAnnotation = KClass"
  "decl_name mapkit_d_ts_MarkerAnnotation = ''MarkerAnnotation''"
  "decl_kind mapkit_d_ts_MarkerAnnotationConstructorOptions = KInterface"
  "decl_name mapkit_d_ts_MarkerAnnotationConstructorOptions = ''MarkerAnnotationConstructorOptions''"
  "decl_kind mapkit_d_ts_ImageAnnotation = KClass"
  "decl_name mapkit_d_ts_ImageAnnotation = ''ImageAnnotation''"
  "decl_kind mapkit_d_ts_ImageAnnotationConstructorOptions = KInterface"
  "decl_name mapkit_d_ts_ImageAnnotationConstructorOptions = ''ImageAnnotationConstructorOptions''"
  "decl_kind mapkit_d_ts_FeatureVisibility = KEnum"
  "decl_name mapkit_d_ts_FeatureVisibility = ''FeatureVisibility''"
  "decl_kind mapkit_d_ts_AnnotationCalloutDelegate = KInterface"
  "decl_name mapkit_d_ts_AnnotationCalloutDelegate = ''AnnotationCalloutDelegate''"
  "decl_kind mapkit_d_ts_Overlay = KClass"
  "decl_name mapkit_d_ts_Overlay = ''Overlay''"
  "decl_kind mapkit_d_ts_CircleOverlay = KClass"
  "decl_name mapkit_d_ts_CircleOverlay = ''CircleOverlay''"
  "decl_kind mapkit_d_ts_PolylineOverlay = KClass"
  "decl_name mapkit_d_ts_PolylineOverlay = ''PolylineOverlay''"
  "decl_kind mapkit_d_ts_PolygonOverlay = KClass"
  "decl_name mapkit_d_ts_PolygonOverlay = ''PolygonOverlay''"
  "decl_kind mapkit_d_ts_TileOverlay = KClass"
  "decl_name mapkit_d_ts_TileOverlay = ''TileOverlay''"
  "decl_kind mapkit_d_ts_GeocoderConstructorOptions = KInterface"
  "decl_name mapkit_d_ts_GeocoderConstructorOptions = ''GeocoderConstructorOptions''"
  "decl_kind mapkit_d_ts_GeocodeResponse = KInterface"
  "decl_name mapkit_d_ts_GeocodeResponse = ''GeocodeResponse''"
  "decl_kind mapkit_d_ts_GeocoderLookupOptions = KInterface"
  "decl_name mapkit_d_ts_GeocoderLookupOptions = ''GeocoderLookupOptions''"
  "decl_kind mapkit_d_ts_GeocoderReverseLookupOptions = KInterface"
  "decl_name mapkit_d_ts_GeocoderReverseLookupOptions = ''GeocoderReverseLookupOptions''"
  "decl_kind mapkit_d_ts_Place = KInterface"
  "decl_name mapkit_d_ts_Place = ''Place''"
  "decl_kind mapkit_d_ts_Geocoder = KClass"
  "decl_name mapkit_d_ts_Geocoder = ''Geocoder''"
  "decl_kind mapkit_d_ts_SearchConstructorOptions = KInterface"
  "decl_name mapkit_d_ts_SearchConstructorOptions = ''SearchConstructorOptions''"
  "decl_kind mapkit_d_ts_SearchResponse = KInterface"
  "decl_name mapkit_d_ts_SearchResponse = ''SearchResponse''"
  "decl_kind mapkit_d_ts_SearchOptions = KInterface"
  "decl_name mapkit_d_ts_SearchOptions = ''SearchOptions''"
  "decl_kind mapkit_d_ts_SearchAutocompleteResult = KInterface"
  "decl_name mapkit_d_ts_SearchAutocompleteResult = ''SearchAutocompleteResult''"
  "decl_kind mapkit_d_ts_SearchAutocompleteResponse = KInterface"
  "decl_name mapkit_d_ts_SearchAutocompleteResponse = ''SearchAutocompleteResponse''"
  "decl_kind mapkit_d_ts_SearchDelegate = KInterface"
  "decl_name mapkit_d_ts_SearchDelegate = ''SearchDelegate''"
  "decl_kind mapkit_d_ts_Search = KClass"
  "decl_name mapkit_d_ts_Search = ''Search''"
  "decl_kind mapkit_d_ts_DOMPoint = KClass"
  "decl_name mapkit_d_ts_DOMPoint = ''DOMPoint''"
  by (simp_all add: mapkit_d_ts_decls)

lemmas part_000_decls =
  part_000_MapKitError_def
  part_000_SelectEventTypes_def
  part_000_MapKitEvented_def
  part_000_init_def
  part_000_MapKitInitSuccessStatus_def
  part_000_MapKitInitFailureStatus_def
  part_000_MapKitInitSuccessEvent_def
  part_000_MapKitInitFailureEvent_def
  part_000_MapKitEventTypes_def
  part_000_addEventListener_def
  part_000_removeEventListener_def
  part_000_maps_def
  part_000_language_def
  part_000_build_def
  part_000_MapKitInitOptions_def
  part_000_Coordinate_def
  part_000_MapConstructorOptions_def
  part_000_MapEvent_def
  part_000_OverlayEvent_def
  part_000_UserLocationChangeEvent_def
  part_000_LocationError_def
  part_000_UserLocationErrorEvent_def
  part_000_MapEventTypes_def
  part_000_Map_def
  part_000_Map_namespace_def
  part_000_MapShowItemsOptions_def
  part_000_MapPoint_def
  part_000_MapSize_def
  part_000_MapRect_def
  part_000_CoordinateRegion_def
  part_000_CoordinateSpan_def
  part_000_BoundingRegion_def
  part_000_PaddingConstructorOptions_def
  part_000_Padding_def
  part_000_AnnotationConstructorOptions_def
  part_000_AnnotationEvent_def
  part_000_AnnotationEventWithoutSelectTypes_def
  part_000_AnnotationEventTypes_def
  part_000_Annotation_def
  part_000_Annotation_namespace_def
  part_000__DisplayAsset_def
  part_000_MarkerAnnotation_def
  part_000_MarkerAnnotationConstructorOptions_def
  part_000_ImageAnnotation_def
  part_000_ImageAnnotationConstructorOptions_def
  part_000_FeatureVisibility_def
  part_000_AnnotationCalloutDelegate_def
  part_000_OverlayEventWithoutSelectTypes_def
  part_000_OverlayEventTypes_def
  part_000_Overlay_def
  part_000_CircleOverlay_def
  part_000_PolylineOverlay_def
  part_000_PolygonOverlay_def
  part_000_TileOverlay_def
  part_000_GeocoderConstructorOptions_def
  part_000_GeocodeResponse_def
  part_000_GeocoderLookupOptions_def
  part_000_GeocoderReverseLookupOptions_def
  part_000_Place_def
  part_000_Geocoder_def
  part_000_SearchConstructorOptions_def
  part_000_SearchResponse_def
  part_000_SearchOptions_def
  part_000_SearchAutocompleteResult_def
  part_000_SearchAutocompleteResponse_def
  part_000_SearchDelegate_def
  part_000_Search_def
  part_000_DOMPoint_def

lemma part_000_keys:
  "decl_kind part_000_MapKitError = KInterface"
  "decl_name part_000_MapKitError = ''MapKitError''"
  "decl_kind part_000_SelectEventTypes = KInterface"
  "decl_name part_000_SelectEventTypes = ''SelectEventTypes''"
  "decl_kind part_000_MapKitEvented = KClass"
  "decl_name part_000_MapKitEvented = ''MapKitEvented''"
  "decl_kind part_000_init = KFunction"
  "decl_name part_000_init = ''init''"
  "decl_kind part_000_MapKitInitSuccessStatus = KEnum"
  "decl_name part_000_MapKitInitSuccessStatus = ''MapKitInitSuccessStatus''"
  "decl_kind part_000_MapKitInitFailureStatus = KEnum"
  "decl_name part_000_MapKitInitFailureStatus = ''MapKitInitFailureStatus''"
  "decl_kind part_000_MapKitInitSuccessEvent = KClass"
  "decl_name part_000_MapKitInitSuccessEvent = ''MapKitInitSuccessEvent''"
  "decl_kind part_000_MapKitInitFailureEvent = KClass"
  "decl_name part_000_MapKitInitFailureEvent = ''MapKitInitFailureEvent''"
  "decl_kind part_000_MapKitEventTypes = KInterface"
  "decl_name part_000_MapKitEventTypes = ''MapKitEventTypes''"
  "decl_kind part_000_addEventListener = KFunction"
  "decl_name part_000_addEventListener = ''addEventListener''"
  "decl_kind part_000_removeEventListener = KFunction"
  "decl_name part_000_removeEventListener = ''removeEventListener''"
  "decl_kind part_000_maps = KVariable"
  "decl_name part_000_maps = ''maps''"
  "decl_kind part_000_language = KVariable"
  "decl_name part_000_language = ''language''"
  "decl_kind part_000_build = KVariable"
  "decl_name part_000_build = ''build''"
  "decl_kind part_000_MapKitInitOptions = KInterface"
  "decl_name part_000_MapKitInitOptions = ''MapKitInitOptions''"
  "decl_kind part_000_Coordinate = KClass"
  "decl_name part_000_Coordinate = ''Coordinate''"
  "decl_kind part_000_MapConstructorOptions = KInterface"
  "decl_name part_000_MapConstructorOptions = ''MapConstructorOptions''"
  "decl_kind part_000_MapEvent = KClass"
  "decl_name part_000_MapEvent = ''MapEvent''"
  "decl_kind part_000_OverlayEvent = KClass"
  "decl_name part_000_OverlayEvent = ''OverlayEvent''"
  "decl_kind part_000_UserLocationChangeEvent = KClass"
  "decl_name part_000_UserLocationChangeEvent = ''UserLocationChangeEvent''"
  "decl_kind part_000_LocationError = KEnum"
  "decl_name part_000_LocationError = ''LocationError''"
  "decl_kind part_000_UserLocationErrorEvent = KClass"
  "decl_name part_000_UserLocationErrorEvent = ''UserLocationErrorEvent''"
  "decl_kind part_000_MapEventTypes = KInterface"
  "decl_name part_000_MapEventTypes = ''MapEventTypes''"
  "decl_kind part_000_Map = KClass"
  "decl_name part_000_Map = ''Map''"
  "decl_kind part_000_Map_namespace = KNamespace"
  "decl_name part_000_Map_namespace = ''Map''"
  "decl_kind part_000_MapShowItemsOptions = KInterface"
  "decl_name part_000_MapShowItemsOptions = ''MapShowItemsOptions''"
  "decl_kind part_000_MapPoint = KClass"
  "decl_name part_000_MapPoint = ''MapPoint''"
  "decl_kind part_000_MapSize = KClass"
  "decl_name part_000_MapSize = ''MapSize''"
  "decl_kind part_000_MapRect = KClass"
  "decl_name part_000_MapRect = ''MapRect''"
  "decl_kind part_000_CoordinateRegion = KClass"
  "decl_name part_000_CoordinateRegion = ''CoordinateRegion''"
  "decl_kind part_000_CoordinateSpan = KClass"
  "decl_name part_000_CoordinateSpan = ''CoordinateSpan''"
  "decl_kind part_000_BoundingRegion = KClass"
  "decl_name part_000_BoundingRegion = ''BoundingRegion''"
  "decl_kind part_000_PaddingConstructorOptions = KInterface"
  "decl_name part_000_PaddingConstructorOptions = ''PaddingConstructorOptions''"
  "decl_kind part_000_Padding = KClass"
  "decl_name part_000_Padding = ''Padding''"
  "decl_kind part_000_AnnotationConstructorOptions = KInterface"
  "decl_name part_000_AnnotationConstructorOptions = ''AnnotationConstructorOptions''"
  "decl_kind part_000_AnnotationEvent = KClass"
  "decl_name part_000_AnnotationEvent = ''AnnotationEvent''"
  "decl_kind part_000_AnnotationEventWithoutSelectTypes = KInterface"
  "decl_name part_000_AnnotationEventWithoutSelectTypes = ''AnnotationEventWithoutSelectTypes''"
  "decl_kind part_000_AnnotationEventTypes = KInterface"
  "decl_name part_000_AnnotationEventTypes = ''AnnotationEventTypes''"
  "decl_kind part_000_Annotation = KClass"
  "decl_name part_000_Annotation = ''Annotation''"
  "decl_kind part_000_Annotation_namespace = KNamespace"
  "decl_name part_000_Annotation_namespace = ''Annotation''"
  "decl_kind part_000__DisplayAsset = KInterface"
  "decl_name part_000__DisplayAsset = ''_DisplayAsset''"
  "decl_kind part_000_MarkerAnnotation = KClass"
  "decl_name part_000_MarkerAnnotation = ''MarkerAnnotation''"
  "decl_kind part_000_MarkerAnnotationConstructorOptions = KInterface"
  "decl_name part_000_MarkerAnnotationConstructorOptions = ''MarkerAnnotationConstructorOptions''"
  "decl_kind part_000_ImageAnnotation = KClass"
  "decl_name part_000_ImageAnnotation = ''ImageAnnotation''"
  "decl_kind part_000_ImageAnnotationConstructorOptions = KInterface"
  "decl_name part_000_ImageAnnotationConstructorOptions = ''ImageAnnotationConstructorOptions''"
  "decl_kind part_000_FeatureVisibility = KEnum"
  "decl_name part_000_FeatureVisibility = ''FeatureVisibility''"
  "decl_kind part_000_AnnotationCalloutDelegate = KInterface"
  "decl_name part_000_AnnotationCalloutDelegate = ''AnnotationCalloutDelegate''"
  "decl_kind part_000_OverlayEventWithoutSelectTypes = KInterface"
  "decl_name part_000_OverlayEventWithoutSelectTypes = ''OverlayEventWithoutSelectTypes''"
  "decl_kind part_000_OverlayEventTypes = KInterface"
  "decl_name part_000_OverlayEventTypes = ''OverlayEventTypes''"
  "decl_kind part_000_Overlay = KClass"
  "decl_name part_000_Overlay = ''Overlay''"
  "decl_kind part_000_CircleOverlay = KClass"
  "decl_name part_000_CircleOverlay = ''CircleOverlay''"
  "decl_kind part_000_PolylineOverlay = KClass"
  "decl_name part_000_PolylineOverlay = ''PolylineOverlay''"
  "decl_kind part_000_PolygonOverlay = KClass"
  "decl_name part_000_PolygonOverlay = ''PolygonOverlay''"
  "decl_kind part_000_TileOverlay = KClass"
  "decl_name part_000_TileOverlay = ''TileOverlay''"
  "decl_kind part_000_GeocoderConstructorOptions = KInterface"
  "decl_name part_000_GeocoderConstructorOptions = ''GeocoderConstructorOptions''"
  "decl_kind part_000_GeocodeResponse = KInterface"
  "decl_name part_000_GeocodeResponse = ''GeocodeResponse''"
  "decl_kind part_000_GeocoderLookupOptions = KInterface"
  "decl_name part_000_GeocoderLookupOptions = ''GeocoderLookupOptions''"
  "decl_kind part_000_GeocoderReverseLookupOptions = KInterface"
  "decl_name part_000_GeocoderReverseLookupOptions = ''GeocoderReverseLookupOptions''"
  "decl_kind part_000_Place = KInterface"
  "decl_name part_000_Place = ''Place''"
  "decl_kind part_000_Geocoder = KClass"
  "decl_name part_000_Geocoder = ''Geocoder''"
  "decl_kind part_000_SearchConstructorOptions = KInterface"
  "decl_name part_000_SearchConstructorOptions = ''SearchConstructorOptions''"
  "decl_kind part_000_SearchResponse = KInterface"
  "decl_name part_000_SearchResponse = ''SearchResponse''"
  "decl_kind part_000_SearchOptions = KInterface"
  "decl_name part_000_SearchOptions = ''SearchOptions''"
  "decl_kind part_000_SearchAutocompleteResult = KInterface"
  "decl_name part_000_SearchAutocompleteResult = ''SearchAutocompleteResult''"
  "decl_kind part_000_SearchAutocompleteResponse = KInterface"
  "decl_name part_000_SearchAutocompleteResponse = ''SearchAutocompleteResponse''"
  "decl_kind part_000_SearchDelegate = KInterface"
  "decl_name part_000_SearchDelegate = ''SearchDelegate''"
  "decl_kind part_000_Search = KClass"
  "decl_name part_000_Search = ''Search''"
  "decl_kind part_000_DOMPoint = KClass"
  "decl_name part_000_DOMPoint = ''DOMPoint''"
  by (simp_all add: part_000_decls)

lemmas part_001_decls =
  part_001_MapKitError_def
  part_001_SelectEventTypes_def
  part_001_MapKitEvented_def
  part_001_init_def
  part_001_MapKitInitSuccessStatus_def
  part_001_MapKitInitFailureStatus_def
  part_001_MapKitInitSuccessEvent_def
  part_001_MapKitInitFailureEvent_def
  part_001_MapKitEventTypes_def
  part_001_addEventListener_def
  part_001_removeEventListener_def
  part_001_maps_def
  part_001_language_def
  part_001_build_def
  part_001_MapKitInitOptions_def
  part_001_Coordinate_def
  part_001_MapConstructorOptions_def
  part_001_MapEvent_def
  part_001_OverlayEvent_def
  part_001_UserLocationChangeEvent_def
  part_001_LocationError_def
  part_001_UserLocationErrorEvent_def
  part_001_MapEventTypes_def
  part_001_Map_def
  part_001_Map_namespace_def
  part_001_MapShowItemsOptions_def
  part_001_MapPoint_def
  part_001_MapSize_def
  part_001_MapRect_def
  part_001_CoordinateRegion_def
  part_001_CoordinateSpan_def
  part_001_BoundingRegion_def
  part_001_PaddingConstructorOptions_def
  part_001_Padding_def
  part_001_AnnotationConstructorOptions_def
  part_001_AnnotationEvent_def
  part_001_AnnotationEventWithoutSelectTypes_def
  part_001_AnnotationEventTypes_def
  part_001_Annotation_def
  part_001_Annotation_namespace_def
  part_001_DisplayAsset_def
  part_001_MarkerAnnotation_def
  part_001_MarkerAnnotationConstructorOptions_def
  part_001_ImageAnnotation_def
  part_001_ImageAnnotationConstructorOptions_def
  part_001_FeatureVisibility_def
  part_001_AnnotationCalloutDelegate_def
  part_001_FillOpacityRule_def
  part_001_LineCapStyle_def
  part_001_LineJoinStyle_def
  part_001_StyleConstructorOptions_def
  part_001_Style_def
  part_001_OverlayEventWithoutSelectTypes_def
  part_001_OverlayEventTypes_def
  part_001_Overlay_def
  part_001_OverlayOptions_def
  part_001_CircleOverlay_def
  part_001_PolylineOverlay_def
  part_001_PolygonOverlay_def
  part_001_TileOverlayConstructorOptions_def
  part_001_TileOverlayErrorEvent_def
  part_001_TileOverlayEventTypes_def
  part_001_TileOverlay_def
  part_001_GeocoderConstructorOptions_def
  part_001_GeocodeResponse_def
  part_001_GeocoderLookupOptions_def
  part_001_GeocoderReverseLookupOptions_def
  part_001_Place_def
  part_001_Geocoder_def
  part_001_SearchConstructorOptions_def
  part_001_SearchResponse_def
  part_001_SearchOptions_def
  part_001_SearchAutocompleteResult_def
  part_001_SearchAutocompleteResponse_def
  part_001_SearchDelegate_def
  part_001_Search_def
  part_001_DirectionsConstructorOptions_def
  part_001_DirectionsRequest_def
  part_001_RouteStep_def
  part_001_Route_def
  part_001_DirectionsResponse_def
  part_001_Directions_def
  part_001_Directions_namespace_def
  part_001_ItemCollection_def
  part_001_GeoJSONDelegate_def
  part_001_importGeoJSON_def
  part_001_DOMPoint_def

lemma part_001_keys:
  "decl_kind part_001_MapKitError = KInterface"
  "decl_name part_001_MapKitError = ''MapKitError''"
  "decl_kind part_001_SelectEventTypes = KInterface"
  "decl_name part_001_SelectEventTypes = ''SelectEventTypes''"
  "decl_kind part_001_MapKitEvented = KClass"
  "decl_name part_001_MapKitEvented = ''MapKitEvented''"
  "decl_kind part_001_init = KFunction"
  "decl_name part_001_init = ''init''"
  "decl_kind part_001_MapKitInitSuccessStatus = KEnum"
  "decl_name part_001_MapKitInitSuccessStatus = ''MapKitInitSuccessStatus''"
  "decl_kind part_001_MapKitInitFailureStatus = KEnum"
  "decl_name part_001_MapKitInitFailureStatus = ''MapKitInitFailureStatus''"
  "decl_kind part_001_MapKitInitSuccessEvent = KClass"
  "decl_name part_001_MapKitInitSuccessEvent = ''MapKitInitSuccessEvent''"
  "decl_kind part_001_MapKitInitFailureEvent = KClass"
  "decl_name part_001_MapKitInitFailureEvent = ''MapKitInitFailureEvent''"
  "decl_kind part_001_MapKitEventTypes = KInterface"
  "decl_name part_001_MapKitEventTypes = ''MapKitEventTypes''"
  "decl_kind part_001_addEventListener = KFunction"
  "decl_name part_001_addEventListener = ''addEventListener''"
  "decl_kind part_001_removeEventListener = KFunction"
  "decl_name part_001_removeEventListener = ''removeEventListener''"
  "decl_kind part_001_maps = KVariable"
  "decl_name part_001_maps = ''maps''"
  "decl_kind part_001_language = KVariable"
  "decl_name part_001_language = ''language''"
  "decl_kind part_001_build = KVariable"
  "decl_name part_001_build = ''build''"
  "decl_kind part_001_MapKitInitOptions = KInterface"
  "decl_name part_001_MapKitInitOptions = ''MapKitInitOptions''"
  "decl_kind part_001_Coordinate = KClass"
  "decl_name part_001_Coordinate = ''Coordinate''"
  "decl_kind part_001_MapConstructorOptions = KInterface"
  "decl_name part_001_MapConstructorOptions = ''MapConstructorOptions''"
  "decl_kind part_001_MapEvent = KClass"
  "decl_name part_001_MapEvent = ''MapEvent''"
  "decl_kind part_001_OverlayEvent = KClass"
  "decl_name part_001_OverlayEvent = ''OverlayEvent''"
  "decl_kind part_001_UserLocationChangeEvent = KClass"
  "decl_name part_001_UserLocationChangeEvent = ''UserLocationChangeEvent''"
  "decl_kind part_001_LocationError = KEnum"
  "decl_name part_001_LocationError = ''LocationError''"
  "decl_kind part_001_UserLocationErrorEvent = KClass"
  "decl_name part_001_UserLocationErrorEvent = ''UserLocationErrorEvent''"
  "decl_kind part_001_MapEventTypes = KInterface"
  "decl_name part_001_MapEventTypes = ''MapEventTypes''"
  "decl_kind part_001_Map = KClass"
  "decl_name part_001_Map = ''Map''"
  "decl_kind part_001_Map_namespace = KNamespace"
  "decl_name part_001_Map_namespace = ''Map''"
  "decl_kind part_001_MapShowItemsOptions = KInterface"
  "decl_name part_001_MapShowItemsOptions = ''MapShowItemsOptions''"
  "decl_kind part_001_MapPoint = KClass"
  "decl_name part_001_MapPoint = ''MapPoint''"
  "decl_kind part_001_MapSize = KClass"
  "decl_name part_001_MapSize = ''MapSize''"
  "decl_kind part_001_MapRect = KClass"
  "decl_name part_001_MapRect = ''MapRect''"
  "decl_kind part_001_CoordinateRegion = KClass"
  "decl_name part_001_CoordinateRegion = ''CoordinateRegion''"
  "decl_kind part_001_CoordinateSpan = KClass"
  "decl_name part_001_CoordinateSpan = ''CoordinateSpan''"
  "decl_kind part_001_BoundingRegion = KClass"
  "decl_name part_001_BoundingRegion = ''BoundingRegion''"
  "decl_kind part_001_PaddingConstructorOptions = KInterface"
  "decl_name part_001_PaddingConstructorOptions = ''PaddingConstructorOptions''"
  "decl_kind part_001_Padding = KClass"
  "decl_name part_001_Padding = ''Padding''"
  "decl_kind part_001_AnnotationConstructorOptions = KInterface"
  "decl_name part_001_AnnotationConstructorOptions = ''AnnotationConstructorOptions''"
  "decl_kind part_001_AnnotationEvent = KClass"
  "decl_name part_001_AnnotationEvent = ''AnnotationEvent''"
  "decl_kind part_001_AnnotationEventWithoutSelectTypes = KInterface"
  "decl_name part_001_AnnotationEventWithoutSelectTypes = ''AnnotationEventWithoutSelectTypes''"
  "decl_kind part_001_AnnotationEventTypes = KInterface"
  "decl_name part_001_AnnotationEventTypes = ''AnnotationEventTypes''"
  "decl_kind part_001_Annotation = KClass"
  "decl_name part_001_Annotation = ''Annotation''"
  "decl_kind part_001_Annotation_namespace = KNamespace"
  "decl_name part_001_Annotation_namespace = ''Annotation''"
  "decl_kind part_001_DisplayAsset = KInterface"
  "decl_name part_001_DisplayAsset = ''DisplayAsset''"
  "decl_kind part_001_MarkerAnnotation = KClass"
  "decl_name part_001_MarkerAnnotation = ''MarkerAnnotation''"
  "decl_kind part_001_MarkerAnnotationConstructorOptions = KInterface"
  "decl_name part_001_MarkerAnnotationConstructorOptions = ''MarkerAnnotationConstructorOptions''"
  "decl_kind part_001_ImageAnnotation = KClass"
  "decl_name part_001_ImageAnnotation = ''ImageAnnotation''"
  "decl_kind part_001_ImageAnnotationConstructorOptions = KInterface"
  "decl_name part_001_ImageAnnotationConstructorOptions = ''ImageAnnotationConstructorOptions''"
  "decl_kind part_001_FeatureVisibility = KEnum"
  "decl_name part_001_FeatureVisibility = ''FeatureVisibility''"
  "decl_kind part_001_AnnotationCalloutDelegate = KInterface"
  "decl_name part_001_AnnotationCalloutDelegate = ''AnnotationCalloutDelegate''"
  "decl_kind part_001_FillOpacityRule = KEnum"
  "decl_name part_001_FillOpacityRule = ''FillOpacityRule''"
  "decl_kind part_001_LineCapStyle = KEnum"
  "decl_name part_001_LineCapStyle = ''LineCapStyle''"
  "decl_kind part_001_LineJoinStyle = KEnum"
  "decl_name part_001_LineJoinStyle = ''LineJoinStyle''"
  "decl_kind part_001_StyleConstructorOptions = KInterface"
  "decl_name part_001_StyleConstructorOptions = ''StyleConstructorOptions''"
  "decl_kind part_001_Style = KClass"
  "decl_name part_001_Style = ''Style''"
  "decl_kind part_001_OverlayEventWithoutSelectTypes = KInterface"
  "decl_name part_001_OverlayEventWithoutSelectTypes = ''OverlayEventWithoutSelectTypes''"
  "decl_kind part_001_OverlayEventTypes = KInterface"
  "decl_name part_001_OverlayEventTypes = ''OverlayEventTypes''"
  "decl_kind part_001_Overlay = KClass"
  "decl_name part_001_Overlay = ''Overlay''"
  "decl_kind part_001_OverlayOptions = KInterface"
  "decl_name part_001_OverlayOptions = ''OverlayOptions''"
  "decl_kind part_001_CircleOverlay = KClass"
  "decl_name part_001_CircleOverlay = ''CircleOverlay''"
  "decl_kind part_001_PolylineOverlay = KClass"
  "decl_name part_001_PolylineOverlay = ''PolylineOverlay''"
  "decl_kind part_001_PolygonOverlay = KClass"
  "decl_name part_001_PolygonOverlay = ''PolygonOverlay''"
  "decl_kind part_001_TileOverlayConstructorOptions = KInterface"
  "decl_name part_001_TileOverlayConstructorOptions = ''TileOverlayConstructorOptions''"
  "decl_kind part_001_TileOverlayErrorEvent = KInterface"
  "decl_name part_001_TileOverlayErrorEvent = ''TileOverlayErrorEvent''"
  "decl_kind part_001_TileOverlayEventTypes = KInterface"
  "decl_name part_001_TileOverlayEventTypes = ''TileOverlayEventTypes''"
  "decl_kind part_001_TileOverlay = KClass"
  "decl_name part_001_TileOverlay = ''TileOverlay''"
  "decl_kind part_001_GeocoderConstructorOptions = KInterface"
  "decl_name part_001_GeocoderConstructorOptions = ''GeocoderConstructorOptions''"
  "decl_kind part_001_GeocodeResponse = KInterface"
  "decl_name part_001_GeocodeResponse = ''GeocodeResponse''"
  "decl_kind part_001_GeocoderLookupOptions = KInterface"
  "decl_name part_001_GeocoderLookupOptions = ''GeocoderLookupOptions''"
  "decl_kind part_001_GeocoderReverseLookupOptions = KInterface"
  "decl_name part_001_GeocoderReverseLookupOptions = ''GeocoderReverseLookupOptions''"
  "decl_kind part_001_Place = KInterface"
  "decl_name part_001_Place = ''Place''"
  "decl_kind part_001_Geocoder = KClass"
  "decl_name part_001_Geocoder = ''Geocoder''"
  "decl_kind part_001_SearchConstructorOptions = KInterface"
  "decl_name part_001_SearchConstructorOptions = ''SearchConstructorOptions''"
  "decl_kind part_001_SearchResponse = KInterface"
  "decl_name part_001_SearchResponse = ''SearchResponse''"
  "decl_kind part_001_SearchOptions = KInterface"
  "decl_name part_001_SearchOptions = ''SearchOptions''"
  "decl_kind part_001_SearchAutocompleteResult = KInterface"
  "decl_name part_001_SearchAutocompleteResult = ''SearchAutocompleteResult''"
  "decl_kind part_001_SearchAutocompleteResponse = KInterface"
  "decl_name part_001_SearchAutocompleteResponse = ''SearchAutocompleteResponse''"
  "decl_kind part_001_SearchDelegate = KInterface"
  "decl_name part_001_SearchDelegate = ''SearchDelegate''"
  "decl_kind part_001_Search = KClass"
  "decl_name part_001_Search = ''Search''"
  "decl_kind part_001_DirectionsConstructorOptions = KInterface"
  "decl_name part_001_DirectionsConstructorOptions = ''DirectionsConstructorOptions''"
  "decl_kind part_001_DirectionsRequest = KInterface"
  "decl_name part_001_DirectionsRequest = ''DirectionsRequest''"
  "decl_kind part_001_RouteStep = KInterface"
  "decl_name part_001_RouteStep = ''RouteStep''"
  "decl_kind part_001_Route = KInterface"
  "decl_name part_001_Route = ''Route''"
  "decl_kind part_001_DirectionsResponse = KInterface"
  "decl_name part_001_DirectionsResponse = ''DirectionsResponse''"
  "decl_kind part_001_Directions = KClass"
  "decl_name part_001_Directions = ''Directions''"
  "decl_kind part_001_Directions_namespace = KNamespace"
  "decl_name part_001_Directions_namespace = ''Directions''"
  "decl_kind part_001_ItemCollection = KInterface"
  "decl_name part_001_ItemCollection = ''ItemCollection''"
  "decl_kind part_001_GeoJSONDelegate = KInterface"
  "decl_name part_001_GeoJSONDelegate = ''GeoJSONDelegate''"
  "decl_kind part_001_importGeoJSON = KFunction"
  "decl_name part_001_importGeoJSON = ''importGeoJSON''"
  "decl_kind part_001_DOMPoint = KClass"
  "decl_name part_001_DOMPoint = ''DOMPoint''"
  by (simp_all add: part_001_decls)


text \<open>The lookups the theorems below evaluate, file by file.\<close>

lemma mapkit_d_ts_declared:
  "declared KFunction ''init'' mapkit_d_ts = Some mapkit_d_ts_init"
  "declared KFunction ''importGeoJSON'' mapkit_d_ts = None"
  "declared KInterface ''MapKitInitOptions'' mapkit_d_ts = Some mapkit_d_ts_MapKitInitOptions"
  "declared KInterface ''MapConstructorOptions'' mapkit_d_ts = Some mapkit_d_ts_MapConstructorOptions"
  "declared KInterface ''MapKitError'' mapkit_d_ts = None"
  "declared KInterface ''GeoJSONDelegate'' mapkit_d_ts = None"
  "declared KEnum ''LocationError'' mapkit_d_ts = None"
  "declared KEnum ''MapKitInitFailureStatus'' mapkit_d_ts = None"
  "declared KNamespace ''Annotation'' mapkit_d_ts = Some mapkit_d_ts_Annotation_namespace"
  "declared KNamespace ''Map'' mapkit_d_ts = Some mapkit_d_ts_Map_namespace"
  "declared KInterface ''Padding'' mapkit_d_ts = None"
  "declared KClass ''Padding'' mapkit_d_ts = Some mapkit_d_ts_Padding"
  "declared KClass ''Coordinate'' mapkit_d_ts = Some mapkit_d_ts_Coordinate"
  "declared KClass ''MapPoint'' mapkit_d_ts = Some mapkit_d_ts_MapPoint"
  "declared KClass ''MapRect'' mapkit_d_ts = Some mapkit_d_ts_MapRect"
  "declared KClass ''CoordinateRegion'' mapkit_d_ts = Some mapkit_d_ts_CoordinateRegion"
  "declared KClass ''BoundingRegion'' mapkit_d_ts = Some mapkit_d_ts_BoundingRegion"
  "declared KClass ''Map'' mapkit_d_ts = Some mapkit_d_ts_Map"
  "declared KClass ''Annotation'' mapkit_d_ts = Some mapkit_d_ts_Annotation"
  "declared KClass ''Geocoder'' mapkit_d_ts = Some mapkit_d_ts_Geocoder"
  "declared KClass ''Search'' mapkit_d_ts = Some mapkit_d_ts_Search"
  "declared KClass ''Directions'' mapkit_d_ts = None"
  by (simp_all add: declared_def mapkit_d_ts_def mapkit_d_ts_keys)

lemma part_000_declared:
  "declared KFunction ''init'' part_000 = Some part_000_init"
  "declared KFunction ''importGeoJSON'' part_000 = None"
  "declared KInterface ''MapKitInitOptions'' part_000 = Some part_000_MapKitInitOptions"
  "declared KInterface ''MapConstructorOptions'' part_000 = Some part_000_MapConstructorOptions"
  "declared KInterface ''MapKitError'' part_000 = Some part_000_MapKitError"
  "declared KInterface ''GeoJSONDelegate'' part_000 = None"
  "declared KEnum ''LocationError'' part_000 = Some part_000_LocationError"
  "declared KEnum ''MapKitInitFailureStatus'' part_000 = Some part_000_MapKitInitFailureStatus"
  "declared KNamespace ''Annotation'' part_000 = Some part_000_Annotation_namespace"
  "declared KNamespace ''Map'' part_000 = Some part_000_Map_namespace"
  "declared KInterface ''Padding'' part_000 = None"
  "declared KClass ''Padding'' part_000 = Some part_000_Padding"
  "declared KClass ''Coordinate'' part_000 = Some part_000_Coordinate"
  "declared KClass ''MapPoint'' part_000 = Some part_000_MapPoint"
  "declared KClass ''MapRect'' part_000 = Some part_000_MapRect"
  "declared KClass ''CoordinateRegion'' part_000 = Some part_000_CoordinateRegion"
  "declared KClass ''BoundingRegion'' part_000 = Some part_000_BoundingRegion"
  "declared KClass ''Map'' part_000 = Some part_000_Map"
  "declared KClass ''Annotation'' part_000 = Some part_000_Annotation"
  "declared KClass ''Geocoder'' part_000 = Some part_000_Geocoder"
  "declared KClass ''Search'' part_000 = Some part_000_Search"
  "declared KClass ''Directions'' part_000 = None"
  by (simp_all add: declared_def part_000_def part_000_keys)

lemma part_001_declared:
  "declared KFunction ''init'' part_001 = Some part_001_init"
  "declared KFunction ''importGeoJSON'' part_001 = Some part_001_importGeoJSON"
  "declared KInterface ''MapKitInitOptions'' part_001 = Some part_001_MapKitInitOptions"
  "declared KInterface ''MapConstructorOptions'' part_001 = Some part_001_MapConstructorOptions"
  "declared KInterface ''MapKitError'' part_001 = Some part_001_MapKitError"
  "declared KInterface ''GeoJSONDelegate'' part_001 = Some part_001_GeoJSONDelegate"
  "declared KEnum ''LocationError'' part_001 = Some part_001_LocationError"
  "declared KEnum ''MapKitInitFailureStatus'' part_001 = Some part_001_MapKitInitFailureStatus"
  "declared KNamespace ''Annotation'' part_001 = Some part_001_Annotation_namespace"
  "declared KNamespace ''Map'' part_001 = Some part_001_Map_namespace"
  "declared KInterface ''Padding'' part_001 = None"
  "declared KClass ''Padding'' part_001 = Some part_001_Padding"
  "declared KClass ''Coordinate'' part_001 = Some part_001_Coordinate"
  "declared KClass ''MapPoint'' part_001 = Some part_001_MapPoint"
  "declared KClass ''MapRect'' part_001 = Some part_001_MapRect"
  "declared KClass ''CoordinateRegion'' part_001 = Some part_001_CoordinateRegion"
  "declared KClass ''BoundingRegion'' part_001 = Some part_001_BoundingRegion"
  "declared KClass ''Map'' part_001 = Some part_001_Map"
  "declared KClass ''Annotation'' part_001 = Some part_001_Annotation"
  "declared KClass ''Geocoder'' part_001 = Some part_001_Geocoder"
  "declared KClass ''Search'' part_001 = Some part_001_Search"
  "declared KClass ''Directions'' part_001 = Some part_001_Directions"
  by (simp_all add: declared_def part_001_def part_001_keys)

section \<open>Theorems\<close>

lemmas lookups =
  function_signature_def interface_members_def class_members_def enum_members_def
  namespace_enum_def class_member_def class_constructors_def members_named_def

subsection \<open>Initialisation\<close>

text \<open>
  C7. Each of the three files of the repository declares the function \<^verbatim>\<open>init\<close> with the
  single parameter \<^verbatim>\<open>options: MapKitInitOptions\<close> and the return type \<^verbatim>\<open>void\<close>, and
  declares \<^verbatim>\<open>MapKitInitOptions\<close> with exactly two members: the required
  \<^verbatim>\<open>authorizationCallback\<close>, a function that receives a callback \<^verbatim>\<open>done\<close> taking a
  string token, and the optional \<^verbatim>\<open>language\<close> of type string.
\<close>

theorem init_declared:
  "map (\<lambda>(path, ds). (path, function_signature ''init'' ds, interface_members ''MapKitInitOptions'' ds))
     repository =
   map (\<lambda>path.
     (path,
      Some ([Param ''options'' False (Some (TRef ''MapKitInitOptions''))], Some TVoid),
      Some [MProperty ''authorizationCallback'' False
              (Some (TFun [Param ''done'' False
                             (Some (TFun [Param ''jwt'' False (Some TString)] TVoid))]
                          TVoid)),
            MProperty ''language'' True (Some TString)]))
     [''src/mapkit.d.ts'', ''src/unnamed/part_000'', ''src/unnamed/part_001'']"
  by (simp add: repository_def lookups
      mapkit_d_ts_declared mapkit_d_ts_init_def mapkit_d_ts_MapKitInitOptions_def
      part_000_declared part_000_init_def part_000_MapKitInitOptions_def
      part_001_declared part_001_init_def part_001_MapKitInitOptions_def)

subsection \<open>Conversions between the geometric primitives\<close>

text \<open>
  C8. In each of the three files of the repository each of the six conversions is
  declared exactly once in its class, as a method without parameters whose return type
  is the class converted to, and without a body: \<^verbatim>\<open>Coordinate.toMapPoint(): MapPoint\<close>,
  \<^verbatim>\<open>MapPoint.toCoordinate(): Coordinate\<close>, \<^verbatim>\<open>MapRect.toCoordinateRegion(): CoordinateRegion\<close>,
  \<^verbatim>\<open>CoordinateRegion.toMapRect(): MapRect\<close>,
  \<^verbatim>\<open>CoordinateRegion.toBoundingRegion(): BoundingRegion\<close> and
  \<^verbatim>\<open>BoundingRegion.toCoordinateRegion(): CoordinateRegion\<close>.
\<close>

theorem conversions_declared:
  "map (\<lambda>(path, ds). (path, map (\<lambda>(c, m, r). class_member c m ds) conversions)) repository =
   map (\<lambda>path.
     (path,
      [Some [MMethod ''toMapPoint'' False [] [] (Some (TRef ''MapPoint'')) None],
       Some [MMethod ''toCoordinate'' False [] [] (Some (TRef ''Coordinate'')) None],
       Some [MMethod ''toCoordinateRegion'' False [] [] (Some (TRef ''CoordinateRegion'')) None],
       Some [MMethod ''toMapRect'' False [] [] (Some (TRef ''MapRect'')) None],
       Some [MMethod ''toBoundingRegion'' False [] [] (Some (TRef ''BoundingRegion'')) None],
       Some [MMethod ''toCoordinateRegion'' False [] [] (Some (TRef ''CoordinateRegion'')) None]]))
     [''src/mapkit.d.ts'', ''src/unnamed/part_000'', ''src/unnamed/part_001''] \<and>
   list_all (\<lambda>(path, ds).
     list_all (\<lambda>(c, m, r).
       class_member c m ds = Some [MMethod m False [] [] (Some (TRef r)) None]) conversions)
     repository"
  by (simp add: repository_def conversions_def lookups
      mapkit_d_ts_declared mapkit_d_ts_Coordinate_def mapkit_d_ts_MapPoint_def
      mapkit_d_ts_MapRect_def mapkit_d_ts_CoordinateRegion_def mapkit_d_ts_BoundingRegion_def
      part_000_declared part_000_Coordinate_def part_000_MapPoint_def
      part_000_MapRect_def part_000_CoordinateRegion_def part_000_BoundingRegion_def
      part_001_declared part_001_Coordinate_def part_001_MapPoint_def
      part_001_MapRect_def part_001_CoordinateRegion_def part_001_BoundingRegion_def)

subsection \<open>The enums of the Annotation namespace\<close>

text \<open>
  C9. In each of the three files of the repository the enum
  \<^verbatim>\<open>Annotation.DisplayPriority\<close> has exactly the three members \<^verbatim>\<open>Low = 250\<close>,
  \<^verbatim>\<open>High = 750\<close> and \<^verbatim>\<open>Required = 1000\<close>, and the enum \<^verbatim>\<open>Annotation.CollisionMode\<close>
  exactly the two members \<^verbatim>\<open>Circle\<close> and \<^verbatim>\<open>Rectangle\<close>.
\<close>

theorem annotation_enums:
  "map (\<lambda>(path, ds).
     (path, namespace_enum ''Annotation'' ''DisplayPriority'' ds,
      namespace_enum ''Annotation'' ''CollisionMode'' ds)) repository =
   map (\<lambda>path.
     (path,
      Some [(''Low'', Some (NumLit 250)), (''High'', Some (NumLit 750)),
            (''Required'', Some (NumLit 1000))],
      Some [(''Circle'', Some (StrLit ''Circle'')),
            (''Rectangle'', Some (StrLit ''Rectangle''))]))
     [''src/mapkit.d.ts'', ''src/unnamed/part_000'', ''src/unnamed/part_001'']"
  by (simp add: repository_def namespace_enum_def
        mapkit_d_ts_declared part_000_declared part_001_declared)
     (simp add: enum_members_def declared_def mapkit_d_ts_Annotation_namespace_def
        part_000_Annotation_namespace_def part_001_Annotation_namespace_def)

subsection \<open>Declarations only\<close>

lemma mapkit_d_ts_not_executable: "\<not> list_ex decl_executable mapkit_d_ts"
  by (simp add: mapkit_d_ts_def mapkit_d_ts_decls)

lemma part_000_not_executable: "\<not> list_ex decl_executable part_000"
  by (simp add: part_000_def part_000_decls)

lemma part_001_not_executable: "\<not> list_ex decl_executable part_001"
  by (simp add: part_001_def part_001_decls)

text \<open>
  C10. No declaration of the repository carries an executable definition: in every
  file, no function, method or constructor has a body and no variable has an
  initialiser, in nested namespaces as well; a declaration is a signature only.
\<close>

theorem no_executable_definition:
  "list_all (\<lambda>(path, ds). \<not> list_ex decl_executable ds) repository"
  by (simp add: repository_def mapkit_d_ts_not_executable part_000_not_executable
      part_001_not_executable)

subsection \<open>The error shape and the failure codes\<close>

lemma mapkit_d_ts_enums:
  "declared_enums mapkit_d_ts =
     [''Map.MapTypes'', ''Map.ColorSchemes'', ''Map.Distances'',
      ''Annotation.DisplayPriority'', ''Annotation.CollisionMode'', ''FeatureVisibility'']"
  by (simp add: mapkit_d_ts_def mapkit_d_ts_decls)

lemma part_000_enums:
  "declared_enums part_000 =
     [''MapKitInitSuccessStatus'', ''MapKitInitFailureStatus'', ''LocationError'',
      ''Map.MapTypes'', ''Map.ColorSchemes'', ''Map.Distances'',
      ''Annotation.DisplayPriority'', ''Annotation.CollisionMode'', ''FeatureVisibility'']"
  by (simp add: part_000_def part_000_decls)

lemma part_001_enums:
  "declared_enums part_001 =
     [''MapKitInitSuccessStatus'', ''MapKitInitFailureStatus'', ''LocationError'',
      ''Map.MapTypes'', ''Map.ColorSchemes'', ''Map.Distances'',
      ''Annotation.DisplayPriority'', ''Annotation.CollisionMode'', ''FeatureVisibility'',
      ''FillOpacityRule'', ''LineCapStyle'', ''LineJoinStyle'', ''Directions.Transport'']"
  by (simp add: part_001_def part_001_decls)

text \<open>
  C4. The repository declares the error shape \<^verbatim>\<open>MapKitError\<close> with exactly the fields
  \<^verbatim>\<open>code: number\<close> and \<^verbatim>\<open>message: string\<close>, and its failure codes are exactly the four
  members of \<^verbatim>\<open>LocationError\<close> (permission denied, position unavailable, timeout, MapKit
  not initialised) and the two members of \<^verbatim>\<open>MapKitInitFailureStatus\<close> (unauthorized, too
  many requests): the two files that declare them declare them so, these are the only
  enums of failure codes among all the enums of any file, and \<^verbatim>\<open>src/mapkit.d.ts\<close>
  declares none of the three.
\<close>

theorem error_shape_and_failure_codes:
  "list_all (\<lambda>ds.
     interface_members ''MapKitError'' ds =
       Some [MProperty ''code'' False (Some TNumber), MProperty ''message'' False (Some TString)] \<and>
     enum_members ''LocationError'' ds =
       Some [(''PERMISSION_DENIED'', Some (NumLit 1)), (''POSITION_UNAVAILABLE'', Some (NumLit 2)),
             (''TIMEOUT'', Some (NumLit 3)), (''MAPKIT_NOT_INITIALIZED'', Some (NumLit 4))] \<and>
     enum_members ''MapKitInitFailureStatus'' ds =
       Some [(''unauthorized'', Some (StrLit ''Unauthorized'')),
             (''tooManyRequests'', Some (StrLit ''Too Many Requests''))] \<and>
     failure_enums ds = [''MapKitInitFailureStatus'', ''LocationError''])
     [part_000, part_001] \<and>
   interface_members ''MapKitError'' mapkit_d_ts = None \<and>
   enum_members ''LocationError'' mapkit_d_ts = None \<and>
   enum_members ''MapKitInitFailureStatus'' mapkit_d_ts = None \<and>
   failure_enums mapkit_d_ts = [] \<and>
   map (\<lambda>(path, ds). declared_enums ds) repository =
     [[''Map.MapTypes'', ''Map.ColorSchemes'', ''Map.Distances'',
       ''Annotation.DisplayPriority'', ''Annotation.CollisionMode'', ''FeatureVisibility''],
      [''MapKitInitSuccessStatus'', ''MapKitInitFailureStatus'', ''LocationError'',
       ''Map.MapTypes'', ''Map.ColorSchemes'', ''Map.Distances'',
       ''Annotation.DisplayPriority'', ''Annotation.CollisionMode'', ''FeatureVisibility''],
      [''MapKitInitSuccessStatus'', ''MapKitInitFailureStatus'', ''LocationError'',
       ''Map.MapTypes'', ''Map.ColorSchemes'', ''Map.Distances'',
       ''Annotation.DisplayPriority'', ''Annotation.CollisionMode'', ''FeatureVisibility'',
       ''FillOpacityRule'', ''LineCapStyle'', ''LineJoinStyle'', ''Directions.Transport'']]"
  by (simp add: repository_def lookups failure_enums_def
      mapkit_d_ts_enums part_000_enums part_001_enums
      mapkit_d_ts_declared
      part_000_declared part_000_MapKitError_def part_000_LocationError_def
      part_000_MapKitInitFailureStatus_def
      part_001_declared part_001_MapKitError_def part_001_LocationError_def
      part_001_MapKitInitFailureStatus_def)

subsection \<open>Request IDs and cancellation\<close>

text \<open>
  C1. The asynchronous request operations are meant to return a numeric request ID, and
  their class to declare \<^verbatim>\<open>cancel(id: number)\<close>. \<^verbatim>\<open>src/unnamed/part_001\<close> declares all
  five so. The other two files fall short of it: in \<^verbatim>\<open>src/mapkit.d.ts\<close> the methods
  \<^verbatim>\<open>Geocoder.reverseLookup\<close>, \<^verbatim>\<open>Search.search\<close> and \<^verbatim>\<open>Search.autocomplete\<close> have no return
  type annotation, and in \<^verbatim>\<open>src/mapkit.d.ts\<close> and \<^verbatim>\<open>src/unnamed/part_000\<close> the class
  \<^verbatim>\<open>Search\<close> declares no \<^verbatim>\<open>cancel\<close>, although its documentation comment says that
  a request can be cancelled by ID. (Neither of these two files declares \<^verbatim>\<open>Directions\<close>,
  so nothing is asked of \<^verbatim>\<open>route\<close> there.)
\<close>

theorem request_operations_by_file:
  "map (\<lambda>(path, ds). map (\<lambda>(c, m). request_operation_ok c m ds) request_operations) repository =
     [[True, False, False, False, True],
      [True, True, False, False, True],
      [True, True, True, True, True]] \<and>
   class_member ''Geocoder'' ''reverseLookup'' mapkit_d_ts =
     Some [MMethod ''reverseLookup'' False []
             [Param ''coordinate'' False (Some (TRef ''Coordinate'')),
              Param ''callback'' False
                (Some (TFun [Param ''error'' False None,
                             Param ''data'' False (Some (TRef ''GeocodeResponse''))] TVoid)),
              Param ''options'' True (Some (TRef ''GeocoderReverseLookupOptions''))]
             None None] \<and>
   map_option (map returns_request_id) (class_member ''Search'' ''search'' mapkit_d_ts) =
     Some [False] \<and>
   map_option (map returns_request_id) (class_member ''Search'' ''autocomplete'' mapkit_d_ts) =
     Some [False] \<and>
   class_member ''Search'' ''cancel'' mapkit_d_ts = Some [] \<and>
   class_member ''Search'' ''cancel'' part_000 = Some [] \<and>
   class_member ''Directions'' ''route'' mapkit_d_ts = None \<and>
   class_member ''Directions'' ''route'' part_000 = None"
  by (simp add: repository_def request_operations_def request_operation_ok_def lookups
      mapkit_d_ts_declared mapkit_d_ts_Geocoder_def mapkit_d_ts_Search_def
      part_000_declared part_000_Geocoder_def part_000_Search_def
      part_001_declared part_001_Geocoder_def part_001_Search_def part_001_Directions_def)

subsection \<open>Constructors of the per-instance classes\<close>

text \<open>
  C2 as stated fails. The constructor of \<^verbatim>\<open>Geocoder\<close> in \<^verbatim>\<open>src/unnamed/part_001\<close> takes the options alone:
  not every per-instance class takes a host element or selector.
\<close>

theorem geocoder_constructor_takes_no_host:
  "class_constructors ''Geocoder'' part_001 =
     Some [[Param ''options'' True (Some (TRef ''GeocoderConstructorOptions''))]] \<and>
   \<not> constructor_takes_host_and_options ''Geocoder'' part_001"
  by (simp add: constructor_takes_host_and_options_def takes_host_and_options_def
      is_host_param_def lookups part_001_declared part_001_Geocoder_def)

text \<open>
  C2, amended. Each of \<^verbatim>\<open>Map\<close>, \<^verbatim>\<open>Annotation\<close>, \<^verbatim>\<open>Geocoder\<close>, \<^verbatim>\<open>Search\<close> and
  \<^verbatim>\<open>Directions\<close>, in every file that declares it, declares exactly one constructor, whose
  last parameter is the optional \<^verbatim>\<open>options\<close> object of the class's own
  \<^verbatim>\<open>ConstructorOptions\<close> type. Only the constructor of \<^verbatim>\<open>Map\<close> also takes a host element
  or selector: it is \<^verbatim>\<open>constructor(parent?: string | Element, options?: MapConstructorOptions)\<close>
  in \<^verbatim>\<open>src/mapkit.d.ts\<close>, and the same with \<^verbatim>\<open>HTMLElement\<close> for \<^verbatim>\<open>Element\<close> in the other
  two files. The constructor of \<^verbatim>\<open>Annotation\<close> is
  \<^verbatim>\<open>constructor(coordinate: Coordinate, factory: Function, options?: AnnotationConstructorOptions)\<close>;
  those of \<^verbatim>\<open>Geocoder\<close>, \<^verbatim>\<open>Search\<close> and \<^verbatim>\<open>Directions\<close> take the optional \<^verbatim>\<open>options\<close>
  alone. All three files declare the first four classes; only \<^verbatim>\<open>src/unnamed/part_001\<close>
  declares \<^verbatim>\<open>Directions\<close>.
\<close>

theorem constructors_take_options:
  "map (\<lambda>(path, ds). (path, map (\<lambda>c. class_constructors c ds) per_instance_classes)) repository =
     [(''src/mapkit.d.ts'',
       [Some [[Param ''parent'' True (Some (TUnion [TString, TRef ''Element''])),
               Param ''options'' True (Some (TRef ''MapConstructorOptions''))]],
        Some [[Param ''coordinate'' False (Some (TRef ''Coordinate'')),
               Param ''factory'' False (Some (TRef ''Function'')),
               Param ''options'' True (Some (TRef ''AnnotationConstructorOptions''))]],
        Some [[Param ''options'' True (Some (TRef ''GeocoderConstructorOptions''))]],
        Some [[Param ''options'' True (Some (TRef ''SearchConstructorOptions''))]],
        None]),
      (''src/unnamed/part_000'',
       [Some [[Param ''parent'' True (Some (TUnion [TString, TRef ''HTMLElement''])),
               Param ''options'' True (Some (TRef ''MapConstructorOptions''))]],
        Some [[Param ''coordinate'' False (Some (TRef ''Coordinate'')),
               Param ''factory'' False (Some (TRef ''Function'')),
               Param ''options'' True (Some (TRef ''AnnotationConstructorOptions''))]],
        Some [[Param ''options'' True (Some (TRef ''GeocoderConstructorOptions''))]],
        Some [[Param ''options'' True (Some (TRef ''SearchConstructorOptions''))]],
        None]),
      (''src/unnamed/part_001'',
       [Some [[Param ''parent'' True (Some (TUnion [TString, TRef ''HTMLElement''])),
               Param ''options'' True (Some (TRef ''MapConstructorOptions''))]],
        Some [[Param ''coordinate'' False (Some (TRef ''Coordinate'')),
               Param ''factory'' False (Some (TRef ''Function'')),
               Param ''options'' True (Some (TRef ''AnnotationConstructorOptions''))]],
        Some [[Param ''options'' True (Some (TRef ''GeocoderConstructorOptions''))]],
        Some [[Param ''options'' True (Some (TRef ''SearchConstructorOptions''))]],
        Some [[Param ''options'' True (Some (TRef ''DirectionsConstructorOptions''))]]])] \<and>
   map (\<lambda>(path, ds). map (\<lambda>c. constructor_takes_host_and_options c ds) per_instance_classes)
     repository =
     [[True, False, False, False, False],
      [True, False, False, False, False],
      [True, False, False, False, False]] \<and>
   list_all (\<lambda>(path, ds).
     list_all (\<lambda>c.
       case class_constructors c ds of
         None \<Rightarrow> c = ''Directions''
       | Some cs \<Rightarrow>
           (case cs of
              [ps] \<Rightarrow> ps \<noteq> [] \<and> is_options_param c (last ps) \<and>
                      list_ex is_host_param ps = (c = ''Map'')
            | _ \<Rightarrow> False)) per_instance_classes \<and>
     constructor_takes_host_and_options ''Map'' ds \<and>
     map_option (map (map param_name)) (class_constructors ''Map'' ds) =
       Some [[''parent'', ''options'']]) repository \<and>
   map (\<lambda>(path, ds). class_constructors ''Directions'' ds = None) repository =
     [True, True, False]"
  by (simp add: repository_def per_instance_classes_def constructor_takes_host_and_options_def
      takes_host_and_options_def is_host_param_def is_options_param_def lookups
      mapkit_d_ts_declared mapkit_d_ts_Map_def mapkit_d_ts_Annotation_def
      mapkit_d_ts_Geocoder_def mapkit_d_ts_Search_def
      part_000_declared part_000_Map_def part_000_Annotation_def
      part_000_Geocoder_def part_000_Search_def
      part_001_declared part_001_Map_def part_001_Annotation_def
      part_001_Geocoder_def part_001_Search_def part_001_Directions_def)

subsection \<open>Geocoder and Search in two files\<close>

text \<open>
  C3 as stated fails. The \<^verbatim>\<open>Geocoder\<close> and \<^verbatim>\<open>Search\<close> classes of \<^verbatim>\<open>src/mapkit.d.ts\<close> and of
  \<^verbatim>\<open>src/unnamed/part_001\<close> are not equal member for member: neither class is.
\<close>

theorem geocoder_search_surfaces_differ:
  "\<not> same_surface ''Geocoder'' mapkit_d_ts part_001 \<and>
   \<not> same_surface ''Search'' mapkit_d_ts part_001"
  by (simp add: same_surface_def lookups mapkit_d_ts_declared part_001_declared
      mapkit_d_ts_Geocoder_def mapkit_d_ts_Search_def part_001_Geocoder_def part_001_Search_def)

text \<open>
  C3, amended. \<^verbatim>\<open>src/unnamed/part_001\<close> declares \<^verbatim>\<open>Geocoder\<close> with the constructor, the
  properties \<^verbatim>\<open>getsUserLocation: boolean\<close> and \<^verbatim>\<open>language: string\<close>, the methods
  \<^verbatim>\<open>lookup\<close> and \<^verbatim>\<open>reverseLookup\<close> that take a callback
  \<^verbatim>\<open>(error: MapKitError, data: GeocodeResponse) => void\<close> and return \<^verbatim>\<open>number\<close>, and
  \<^verbatim>\<open>cancel(id: number): boolean\<close>; and \<^verbatim>\<open>Search\<close> with the constructor, the methods
  \<^verbatim>\<open>search\<close> and \<^verbatim>\<open>autocomplete\<close> that take a \<^verbatim>\<open>SearchDelegate\<close> or a callback with
  \<^verbatim>\<open>error: MapKitError\<close> and return \<^verbatim>\<open>number\<close>, and \<^verbatim>\<open>cancel(id: number): boolean\<close>; the
  members are exactly those of the statement. \<^verbatim>\<open>src/mapkit.d.ts\<close> is refined by it: its
  \<^verbatim>\<open>Geocoder\<close> has the same six members and its \<^verbatim>\<open>Search\<close> at least the first three, at
  the same positions, with the same names, optionality and type parameters; the
  constructors and the properties are declared identically; the methods have the same
  parameters, except that the \<^verbatim>\<open>error\<close> parameter of the callbacks carries no type
  annotation in \<^verbatim>\<open>src/mapkit.d.ts\<close>; \<^verbatim>\<open>lookup\<close> returns \<^verbatim>\<open>number\<close> in both files, and
  wherever \<^verbatim>\<open>src/mapkit.d.ts\<close> writes another return type it is the one of
  \<^verbatim>\<open>src/unnamed/part_001\<close>. Which other return types \<^verbatim>\<open>src/mapkit.d.ts\<close> writes, and
  whether its \<^verbatim>\<open>Search\<close> declares \<^verbatim>\<open>cancel\<close>, is the matter of C1 and is left open here.
\<close>

theorem part_001_refines_mapkit_d_ts:
  "class_members ''Geocoder'' part_001 =
     Some [MConstructor [Param ''options'' True (Some (TRef ''GeocoderConstructorOptions''))] None,
           MProperty ''getsUserLocation'' False (Some TBoolean),
           MProperty ''language'' False (Some TString),
           MMethod ''lookup'' False []
             [Param ''place'' False (Some TString),
              Param ''callback'' False
                (Some (TFun [Param ''error'' False (Some (TRef ''MapKitError'')),
                             Param ''data'' False (Some (TRef ''GeocodeResponse''))] TVoid)),
              Param ''options'' True (Some (TRef ''GeocoderLookupOptions''))]
             (Some TNumber) None,
           MMethod ''reverseLookup'' False []
             [Param ''coordinate'' False (Some (TRef ''Coordinate'')),
              Param ''callback'' False
                (Some (TFun [Param ''error'' False (Some (TRef ''MapKitError'')),
                             Param ''data'' False (Some (TRef ''GeocodeResponse''))] TVoid)),
              Param ''options'' True (Some (TRef ''GeocoderReverseLookupOptions''))]
             (Some TNumber) None,
           MMethod ''cancel'' False [] [Param ''id'' False (Some TNumber)] (Some TBoolean) None] \<and>
   class_members ''Search'' part_001 =
     Some [MConstructor [Param ''options'' True (Some (TRef ''SearchConstructorOptions''))] None,
           MMethod ''search'' False []
             [Param ''query'' False (Some (TUnion [TString, TRef ''SearchAutocompleteResult''])),
              Param ''callback'' False
                (Some (TUnion
                   [TRef ''SearchDelegate'',
                    TFun [Param ''error'' False (Some (TRef ''MapKitError'')),
                          Param ''data'' False (Some (TRef ''SearchResponse''))] TVoid])),
              Param ''options'' True (Some (TRef ''SearchOptions''))]
             (Some TNumber) None,
           MMethod ''autocomplete'' False []
             [Param ''query'' False (Some TString),
              Param ''callback'' False
                (Some (TUnion
                   [TRef ''SearchDelegate'',
                    TFun [Param ''error'' False (Some (TRef ''MapKitError'')),
                          Param ''data'' False (Some (TRef ''SearchAutocompleteResponse''))] TVoid])),
              Param ''options'' True (Some (TRef ''SearchOptions''))]
             (Some TNumber) None,
           MMethod ''cancel'' False [] [Param ''id'' False (Some TNumber)] (Some TBoolean) None] \<and>
   map_option (map member_params) (class_members ''Geocoder'' mapkit_d_ts) =
     Some [[Param ''options'' True (Some (TRef ''GeocoderConstructorOptions''))],
           [],
           [],
           [Param ''place'' False (Some TString),
            Param ''callback'' False
              (Some (TFun [Param ''error'' False None,
                           Param ''data'' False (Some (TRef ''GeocodeResponse''))] TVoid)),
            Param ''options'' True (Some (TRef ''GeocoderLookupOptions''))],
           [Param ''coordinate'' False (Some (TRef ''Coordinate'')),
            Param ''callback'' False
              (Some (TFun [Param ''error'' False None,
                           Param ''data'' False (Some (TRef ''GeocodeResponse''))] TVoid)),
            Param ''options'' True (Some (TRef ''GeocoderReverseLookupOptions''))],
           [Param ''id'' False (Some TNumber)]] \<and>
   map_option (\<lambda>ms. take 3 (map member_params ms)) (class_members ''Search'' mapkit_d_ts) =
     Some [[Param ''options'' True (Some (TRef ''SearchConstructorOptions''))],
           [Param ''query'' False (Some (TUnion [TString, TRef ''SearchAutocompleteResult''])),
            Param ''callback'' False
              (Some (TUnion
                 [TRef ''SearchDelegate'',
                  TFun [Param ''error'' False None,
                        Param ''data'' False (Some (TRef ''SearchResponse''))] TVoid])),
            Param ''options'' True (Some (TRef ''SearchOptions''))],
           [Param ''query'' False (Some TString),
            Param ''callback'' False
              (Some (TUnion
                 [TRef ''SearchDelegate'',
                  TFun [Param ''error'' False None,
                        Param ''data'' False (Some (TRef ''SearchAutocompleteResponse''))] TVoid])),
            Param ''options'' True (Some (TRef ''SearchOptions''))]] \<and>
   surface_refines ''Geocoder'' mapkit_d_ts part_001 \<and>
   surface_refines ''Search'' mapkit_d_ts part_001 \<and>
   list_all (\<lambda>c.
     map_option (filter (\<lambda>m. \<not> is_method m)) (class_members c mapkit_d_ts) =
     map_option (filter (\<lambda>m. \<not> is_method m)) (class_members c part_001) \<and>
     class_members c mapkit_d_ts \<noteq> None) [''Geocoder'', ''Search''] \<and>
   map_option (map returns_request_id) (class_member ''Geocoder'' ''lookup'' mapkit_d_ts) =
     Some [True] \<and>
   map_option (map returns_request_id) (class_member ''Geocoder'' ''lookup'' part_001) =
     Some [True]"
  by (simp add: surface_refines_def lookups mapkit_d_ts_declared part_001_declared
      mapkit_d_ts_Geocoder_def mapkit_d_ts_Search_def part_001_Geocoder_def part_001_Search_def)

subsection \<open>GeoJSON import\<close>

text \<open>
  C5 as stated fails. \<^verbatim>\<open>src/mapkit.d.ts\<close> declares no function \<^verbatim>\<open>importGeoJSON\<close>: not every file of the
  repository declares the GeoJSON import.
\<close>

theorem mapkit_d_ts_has_no_importGeoJSON:
  "function_signature ''importGeoJSON'' mapkit_d_ts = None \<and>
   \<not> declares_importGeoJSON mapkit_d_ts"
  by (simp add: declares_importGeoJSON_def lookups mapkit_d_ts_declared)

text \<open>
  C5, amended. \<^verbatim>\<open>src/unnamed/part_001\<close>, and only this file of the three, declares the
  GeoJSON import: \<^verbatim>\<open>importGeoJSON\<close> takes the data and, as its second parameter, a
  \<^verbatim>\<open>GeoJSONDelegate\<close> object or a callback function, and \<^verbatim>\<open>GeoJSONDelegate\<close> declares
  for each of the eight GeoJSON types exactly one hook, an optional property of
  function type, the eight hooks being distinct.
\<close>

theorem importGeoJSON_in_part_001:
  "map (\<lambda>(path, ds). declares_importGeoJSON ds) repository = [False, False, True] \<and>
   function_signature ''importGeoJSON'' part_001 =
     Some ([Param ''data'' False (Some (TUnion [TString, TObject])),
            Param ''callback'' False
              (Some (TUnion [TRef ''GeoJSONDelegate'',
                             TFun [Param ''error'' False (Some (TRef ''MapKitError'')),
                                   Param ''result'' False (Some (TRef ''ItemCollection''))]
                                  TVoid]))],
           Some (TUnion [TRef ''Error'', TRef ''ItemCollection''])) \<and>
   distinct (map (\<lambda>g. ''itemFor'' @ g) geojson_types) \<and>
   map (\<lambda>(path, ds). function_signature ''importGeoJSON'' ds = None) repository =
     [True, True, False] \<and>
   map (\<lambda>(path, ds). interface_members ''GeoJSONDelegate'' ds = None) repository =
     [True, True, False]"
  by (simp add: repository_def declares_importGeoJSON_def geojson_types_def lookups
      mapkit_d_ts_declared part_000_declared part_001_declared
      part_001_importGeoJSON_def part_001_GeoJSONDelegate_def)

subsection \<open>The Map constructor and its options\<close>

text \<open>
  An object that satisfies a shape is assignable to it, written as a literal in place
  or not: all its properties are declared, so none is undeclared, and when it has a
  property at all, one is declared.
\<close>

lemma satisfies_shape_assignable:
  assumes "satisfies_shape conf ms fs"
  shows "object_assignable conf fr ms fs"
proof (cases fs)
  case Nil
  with assms show ?thesis
    by (simp add: satisfies_shape_def object_assignable_def)
next
  case (Cons nx rest)
  with assms show ?thesis
    by (simp add: satisfies_shape_def object_assignable_def)
qed

lemma mapkit_d_ts_Map_constructor:
  "class_constructors ''Map'' mapkit_d_ts =
     Some [[Param ''parent'' True (Some (TUnion [TString, TRef ''Element''])),
            Param ''options'' True (Some (TRef ''MapConstructorOptions''))]]"
  by (simp add: lookups mapkit_d_ts_declared mapkit_d_ts_Map_def)

lemma part_000_Map_constructor:
  "class_constructors ''Map'' part_000 =
     Some [[Param ''parent'' True (Some (TUnion [TString, TRef ''HTMLElement''])),
            Param ''options'' True (Some (TRef ''MapConstructorOptions''))]]"
  by (simp add: lookups part_000_declared part_000_Map_def)

lemma part_001_Map_constructor:
  "class_constructors ''Map'' part_001 =
     Some [[Param ''parent'' True (Some (TUnion [TString, TRef ''HTMLElement''])),
            Param ''options'' True (Some (TRef ''MapConstructorOptions''))]]"
  by (simp add: lookups part_001_declared part_001_Map_def)

text \<open>The shape of \<^verbatim>\<open>MapConstructorOptions\<close> in each file: its members, all optional properties.\<close>

lemma MapConstructorOptions_shape:
  "interface_shape ''MapConstructorOptions'' mapkit_d_ts =
     Some (decl_members mapkit_d_ts_MapConstructorOptions)"
  "interface_shape ''MapConstructorOptions'' part_000 =
     Some (decl_members part_000_MapConstructorOptions)"
  "interface_shape ''MapConstructorOptions'' part_001 =
     Some (decl_members part_001_MapConstructorOptions)"
  by (simp_all add: interface_shape_def mapkit_d_ts_declared part_000_declared part_001_declared
      mapkit_d_ts_MapConstructorOptions_def part_000_MapConstructorOptions_def
      part_001_MapConstructorOptions_def)

lemma MapConstructorOptions_optional:
  "length (decl_members mapkit_d_ts_MapConstructorOptions) = 24"
  "list_all is_optional_property (decl_members mapkit_d_ts_MapConstructorOptions)"
  "length (decl_members part_000_MapConstructorOptions) = 24"
  "list_all is_optional_property (decl_members part_000_MapConstructorOptions)"
  "length (decl_members part_001_MapConstructorOptions) = 24"
  "list_all is_optional_property (decl_members part_001_MapConstructorOptions)"
  by (simp_all add: mapkit_d_ts_MapConstructorOptions_def part_000_MapConstructorOptions_def
      part_001_MapConstructorOptions_def)

text \<open>
  C6. In each of the three files of the repository \<^verbatim>\<open>MapConstructorOptions\<close> has 24
  members, every one an optional property, and the constructor of \<^verbatim>\<open>Map\<close> accepts every
  object \<open>v\<close> that satisfies the shape of these members as its options argument: after a
  parent passed as \<^verbatim>\<open>undefined\<close>, and after every parent argument \<open>p\<close> the constructor
  accepts on its own; whether \<open>v\<close> is written as a literal in place or not, and whatever
  the judgement \<open>conf\<close> for the values of its properties is. The constructor also accepts
  the options argument left out (no argument at all, or the parent alone) and passed as
  \<^verbatim>\<open>undefined\<close>.
\<close>

theorem map_constructor_accepts_options:
  assumes "props v = Some fs"
  shows "map (\<lambda>(path, ds).
     (path,
      case interface_shape ''MapConstructorOptions'' ds of
        None \<Rightarrow> False
      | Some ms \<Rightarrow>
          length ms = 24 \<and> list_all is_optional_property ms \<and>
          (satisfies_shape conf ms fs \<longrightarrow>
             constructor_accepts (conforms_to props fresh conf ds) ''Map'' ds [None, Some v] \<and>
             (constructor_accepts (conforms_to props fresh conf ds) ''Map'' ds [Some p] \<longrightarrow>
              constructor_accepts (conforms_to props fresh conf ds) ''Map'' ds [Some p, Some v])) \<and>
          constructor_accepts (conforms_to props fresh conf ds) ''Map'' ds [] \<and>
          constructor_accepts (conforms_to props fresh conf ds) ''Map'' ds [None] \<and>
          constructor_accepts (conforms_to props fresh conf ds) ''Map'' ds [None, None] \<and>
          (constructor_accepts (conforms_to props fresh conf ds) ''Map'' ds [Some p] \<longrightarrow>
           constructor_accepts (conforms_to props fresh conf ds) ''Map'' ds [Some p, None])))
     repository =
   [(''src/mapkit.d.ts'', True), (''src/unnamed/part_000'', True),
    (''src/unnamed/part_001'', True)]"
  using assms
  by (simp add: repository_def constructor_accepts_def conforms_to_def
      mapkit_d_ts_Map_constructor part_000_Map_constructor part_001_Map_constructor
      MapConstructorOptions_shape MapConstructorOptions_optional satisfies_shape_assignable)

text \<open>
  C6 at concrete inputs, over \<^verbatim>\<open>src/unnamed/part_001\<close>: the options
  \<^verbatim>\<open>{ rotation: 90, showsZoomControl: true, mapType: Map.MapTypes.Hybrid, padding: new Padding() }\<close>
  written in place satisfy the shape and are accepted after the selector \<^verbatim>\<open>"#map"\<close>. For
  comparison: a padding given by its four numbers is accepted as well; an object whose
  only property is undeclared, a rotation that is a string, and a third argument are
  refused.
\<close>

theorem map_constructor_accepts_options_witness:
  "satisfies_shape (conforms part_001 3) (decl_members part_001_MapConstructorOptions)
     [(''rotation'', JNum 90), (''showsZoomControl'', JBool True),
      (''mapType'', JEnumMember ''Map.MapTypes'' ''Hybrid''), (''padding'', JNew ''Padding'')] \<and>
   constructor_accepts (conforms_to object_props is_fresh (conforms part_001 3) part_001)
     ''Map'' part_001 [Some (JStr ''#map'')] \<and>
   constructor_accepts (conforms_to object_props is_fresh (conforms part_001 3) part_001)
     ''Map'' part_001
     [Some (JStr ''#map''),
      Some (JLiteral
        [(''rotation'', JNum 90), (''showsZoomControl'', JBool True),
         (''mapType'', JEnumMember ''Map.MapTypes'' ''Hybrid''), (''padding'', JNew ''Padding'')])] \<and>
   constructor_accepts (conforms_to object_props is_fresh (conforms part_001 3) part_001)
     ''Map'' part_001
     [Some (JStr ''#map''),
      Some (JLiteral
        [(''padding'',
          JLiteral [(''top'', JNum 8), (''left'', JNum 8), (''bottom'', JNum 8), (''right'', JNum 8)])])] \<and>
   \<not> constructor_accepts (conforms_to object_props is_fresh (conforms part_001 3) part_001)
     ''Map'' part_001 [Some (JStr ''#map''), Some (JObject [(''bogus'', JNum 1)])] \<and>
   \<not> constructor_accepts (conforms_to object_props is_fresh (conforms part_001 3) part_001)
     ''Map'' part_001 [Some (JStr ''#map''), Some (JLiteral [(''rotation'', JStr ''90'')])] \<and>
   \<not> constructor_accepts (conforms_to object_props is_fresh (conforms part_001 3) part_001)
     ''Map'' part_001 [Some (JStr ''#map''), Some (JLiteral []), Some (JLiteral [])]"
proof -
  let ?fs = "[(''rotation'', JNum 90), (''showsZoomControl'', JBool True),
      (''mapType'', JEnumMember ''Map.MapTypes'' ''Hybrid''), (''padding'', JNew ''Padding'')]"
  let ?J = "conforms_to object_props is_fresh (conforms part_001 3) part_001"
  have shape: "satisfies_shape (conforms part_001 3)
      (decl_members part_001_MapConstructorOptions) ?fs"
    by (simp add: satisfies_shape_def is_declared_def property_conforms_def required_present_def
        numeral_3_eq_3 enum_member_literal_def qualified_enum_def namespace_enum_def
        enum_members_def declared_def [of KEnum] part_001_declared
        part_001_MapConstructorOptions_def part_001_Map_namespace_def part_001_Padding_def)
  have parent: "constructor_accepts ?J ''Map'' part_001 [Some (JStr ''#map'')]"
    by (simp add: constructor_accepts_def conforms_to_def part_001_Map_constructor numeral_3_eq_3)
  have props: "object_props (JLiteral ?fs) = Some ?fs"
    by simp
  have accepted: "constructor_accepts ?J ''Map'' part_001 [Some (JStr ''#map''), Some (JLiteral ?fs)]"
    using map_constructor_accepts_options
      [where props = object_props and v = "JLiteral ?fs" and fs = ?fs
         and conf = "conforms part_001 3" and fresh = is_fresh and p = "JStr ''#map''",
       OF props]
      shape parent
    by (simp add: repository_def MapConstructorOptions_shape)
  have padding: "constructor_accepts ?J ''Map'' part_001
      [Some (JStr ''#map''),
       Some (JLiteral
         [(''padding'',
           JLiteral [(''top'', JNum 8), (''left'', JNum 8), (''bottom'', JNum 8), (''right'', JNum 8)])])]"
    by (simp add: constructor_accepts_def conforms_to_def part_001_Map_constructor numeral_3_eq_3
        MapConstructorOptions_shape object_assignable_def is_declared_def property_conforms_def
        required_present_def interface_shape_def [of "''Padding''"] class_shape_def
        part_001_declared part_001_MapConstructorOptions_def part_001_Padding_def)
  have bogus: "\<not> constructor_accepts ?J ''Map'' part_001
      [Some (JStr ''#map''), Some (JObject [(''bogus'', JNum 1)])]"
    by (simp add: constructor_accepts_def conforms_to_def part_001_Map_constructor numeral_3_eq_3
        MapConstructorOptions_shape object_assignable_def is_declared_def is_weak_def
        part_001_MapConstructorOptions_def)
  have rotation: "\<not> constructor_accepts ?J ''Map'' part_001
      [Some (JStr ''#map''), Some (JLiteral [(''rotation'', JStr ''90'')])]"
    by (simp add: constructor_accepts_def conforms_to_def part_001_Map_constructor numeral_3_eq_3
        MapConstructorOptions_shape object_assignable_def is_declared_def property_conforms_def
        part_001_MapConstructorOptions_def)
  have third: "\<not> constructor_accepts ?J ''Map'' part_001
      [Some (JStr ''#map''), Some (JLiteral []), Some (JLiteral [])]"
    by (simp add: constructor_accepts_def part_001_Map_constructor)
  from shape parent accepted padding bogus rotation third show ?thesis
    by simp
qed


end
